(* ===== verification/Prelude.thy ===== *)
theory Prelude
  imports Main
begin

text \<open>
  Shared vocabulary of the model of \<^verbatim>\<open>scripts/render-manim.py\<close>: the Python exceptions
  that can escape a call, the Python values that \<^verbatim>\<open>json.loads\<close> produces and the
  operations the script applies to them (truthiness, \<^verbatim>\<open>d[k]\<close>, \<^verbatim>\<open>str()\<close>),
  decimal printing of integers, the outcome of one \<^verbatim>\<open>urllib.request.urlopen\<close> call,
  and the trace of externally visible effects that every component appends to.
  Strings are \<open>char list\<close>; a \<open>char\<close> stands for the Unicode code point of the same
  number, so the model covers text in the range U+0000..U+00FF.
\<close>

named_theorems py_defs "definitions of the Python-level helpers, unfolded when evaluating"
named_theorems model_defs "definitions of the script's steps, unfolded to run the model on a concrete world"

section \<open>Exceptions\<close>

text \<open>The exceptions the script does not catch (and so end the run with a traceback).\<close>

datatype py_exc =
    URLError            \<comment> \<open>urlopen failed without an HTTP status (network, DNS, reset)\<close>
  | JSONDecodeError     \<comment> \<open>json.loads on a body that is not JSON\<close>
  | TypeError
  | KeyError
  | TimeoutExpired      \<comment> \<open>subprocess.run exceeded its timeout\<close>
  | FileNotFoundError   \<comment> \<open>executable missing, or a path that does not exist\<close>
  | IsADirectoryError
  | NotADirectoryError

section \<open>Python values produced by json.loads\<close>

text \<open>
  \<^verbatim>\<open>json.loads\<close> yields None, bools, ints, strings, lists and dicts. A dict is the list of
  its items in insertion order, with distinct keys (json.loads keeps the last value of a
  repeated key at the key's first position; the library is not modelled, its result is).
  JSON numbers with a fraction or exponent (Python floats) are outside the model.
\<close>

datatype pyval =
    PNone
  | PBool bool
  | PInt int
  | PStr string
  | PList "pyval list"
  | PDict "(string \<times> pyval) list"

fun py_truthy :: "pyval \<Rightarrow> bool" where
  "py_truthy PNone = False"
| "py_truthy (PBool b) = b"
| "py_truthy (PInt i) = (i \<noteq> 0)"
| "py_truthy (PStr s) = (s \<noteq> [])"
| "py_truthy (PList xs) = (xs \<noteq> [])"
| "py_truthy (PDict kvs) = (kvs \<noteq> [])"

text \<open>\<^verbatim>\<open>v[k]\<close> with a string key: a dict looks the key up (KeyError when absent);
  every other value the script can meet raises TypeError (str and list indices must be
  integers, None, bool and int are not subscriptable).\<close>

fun py_getitem :: "pyval \<Rightarrow> string \<Rightarrow> py_exc + pyval" where
  "py_getitem (PDict kvs) k = (case map_of kvs k of None \<Rightarrow> Inl KeyError | Some v \<Rightarrow> Inr v)"
| "py_getitem _ k = Inl TypeError"

section \<open>Decimal printing: str(int)\<close>

definition digit_char :: "nat \<Rightarrow> char" where
  "digit_char d = char_of (48 + d)"

fun nat_str :: "nat \<Rightarrow> string" where
  "nat_str n = (if n < 10 then [digit_char n] else nat_str (n div 10) @ [digit_char (n mod 10)])"

declare nat_str.simps [simp del]

definition int_str :: "int \<Rightarrow> string" where
  "int_str i = (if i < 0 then CHR ''-'' # nat_str (nat (- i)) else nat_str (nat i))"

section \<open>str() and repr() of the values\<close>

text \<open>Python's \<^verbatim>\<open>repr(str)\<close>: single quotes unless the text holds a single quote and
  no double quote; backslash, the chosen quote, tab, newline and carriage return escaped;
  the other non-printable code points below U+0100 (C0, DEL, C1, NBSP, soft hyphen) as
  \<^verbatim>\<open>\xhh\<close>.\<close>

definition hex_digit :: "nat \<Rightarrow> char" where
  "hex_digit d = (if d < 10 then char_of (48 + d) else char_of (87 + d))"

definition py_printable :: "char \<Rightarrow> bool" where
  "py_printable c = (let n = of_char c :: nat in
     \<not> (n < 32 \<or> (127 \<le> n \<and> n \<le> 160) \<or> n = 173))"

definition repr_char :: "char \<Rightarrow> char \<Rightarrow> string" where
  "repr_char q c =
     (if c = CHR 0x5C then [CHR 0x5C, CHR 0x5C]
      else if c = q then [CHR 0x5C, c]
      else if c = CHR 0x09 then [CHR 0x5C, CHR ''t'']
      else if c = CHR 0x0A then [CHR 0x5C, CHR ''n'']
      else if c = CHR 0x0D then [CHR 0x5C, CHR ''r'']
      else if \<not> py_printable c then
        [CHR 0x5C, CHR ''x'', hex_digit (of_char c div 16), hex_digit (of_char c mod 16)]
      else [c])"

definition repr_str :: "string \<Rightarrow> string" where
  "repr_str s =
     (let q = (if CHR 0x27 \<in> set s \<and> CHR 0x22 \<notin> set s then CHR 0x22 else CHR 0x27)
      in q # concat (map (repr_char q) s) @ [q])"

text \<open>\<^verbatim>\<open>sep.join(parts)\<close>.\<close>

fun py_join :: "string \<Rightarrow> string list \<Rightarrow> string" where
  "py_join sep [] = []"
| "py_join sep [x] = x"
| "py_join sep (x # xs) = x @ sep @ py_join sep xs"

fun py_repr :: "pyval \<Rightarrow> string" where
  "py_repr PNone = ''None''"
| "py_repr (PBool b) = (if b then ''True'' else ''False'')"
| "py_repr (PInt i) = int_str i"
| "py_repr (PStr s) = repr_str s"
| "py_repr (PList xs) = CHR ''['' # py_join '', '' (map py_repr xs) @ '']''"
| "py_repr (PDict kvs) =
     CHR ''{'' # py_join '', '' (map (\<lambda>(k, v). repr_str k @ '': '' @ py_repr v) kvs) @ ''}''"

text \<open>\<^verbatim>\<open>str(v)\<close>, which an f-string \<^verbatim>\<open>f"{v}"\<close> applies: the text itself for a
  string, \<^verbatim>\<open>repr\<close> otherwise.\<close>

fun py_str :: "pyval \<Rightarrow> string" where
  "py_str (PStr s) = s"
| "py_str v = py_repr v"

section \<open>HTTP and the effect trace\<close>

datatype http_method = GET | POST | PUT | PATCH

text \<open>One \<^verbatim>\<open>urlopen\<close> call: a response with its status and its body (already
  decoded, of type \<open>'b\<close>), an \<^verbatim>\<open>HTTPError\<close> with its code, or any other failure
  (\<^verbatim>\<open>URLError\<close>), which no handler of the script catches.\<close>

datatype 'b http_resp = Resp nat 'b | HTTPErr nat | NetErr

text \<open>The externally visible actions of a run, in order.\<close>

datatype effect =
    ERequest http_method string "(string \<times> string) list" "pyval option"
      \<comment> \<open>method, URL, headers, JSON body (None: no data)\<close>
  | EUpload http_method string "(string \<times> string) list" string
      \<comment> \<open>method, URL, headers, local file sent as body\<close>
  | ERun "string list" "string option"   \<comment> \<open>argv and working directory of a subprocess\<close>
  | EWriteText string string             \<comment> \<open>path and content\<close>
  | EMkdir string
  | ETempCreate string | ETempCleanup string

definition path_join :: "string \<Rightarrow> string \<Rightarrow> string" where
  "path_join a b = a @ ''/'' @ b"

text \<open>A Python statement sequence that performs effects and may raise: the effects
  issued so far and the value, or the exception that stops the sequence.\<close>

type_synonym 'a py = "effect list \<times> (py_exc + 'a)"

definition py_bind :: "'a py \<Rightarrow> ('a \<Rightarrow> 'b py) \<Rightarrow> 'b py" where
  "py_bind m f = (case snd m of Inl e \<Rightarrow> (fst m, Inl e) | Inr a \<Rightarrow> (fst m @ fst (f a), snd (f a)))"

declare digit_char_def [py_defs] int_str_def [py_defs] hex_digit_def [py_defs]
  py_printable_def [py_defs] repr_char_def [py_defs] repr_str_def [py_defs]
  path_join_def [py_defs]

section \<open>Generic lemmas\<close>

lemma py_bind_Inl [simp]: "py_bind (es, Inl e) f = (es, Inl e)"
  by (simp add: py_bind_def)

lemma py_bind_Inr [simp]: "py_bind (es, Inr a) f = (es @ fst (f a), snd (f a))"
  by (simp add: py_bind_def)

lemma py_bind_assoc: "py_bind (py_bind m f) g = py_bind m (\<lambda>a. py_bind (f a) g)"
  by (cases m) (auto simp: py_bind_def split: sum.split)

lemma py_bind_result_Inr:
  "snd (py_bind m f) = Inr b \<longleftrightarrow> (\<exists>a. snd m = Inr a \<and> snd (f a) = Inr b)"
  by (auto simp: py_bind_def split: sum.split)

lemma of_char_digit_char [simp]: "d < 10 \<Longrightarrow> of_char (digit_char d) = 48 + d"
  by (simp add: digit_char_def of_char_of)

lemma digit_char_inj:
  assumes "a < 10" "b < 10" "digit_char a = digit_char b"
  shows "a = b"
proof -
  from assms(3) have "of_char (digit_char a) = (of_char (digit_char b) :: nat)" by simp
  with assms(1,2) show ?thesis by simp
qed

lemma py_bind_InrE:
  assumes "snd (py_bind m f) = Inr r"
  obtains a where "snd m = Inr a" "snd (f a) = Inr r"
  using assms by (auto simp: py_bind_def split: sum.splits)

lemma py_bind_pure_InrE:
  assumes "snd (py_bind ([], x) f) = Inr r"
  obtains a where "x = Inr a" "snd (f a) = Inr r"
  using assms by (cases x) simp_all

lemma fst_py_bind_Inr:
  "snd m = Inr a \<Longrightarrow> fst (py_bind m f) = fst m @ fst (f a)"
  by (simp add: py_bind_def)

lemma fst_py_bind_Inl:
  "snd m = Inl e \<Longrightarrow> py_bind m f = (fst m, Inl e)"
  by (simp add: py_bind_def)

lemma fst_py_bind_return [simp]: "fst (py_bind m (\<lambda>_. ([], x))) = fst m"
  by (simp add: py_bind_def split: sum.split)

lemma not_isl_py_bind:
  "\<not> isl (snd m) \<Longrightarrow> (\<And>a. snd m = Inr a \<Longrightarrow> \<not> isl (snd (f a))) \<Longrightarrow> \<not> isl (snd (py_bind m f))"
  by (cases "snd m") (simp_all add: py_bind_def)

lemma list_all_py_bind [simp]:
  "list_all P (fst (py_bind m f)) \<longleftrightarrow>
     list_all P (fst m) \<and> (case snd m of Inl _ \<Rightarrow> True | Inr a \<Rightarrow> list_all P (fst (f a)))"
  by (simp add: py_bind_def split: sum.split)

end
