(* ===== verification/Supabase.thy ===== *)
theory Supabase
  imports Prelude
begin

text \<open>
  The three REST helpers of \<^verbatim>\<open>scripts/render-manim.py\<close> (lines 37--100):
  \<^verbatim>\<open>supabase_request\<close>, \<^verbatim>\<open>supabase_upload\<close> and \<^verbatim>\<open>supabase_update_video\<close>.
  The server is a \<^emph>\<open>responder\<close>: a function from the method and URL of a request to the
  outcome \<^verbatim>\<open>urlopen\<close> reports for it. Each helper returns the requests it issued (as
  effects) and its Python result, or the exception that escapes it.
\<close>

record config =
  supabase_url :: string   \<comment> \<open>\<^verbatim>\<open>SUPABASE_URL\<close>\<close>
  supabase_key :: string   \<comment> \<open>\<^verbatim>\<open>SUPABASE_SERVICE_KEY\<close>\<close>

type_synonym 'b responder = "http_method \<Rightarrow> string \<Rightarrow> 'b http_resp"

definition auth_headers :: "config \<Rightarrow> string \<Rightarrow> (string \<times> string) list" where
  "auth_headers cfg ctype =
     [(''apikey'', supabase_key cfg), (''Authorization'', ''Bearer '' @ supabase_key cfg),
      (''Content-Type'', ctype)]"

section \<open>supabase_request (lines 37--55)\<close>

text \<open>The body of a successful response is given as what \<^verbatim>\<open>json.loads\<close> makes of it:
  \<open>Some v\<close>, or \<open>None\<close> when the body is not JSON. JSON \<^verbatim>\<open>null\<close> and Python
  \<^verbatim>\<open>None\<close> are both \<open>PNone\<close>.\<close>

definition supabase_request ::
  "config \<Rightarrow> pyval option responder \<Rightarrow> http_method \<Rightarrow> string \<Rightarrow> pyval \<Rightarrow> effect list \<times> (py_exc + pyval)" where
  "supabase_request cfg srv m path body =
     (let url = supabase_url cfg @ ''/rest/v1/'' @ path;
          hdrs = auth_headers cfg ''application/json'' @
                 [(''Prefer'', if m = PATCH \<or> m = POST then ''return=minimal'' else ''return=representation'')];
          data = (if py_truthy body then Some body else None)
      in ([ERequest m url hdrs data],
          case srv m url of
            Resp s b \<Rightarrow>
              if s = 200 \<or> s = 201
              then (case b of Some v \<Rightarrow> Inr v | None \<Rightarrow> Inl JSONDecodeError)
              else Inr PNone
          | HTTPErr c \<Rightarrow> Inr PNone
          | NetErr \<Rightarrow> Inl URLError))"

section \<open>supabase_upload (lines 58--80)\<close>

text \<open>The file is read first (\<^verbatim>\<open>open(file_path, "rb")\<close>): a directory raises before any
  request. A POST whose \<^verbatim>\<open>urlopen\<close> returns gives the result of the status test; only an
  \<^verbatim>\<open>HTTPError\<close> leads to the PUT.\<close>

definition storage_url :: "config \<Rightarrow> string \<Rightarrow> string \<Rightarrow> string" where
  "storage_url cfg bucket path = supabase_url cfg @ ''/storage/v1/object/'' @ bucket @ ''/'' @ path"

definition supabase_upload ::
  "config \<Rightarrow> unit responder \<Rightarrow> string \<Rightarrow> string \<Rightarrow> string \<times> bool \<Rightarrow> string \<Rightarrow> effect list \<times> (py_exc + bool)" where
  "supabase_upload cfg srv bucket path file ctype =
     (let (fpath, is_dir) = file;
          url = storage_url cfg bucket path;
          hdrs = auth_headers cfg ctype;
          post = EUpload POST url hdrs fpath;
          put = EUpload PUT url hdrs fpath
      in if is_dir then ([], Inl IsADirectoryError)
         else case srv POST url of
           Resp s _ \<Rightarrow> ([post], Inr (s = 200 \<or> s = 201))
         | NetErr \<Rightarrow> ([post], Inl URLError)
         | HTTPErr _ \<Rightarrow>
             (case srv PUT url of
               Resp s _ \<Rightarrow> ([post, put], Inr (s = 200 \<or> s = 201))
             | HTTPErr _ \<Rightarrow> ([post, put], Inr False)
             | NetErr \<Rightarrow> ([post, put], Inl URLError)))"

section \<open>supabase_update_video (lines 83--100)\<close>

text \<open>The row filter is built with an f-string, so the id is formatted with \<^verbatim>\<open>str\<close>;
  the updates are always sent (no truthiness test, unlike \<^verbatim>\<open>supabase_request\<close>).\<close>

definition update_url :: "config \<Rightarrow> pyval \<Rightarrow> string" where
  "update_url cfg vid = supabase_url cfg @ ''/rest/v1/'' @ ''videos?id=eq.'' @ py_str vid"

definition supabase_update_video ::
  "config \<Rightarrow> unit responder \<Rightarrow> pyval \<Rightarrow> (string \<times> pyval) list \<Rightarrow> effect list \<times> (py_exc + bool)" where
  "supabase_update_video cfg srv vid updates =
     (let url = update_url cfg vid;
          hdrs = auth_headers cfg ''application/json'' @ [(''Prefer'', ''return=minimal'')]
      in ([ERequest PATCH url hdrs (Some (PDict updates))],
          case srv PATCH url of
            Resp s _ \<Rightarrow> Inr (s = 200 \<or> s = 204)
          | HTTPErr _ \<Rightarrow> Inr False
          | NetErr \<Rightarrow> Inl URLError))"

text \<open>An effect is authenticated when, being a request, it carries the service key in
  both the \<^verbatim>\<open>apikey\<close> and the \<^verbatim>\<open>Authorization\<close> header.\<close>

definition has_credentials :: "config \<Rightarrow> (string \<times> string) list \<Rightarrow> bool" where
  "has_credentials cfg hdrs \<longleftrightarrow>
     (''apikey'', supabase_key cfg) \<in> set hdrs \<and>
     (''Authorization'', ''Bearer '' @ supabase_key cfg) \<in> set hdrs"

fun authenticated :: "config \<Rightarrow> effect \<Rightarrow> bool" where
  "authenticated cfg (ERequest m u hdrs b) = has_credentials cfg hdrs"
| "authenticated cfg (EUpload m u hdrs f) = has_credentials cfg hdrs"
| "authenticated cfg e = True"

lemmas supabase_defs = supabase_request_def supabase_upload_def supabase_update_video_def
  storage_url_def update_url_def auth_headers_def

declare supabase_request_def [model_defs] supabase_upload_def [model_defs]
  supabase_update_video_def [model_defs] storage_url_def [model_defs] update_url_def [model_defs]
  auth_headers_def [model_defs]

section \<open>Properties\<close>

subsection \<open>Upload: create, then overwrite on HTTPError\<close>

lemma supabase_upload_post_returns:
  assumes "srv POST (storage_url cfg bucket path) = Resp s u"
  shows "supabase_upload cfg srv bucket path (f, False) ctype =
           ([EUpload POST (storage_url cfg bucket path) (auth_headers cfg ctype) f], Inr (s = 200 \<or> s = 201))"
  using assms by (simp add: supabase_upload_def Let_def)

lemma supabase_upload_put_fallback:
  assumes "srv POST (storage_url cfg bucket path) = HTTPErr c"
  shows "fst (supabase_upload cfg srv bucket path (f, False) ctype) =
           [EUpload POST (storage_url cfg bucket path) (auth_headers cfg ctype) f,
            EUpload PUT (storage_url cfg bucket path) (auth_headers cfg ctype) f]"
  using assms by (simp add: supabase_upload_def Let_def split: http_resp.split)

text \<open>C9. The complete contract of the upload of a file: it reports success exactly
  when the POST returned 200 or 201, or the POST failed with an HTTP error and the
  overwriting PUT returned 200 or 201. (A POST that returns another status, 202 say, is a
  failure with no PUT.)\<close>

theorem supabase_upload_true_iff:
  "snd (supabase_upload cfg srv bucket path (f, False) ctype) = Inr True \<longleftrightarrow>
     (\<exists>s u. srv POST (storage_url cfg bucket path) = Resp s u \<and> (s = 200 \<or> s = 201)) \<or>
     (\<exists>c s u. srv POST (storage_url cfg bucket path) = HTTPErr c \<and>
              srv PUT (storage_url cfg bucket path) = Resp s u \<and> (s = 200 \<or> s = 201))"
  by (simp add: supabase_upload_def Let_def split: http_resp.split)

lemma supabase_upload_raises_iff:
  "(\<exists>e. snd (supabase_upload cfg srv bucket path (f, False) ctype) = Inl e) \<longleftrightarrow>
     srv POST (storage_url cfg bucket path) = NetErr \<or>
     (\<exists>c. srv POST (storage_url cfg bucket path) = HTTPErr c \<and> srv PUT (storage_url cfg bucket path) = NetErr)"
  by (simp add: supabase_upload_def Let_def split: http_resp.split)

lemma supabase_upload_dir:
  "supabase_upload cfg srv bucket path (f, True) ctype = ([], Inl IsADirectoryError)"
  by (simp add: supabase_upload_def Let_def)

subsection \<open>Update and request\<close>

lemma supabase_update_video_true_iff:
  "snd (supabase_update_video cfg srv vid upd) = Inr True \<longleftrightarrow>
     (\<exists>s u. srv PATCH (update_url cfg vid) = Resp s u \<and> (s = 200 \<or> s = 204))"
  by (simp add: supabase_update_video_def Let_def split: http_resp.split)

lemma supabase_update_video_effects:
  "fst (supabase_update_video cfg srv vid upd) =
     [ERequest PATCH (update_url cfg vid)
        (auth_headers cfg ''application/json'' @ [(''Prefer'', ''return=minimal'')]) (Some (PDict upd))]"
  by (simp add: supabase_update_video_def Let_def)

lemma supabase_request_http_error:
  assumes "srv m (supabase_url cfg @ ''/rest/v1/'' @ path) = HTTPErr c"
  shows "snd (supabase_request cfg srv m path body) = Inr PNone"
  using assms by (simp add: supabase_request_def Let_def)

subsection \<open>Every request carries the credentials\<close>

lemma has_credentials_auth_headers [simp]:
  "has_credentials cfg (auth_headers cfg ct)"
  "has_credentials cfg (auth_headers cfg ct @ xs)"
  by (simp_all add: has_credentials_def auth_headers_def)

lemma supabase_request_authenticated:
  "e \<in> set (fst (supabase_request cfg srv m path body)) \<Longrightarrow> authenticated cfg e"
  by (auto simp: supabase_request_def Let_def)

lemma supabase_upload_authenticated:
  "e \<in> set (fst (supabase_upload cfg srv bucket path file ct)) \<Longrightarrow> authenticated cfg e"
  by (auto simp: supabase_upload_def Let_def split: prod.splits if_splits http_resp.splits)

lemma supabase_update_video_authenticated:
  "e \<in> set (fst (supabase_update_video cfg srv vid upd)) \<Longrightarrow> authenticated cfg e"
  by (auto simp: supabase_update_video_def Let_def)

end
