(* ===== verification/Render.thy ===== *)
theory Render
  imports Prelude
begin

text \<open>
  The rendering step of \<^verbatim>\<open>scripts/render-manim.py\<close>: \<^verbatim>\<open>QUALITY_FLAGS\<close> (lines
  30--34) and \<^verbatim>\<open>render_script\<close> (lines 125--157). The temporary work directory is a
  tree of files and directories, its entries in the order \<^verbatim>\<open>os.scandir\<close> lists them.
  Manim itself is an oracle: it times out, is not installed, or exits with a return code
  and leaves the work directory in some state. Output discovery follows pathlib as of
  Python 3.10/3.11: \<^verbatim>\<open>exists()\<close> is false when a path component is a file,
  \<^verbatim>\<open>iterdir()\<close> of a file raises \<^verbatim>\<open>NotADirectoryError\<close>, \<^verbatim>\<open>glob\<close> of a
  file yields nothing, and \<^verbatim>\<open>rglob\<close> lists the matches of a directory before descending
  into its subdirectories, in pre-order. Symbolic links are not modelled.
\<close>

section \<open>Quality presets (lines 30--34, 130)\<close>

definition QUALITY_FLAGS :: "(string \<times> string) list" where
  "QUALITY_FLAGS = [(''l'', ''-ql''), (''m'', ''-qm''), (''h'', ''-qh'')]"

definition quality_flag :: "string \<Rightarrow> string" where
  "quality_flag q = (case map_of QUALITY_FLAGS q of Some f \<Rightarrow> f | None \<Rightarrow> ''-ql'')"

section \<open>The work directory\<close>

datatype fs_node = FFile string | FDir string "fs_node list"

fun node_name :: "fs_node \<Rightarrow> string" where
  "node_name (FFile n) = n"
| "node_name (FDir n _) = n"

fun is_dir_node :: "fs_node \<Rightarrow> bool" where
  "is_dir_node (FFile _) = False"
| "is_dir_node (FDir _ _) = True"

definition ends_with :: "string \<Rightarrow> string \<Rightarrow> bool" where
  "ends_with sfx s \<longleftrightarrow> length sfx \<le> length s \<and> drop (length s - length sfx) s = sfx"

text \<open>\<^verbatim>\<open>fnmatch("*.mp4")\<close>, case-sensitive as on POSIX; it matches directories too.\<close>

definition is_mp4 :: "string \<Rightarrow> bool" where
  "is_mp4 n = ends_with ''.mp4'' n"

definition entry :: "fs_node list \<Rightarrow> string \<Rightarrow> fs_node option" where
  "entry ns x = find (\<lambda>n. node_name n = x) ns"

text \<open>The node at a relative path, if \<^verbatim>\<open>exists()\<close> holds for it.\<close>

fun lookup_path :: "fs_node list \<Rightarrow> string list \<Rightarrow> fs_node option" where
  "lookup_path ns [] = None"
| "lookup_path ns [x] = entry ns x"
| "lookup_path ns (x # y # ys) =
     (case entry ns x of Some (FDir _ cs) \<Rightarrow> lookup_path cs (y # ys) | _ \<Rightarrow> None)"

text \<open>\<^verbatim>\<open>rglob(pat)\<close>: each result is the relative path of the match and its node.\<close>

fun rglob :: "(string \<Rightarrow> bool) \<Rightarrow> string list \<Rightarrow> fs_node list \<Rightarrow> (string list \<times> fs_node) list"
and rglob_subdirs :: "(string \<Rightarrow> bool) \<Rightarrow> string list \<Rightarrow> fs_node list \<Rightarrow> (string list \<times> fs_node) list"
where
  "rglob pat p ns = map (\<lambda>n. (p @ [node_name n], n)) (filter (\<lambda>n. pat (node_name n)) ns) @
                    rglob_subdirs pat p ns"
| "rglob_subdirs pat p [] = []"
| "rglob_subdirs pat p (FFile _ # ns) = rglob_subdirs pat p ns"
| "rglob_subdirs pat p (FDir d cs # ns) = rglob pat (p @ [d]) cs @ rglob_subdirs pat p ns"

text \<open>\<^verbatim>\<open>glob(pat)\<close> of a directory entry: its direct children that match.\<close>

fun glob_in :: "(string \<Rightarrow> bool) \<Rightarrow> string list \<Rightarrow> fs_node \<Rightarrow> (string list \<times> fs_node) list" where
  "glob_in pat p (FFile _) = []"
| "glob_in pat p (FDir d cs) = map (\<lambda>n. (p @ [d, node_name n], n)) (filter (\<lambda>n. pat (node_name n)) cs)"

definition media_rel :: "string list" where
  "media_rel = [''media'', ''videos'', ''scene'']"

text \<open>Lines 146--157: the first \<^verbatim>\<open>*.mp4\<close> of a subdirectory of
  \<^verbatim>\<open>media/videos/scene\<close>; only if that directory does not exist, the first match of a
  recursive scan of the whole work directory.\<close>

definition find_output :: "fs_node list \<Rightarrow> py_exc + (string list \<times> fs_node) option" where
  "find_output tree =
     (case lookup_path tree media_rel of
        None \<Rightarrow> Inr (case rglob is_mp4 [] tree of [] \<Rightarrow> None | r # _ \<Rightarrow> Some r)
      | Some (FFile _) \<Rightarrow> Inl NotADirectoryError
      | Some (FDir _ subs) \<Rightarrow>
          Inr (case concat (map (glob_in is_mp4 media_rel) subs) of [] \<Rightarrow> None | r # _ \<Rightarrow> Some r))"

section \<open>render_script (lines 125--157)\<close>

datatype manim_outcome =
    MTimeout                    \<comment> \<open>\<^verbatim>\<open>subprocess.TimeoutExpired\<close> after 300 s, caught\<close>
  | MNotInstalled               \<comment> \<open>no \<^verbatim>\<open>manim\<close> executable: FileNotFoundError, not caught\<close>
  | MExit int "fs_node list"    \<comment> \<open>return code and the work directory afterwards\<close>

text \<open>A path under the work directory, as \<^verbatim>\<open>Path(workdir) / a / b\<close> prints it.\<close>

definition abs_path :: "string \<Rightarrow> string list \<Rightarrow> string" where
  "abs_path workdir rel = foldl path_join workdir rel"

definition manim_cmd :: "string \<Rightarrow> string \<Rightarrow> string list" where
  "manim_cmd quality script_path = [''manim'', quality_flag quality, script_path, ''ExampleScene'']"

text \<open>The result is the output's path and whether it is a directory (what a later
  \<^verbatim>\<open>open()\<close> of it will find), or None for a failed render. \<^verbatim>\<open>write_text\<close> of a
  value that is not a string raises TypeError before anything is written.\<close>

definition render_script ::
  "pyval \<Rightarrow> string \<Rightarrow> string \<Rightarrow> manim_outcome \<Rightarrow> effect list \<times> (py_exc + (string \<times> bool) option)" where
  "render_script script quality workdir out =
     (case script of
        PStr text \<Rightarrow>
          (let script_path = path_join workdir ''scene.py'';
               effs = [EWriteText script_path text, ERun (manim_cmd quality script_path) (Some workdir)]
           in (effs,
               case out of
                 MTimeout \<Rightarrow> Inr None
               | MNotInstalled \<Rightarrow> Inl FileNotFoundError
               | MExit rc tree \<Rightarrow>
                   if rc \<noteq> 0 then Inr None
                   else (case find_output tree of
                           Inl e \<Rightarrow> Inl e
                         | Inr None \<Rightarrow> Inr None
                         | Inr (Some (rel, n)) \<Rightarrow> Inr (Some (abs_path workdir rel, is_dir_node n)))))
      | _ \<Rightarrow> ([], Inl TypeError))"

text \<open>A directory listing as the file system gives it: the names of a directory's
  entries are distinct, in every directory.\<close>

fun wf_entries :: "fs_node list \<Rightarrow> bool" where
  "wf_entries [] = True"
| "wf_entries (FFile n # ns) = (n \<notin> node_name ` set ns \<and> wf_entries ns)"
| "wf_entries (FDir n cs # ns) = (n \<notin> node_name ` set ns \<and> wf_entries cs \<and> wf_entries ns)"

declare QUALITY_FLAGS_def [model_defs] quality_flag_def [model_defs] ends_with_def [model_defs]
  is_mp4_def [model_defs] entry_def [model_defs] media_rel_def [model_defs] find_output_def [model_defs]
  abs_path_def [model_defs] manim_cmd_def [model_defs] render_script_def [model_defs]

section \<open>Properties\<close>

text \<open>C6. A quality outside \<^verbatim>\<open>m\<close> and \<^verbatim>\<open>h\<close> (an unknown one included) falls back to
  the lowest preset: \<open>render_script\<close> then behaves exactly as with \<^verbatim>\<open>l\<close>, issuing the
  same commands and returning the same result, rather than failing.\<close>

theorem render_script_quality_fallback:
  assumes "q \<notin> {''m'', ''h''}"
  shows "render_script script q wd out = render_script script ''l'' wd out"
proof -
  have "quality_flag q = quality_flag ''l''"
    using assms by (auto simp: quality_flag_def QUALITY_FLAGS_def)
  then show ?thesis
    by (simp add: render_script_def manim_cmd_def Let_def split: pyval.split)
qed

subsection \<open>Paths in the work directory\<close>

declare rglob.simps [simp del]

lemma first_Some: "(case xs of [] \<Rightarrow> None | r # _ \<Rightarrow> Some r) = Some x \<Longrightarrow> x \<in> set xs"
  by (cases xs) auto

lemma entry_Some: "entry ns x = Some n \<Longrightarrow> n \<in> set ns \<and> node_name n = x"
  by (auto simp: entry_def dest: find_Some_iff[THEN iffD1] simp: find_Some_iff nth_mem)

lemma entry_member:
  assumes "wf_entries ns" "n \<in> set ns"
  shows "entry ns (node_name n) = Some n"
  using assms by (induction ns rule: wf_entries.induct) (auto simp: entry_def)

lemma wf_entries_member_dir: "wf_entries ns \<Longrightarrow> FDir d cs \<in> set ns \<Longrightarrow> wf_entries cs"
  by (induction ns rule: wf_entries.induct) auto

lemma lookup_path_Cons_dir:
  "entry ns x = Some (FDir d cs) \<Longrightarrow> r \<noteq> [] \<Longrightarrow> lookup_path ns (x # r) = lookup_path cs r"
  by (cases r) auto

lemma lookup_path_hd:
  "lookup_path ns r = Some n \<Longrightarrow> \<exists>x rs. r = x # rs \<and> x \<in> node_name ` set ns"
  by (induction ns r rule: lookup_path.induct) (auto split: option.splits fs_node.splits dest!: entry_Some)

lemma lookup_path_Cons_other:
  assumes "node_name m \<notin> node_name ` set ns" "lookup_path ns r = Some n"
  shows "lookup_path (m # ns) r = Some n"
proof -
  from lookup_path_hd[OF assms(2)] obtain x rs where r: "r = x # rs" and "x \<in> node_name ` set ns"
    by blast
  with assms(1) have "entry (m # ns) x = entry ns x"
    by (auto simp: entry_def)
  with assms(2) r show ?thesis
    by (cases rs) simp_all
qed

lemma lookup_path_append:
  assumes "lookup_path ns p = Some (FDir d cs)" "r \<noteq> []"
  shows "lookup_path ns (p @ r) = lookup_path cs r"
  using assms
proof (induction ns p rule: lookup_path.induct)
  case (2 ns x)
  then show ?case by (simp add: lookup_path_Cons_dir)
next
  case (3 ns x y ys)
  then show ?case by (auto split: option.splits fs_node.splits)
qed simp

text \<open>Every result of the recursive scan is a matching entry at its path (names being
  distinct), and every matching entry is a result.\<close>

lemma rglob_sound:
  "(rel, n) \<in> set (rglob pat p ns) \<Longrightarrow> wf_entries ns \<Longrightarrow>
     \<exists>r. rel = p @ r \<and> lookup_path ns r = Some n \<and> pat (node_name n)"
  "(rel, n) \<in> set (rglob_subdirs pat p ns) \<Longrightarrow> wf_entries ns \<Longrightarrow>
     \<exists>r. rel = p @ r \<and> lookup_path ns r = Some n \<and> pat (node_name n)"
proof (induction pat p ns and pat p ns rule: rglob_rglob_subdirs.induct)
  case (1 pat p ns)
  then show ?case by (auto simp: entry_member rglob.simps)
next
  case (3 pat p f ns)
  then show ?case using lookup_path_Cons_other[of "FFile f" ns] by fastforce
next
  case (4 pat p d cs ns)
  show ?case
  proof (cases "(rel, n) \<in> set (rglob pat (p @ [d]) cs)")
    case True
    with "4.IH"(1) "4.prems"(2) obtain r where "rel = p @ d # r" "lookup_path cs r = Some n" "pat (node_name n)"
      by auto
    moreover from this have "r \<noteq> []" by (cases r) simp_all
    moreover have "entry (FDir d cs # ns) d = Some (FDir d cs)" by (simp add: entry_def)
    ultimately show ?thesis
      by (intro exI[of _ "d # r"]) (simp add: lookup_path_Cons_dir)
  next
    case False
    with "4.prems" obtain r where "rel = p @ r" "lookup_path ns r = Some n" "pat (node_name n)"
      using "4.IH"(2) by auto
    moreover from this "4.prems"(2) have "lookup_path (FDir d cs # ns) r = Some n"
      using lookup_path_Cons_other[of "FDir d cs" ns] by simp
    ultimately show ?thesis by blast
  qed
qed simp

lemma rglob_subdirs_dir:
  "FDir d cs \<in> set ns \<Longrightarrow> set (rglob pat (p @ [d]) cs) \<subseteq> set (rglob_subdirs pat p ns)"
proof (induction ns)
  case (Cons x ns)
  then show ?case by (cases x) auto
qed simp

lemma rglob_complete:
  "lookup_path ns r = Some n \<Longrightarrow> pat (node_name n) \<Longrightarrow> (p @ r, n) \<in> set (rglob pat p ns)"
proof (induction ns r arbitrary: p rule: lookup_path.induct)
  case (2 ns x)
  then show ?case by (auto simp: rglob.simps dest: entry_Some)
next
  case (3 ns x y ys)
  then obtain d cs where e: "entry ns x = Some (FDir d cs)" and l: "lookup_path cs (y # ys) = Some n"
    by (auto split: option.splits fs_node.splits)
  from e have "FDir d cs \<in> set ns" "d = x" by (auto dest: entry_Some)
  moreover from "3.IH"[OF e refl l "3.prems"(2), of "p @ [x]"] have "(p @ x # y # ys, n) \<in> set (rglob pat (p @ [x]) cs)"
    by simp
  ultimately have "(p @ x # y # ys, n) \<in> set (rglob_subdirs pat p ns)"
    using rglob_subdirs_dir[of x cs ns pat p] by auto
  then show ?case
    by (subst rglob.simps) simp
qed simp

lemma lookup_path_wf:
  "wf_entries ns \<Longrightarrow> lookup_path ns r = Some (FDir d cs) \<Longrightarrow> wf_entries cs"
  by (induction ns r rule: lookup_path.induct)
     (auto split: option.splits fs_node.splits dest!: entry_Some intro: wf_entries_member_dir)

lemma glob_in_member:
  "(rel, n) \<in> set (glob_in pat p s) \<Longrightarrow>
     \<exists>d cs. s = FDir d cs \<and> rel = p @ [d, node_name n] \<and> n \<in> set cs \<and> pat (node_name n)"
  by (cases s) auto

subsection \<open>Output discovery\<close>

text \<open>C11. What \<open>find_output\<close> returns is there: in a work directory as the file
  system lists it, the result is the entry at the returned path and its name ends in
  \<^verbatim>\<open>.mp4\<close>.\<close>

theorem find_output_sound:
  assumes "wf_entries tree" "find_output tree = Inr (Some (rel, n))"
  shows "lookup_path tree rel = Some n \<and> is_mp4 (node_name n)"
proof (cases "lookup_path tree media_rel")
  case None
  with assms(2) have "(rel, n) \<in> set (rglob is_mp4 [] tree)"
    by (auto simp: find_output_def intro: first_Some)
  with assms(1) show ?thesis
    by (auto dest: rglob_sound(1))
next
  case (Some m)
  with assms(2) obtain d subs where m: "m = FDir d subs"
    and mem: "(rel, n) \<in> set (concat (map (glob_in is_mp4 media_rel) subs))"
    by (cases m) (auto simp: find_output_def dest!: first_Some)
  then obtain s where s: "s \<in> set subs" and "(rel, n) \<in> set (glob_in is_mp4 media_rel s)"
    by auto
  then obtain d' cs where sd: "s = FDir d' cs" and rel: "rel = media_rel @ [d', node_name n]"
    and n: "n \<in> set cs" and mp4: "is_mp4 (node_name n)"
    by (blast dest: glob_in_member)
  have wf_subs: "wf_entries subs"
    using lookup_path_wf[OF assms(1)] Some m by blast
  with s sd have e: "entry subs d' = Some (FDir d' cs)"
    using entry_member[OF wf_subs s] by simp
  have wf_cs: "wf_entries cs"
    using wf_subs s sd by (blast intro: wf_entries_member_dir)
  have "entry cs (node_name n) = Some n"
    using entry_member[OF wf_cs n] .
  with e have "lookup_path subs [d', node_name n] = Some n"
    by simp
  with Some m rel mp4 show ?thesis
    by (simp add: lookup_path_append)
qed

text \<open>C12. The recursive scan is a fallback only for a missing
  \<^verbatim>\<open>media/videos/scene\<close>: when that directory exists but none of its subdirectories
  holds an \<^verbatim>\<open>*.mp4\<close> directly, no output is reported, even though the scan would find a
  video elsewhere in the work directory.\<close>

theorem find_output_no_fallback:
  assumes "lookup_path tree media_rel = Some (FDir d subs)"
    and "\<forall>s\<in>set subs. glob_in is_mp4 media_rel s = []"
    and "lookup_path tree rel = Some n" "is_mp4 (node_name n)"
  shows "find_output tree = Inr None \<and> (rel, n) \<in> set (rglob is_mp4 [] tree)"
proof -
  have c: "concat (map (glob_in is_mp4 media_rel) subs) = []"
    using assms(2) by simp
  have "find_output tree = Inr None"
    by (simp only: find_output_def assms(1) c option.case fs_node.case list.case)
  with rglob_complete[of tree rel n is_mp4 "[]", OF assms(3,4)] show ?thesis
    by simp
qed

text \<open>C14. When \<^verbatim>\<open>media/videos/scene\<close> does not exist, a video anywhere in the work
  directory is found.\<close>

theorem find_output_fallback_complete:
  assumes "lookup_path tree media_rel = None" "lookup_path tree rel = Some n" "is_mp4 (node_name n)"
  shows "\<exists>r. find_output tree = Inr (Some r)"
proof -
  from rglob_complete[of tree rel n is_mp4 "[]", OF assms(2,3)] have "rglob is_mp4 [] tree \<noteq> []"
    by auto
  with assms(1) show ?thesis
    by (auto simp: find_output_def neq_Nil_conv)
qed

subsection \<open>render_script\<close>

text \<open>C13. \<open>render_script\<close> reports a failed render (None) exactly when manim timed
  out, exited with a non-zero code, or exited with 0 but no output was discovered.\<close>

theorem render_script_no_output_iff:
  "snd (render_script (PStr text) q wd mo) = Inr None \<longleftrightarrow>
     mo = MTimeout \<or> (\<exists>rc tree. mo = MExit rc tree \<and> (rc \<noteq> 0 \<or> find_output tree = Inr None))"
  by (auto simp: render_script_def Let_def split: manim_outcome.splits sum.splits option.splits prod.splits)

end
