(* ===== verification/Probe.thy ===== *)
theory Probe
  imports Prelude
begin

text \<open>
  The media prober of \<^verbatim>\<open>scripts/render-manim.py\<close>: \<^verbatim>\<open>get_video_duration\<close>
  (lines 103--113) and \<^verbatim>\<open>generate_thumbnail\<close> (lines 116--122). The duration is
  \<^verbatim>\<open>int(float(result.stdout.strip()))\<close>, with any exception turned into 0. The model
  spells out the three library steps the result depends on:
  \<^item> \<^verbatim>\<open>str.strip()\<close>: Python's white space below U+0100 (tab to carriage return,
    U+001C--U+001F, space, U+0085, U+00A0);
  \<^item> \<^verbatim>\<open>float(str)\<close>: the grammar of the Python documentation (sign, digits with
    single underscores between them, optional point and fraction, optional exponent,
    \<^verbatim>\<open>inf\<close>/\<^verbatim>\<open>infinity\<close>/\<^verbatim>\<open>nan\<close> in any case), and the value rounded to the
    nearest IEEE double, ties to even (CPython converts correctly rounded);
  \<^item> \<^verbatim>\<open>int(float)\<close>: truncation toward zero, raising for infinities and NaN.
  The decimal value \<open>n \<cdot> 10^e\<close> is kept exact as a pair of naturals, the rounding
  is done on integers, so the model computes what CPython computes.
\<close>

section \<open>str.strip()\<close>

definition py_isspace :: "char \<Rightarrow> bool" where
  "py_isspace c = (let n = of_char c :: nat in
     (9 \<le> n \<and> n \<le> 13) \<or> (28 \<le> n \<and> n \<le> 32) \<or> n = 133 \<or> n = 160)"

definition py_strip :: "string \<Rightarrow> string" where
  "py_strip s = rev (dropWhile py_isspace (rev (dropWhile py_isspace s)))"

section \<open>float(str): the literal\<close>

definition is_digit :: "char \<Rightarrow> bool" where
  "is_digit c = (let n = of_char c :: nat in 48 \<le> n \<and> n \<le> 57)"

definition digit_val :: "char \<Rightarrow> nat" where
  "digit_val c = of_char c - 48"

text \<open>\<open>digitpart ::= digit (["_"] digit)*\<close>, read greedily: the rest of a digit part
  after its first digit, and the digit part itself.\<close>

fun digits_rest :: "string \<Rightarrow> nat list \<times> string" where
  "digits_rest [] = ([], [])"
| "digits_rest (c # cs) =
     (if is_digit c then (let (ds, r) = digits_rest cs in (digit_val c # ds, r))
      else if c = CHR ''_'' then
        (case cs of
           d # cs' \<Rightarrow> if is_digit d then (let (ds, r) = digits_rest cs' in (digit_val d # ds, r))
                      else ([], c # cs)
         | [] \<Rightarrow> ([], [c]))
      else ([], c # cs))"

definition digitpart :: "string \<Rightarrow> (nat list \<times> string) option" where
  "digitpart s =
     (case s of
        c # cs \<Rightarrow> if is_digit c then Some (let (ds, r) = digits_rest cs in (digit_val c # ds, r)) else None
      | [] \<Rightarrow> None)"

definition digits_nat :: "nat list \<Rightarrow> nat" where
  "digits_nat ds = foldl (\<lambda>a d. 10 * a + d) 0 ds"

text \<open>\<open>exponent ::= ("e" | "E") [sign] digitpart\<close>; it must end the text.\<close>

definition parse_exponent :: "string \<Rightarrow> int option" where
  "parse_exponent r =
     (case r of
        [] \<Rightarrow> Some 0
      | c # r' \<Rightarrow>
          if c = CHR ''e'' \<or> c = CHR ''E'' then
            (let (neg, r'') = (case r' of
                                 x # xs \<Rightarrow> if x = CHR ''-'' then (True, xs)
                                          else if x = CHR ''+'' then (False, xs) else (False, r')
                               | [] \<Rightarrow> (False, r'))
             in case digitpart r'' of
                  Some (ds, []) \<Rightarrow> Some (if neg then - int (digits_nat ds) else int (digits_nat ds))
                | _ \<Rightarrow> None)
          else None)"

text \<open>\<open>number ::= [digitpart] "." digitpart | digitpart ["."]\<close>, then the exponent.
  The result \<open>(n, e)\<close> stands for the value \<open>n \<cdot> 10^e\<close>.\<close>

definition finish_number :: "nat list \<Rightarrow> nat list \<Rightarrow> string \<Rightarrow> (nat \<times> int) option" where
  "finish_number ip fp r =
     map_option (\<lambda>e. (digits_nat (ip @ fp), e - int (length fp))) (parse_exponent r)"

definition parse_number :: "string \<Rightarrow> (nat \<times> int) option" where
  "parse_number s =
     (case digitpart s of
        Some (ip, r) \<Rightarrow>
          (case r of
             c # r' \<Rightarrow>
               if c = CHR ''.'' then
                 (case digitpart r' of Some (fp, r'') \<Rightarrow> finish_number ip fp r'' | None \<Rightarrow> finish_number ip [] r')
               else finish_number ip [] r
           | [] \<Rightarrow> finish_number ip [] r)
      | None \<Rightarrow>
          (case s of
             c # r' \<Rightarrow>
               if c = CHR ''.'' then
                 (case digitpart r' of Some (fp, r'') \<Rightarrow> finish_number [] fp r'' | None \<Rightarrow> None)
               else None
           | [] \<Rightarrow> None))"

datatype float_lit = FNum bool nat int | FInf bool | FNaN

definition ascii_lower :: "char \<Rightarrow> char" where
  "ascii_lower c = (let n = of_char c :: nat in if 65 \<le> n \<and> n \<le> 90 then char_of (n + 32) else c)"

text \<open>\<^verbatim>\<open>float(s)\<close> as far as the literal goes: None is ValueError.\<close>

definition parse_float :: "string \<Rightarrow> float_lit option" where
  "parse_float s =
     (let (neg, body) = (case s of
                           x # xs \<Rightarrow> if x = CHR ''-'' then (True, xs)
                                    else if x = CHR ''+'' then (False, xs) else (False, s)
                         | [] \<Rightarrow> (False, s));
          low = map ascii_lower body
      in if low = ''inf'' \<or> low = ''infinity'' then Some (FInf neg)
         else if low = ''nan'' then Some FNaN
         else map_option (\<lambda>(n, e). FNum neg n e) (parse_number body))"

section \<open>Rounding to a double and truncating\<close>

fun nbits :: "nat \<Rightarrow> nat" where
  "nbits n = (if n = 0 then 0 else Suc (nbits (n div 2)))"

declare nbits.simps [simp del]

text \<open>For \<open>0 < p\<close> and \<open>0 < q\<close>, the \<open>k\<close> with \<open>2^k \<le> p/q < 2^(k+1)\<close>.\<close>

definition floor_log2_ratio :: "nat \<Rightarrow> nat \<Rightarrow> int" where
  "floor_log2_ratio p q =
     (let k = int (nbits p) - int (nbits q);
          below = (if 0 \<le> k then p < q * 2 ^ nat k else p * 2 ^ nat (- k) < q)
      in if below then k - 1 else k)"

definition round_half_even :: "nat \<Rightarrow> nat \<Rightarrow> nat" where
  "round_half_even p d =
     (let q = p div d; r = p mod d
      in if 2 * r < d then q else if d < 2 * r then q + 1 else if even q then q else q + 1)"

text \<open>The nearest double to \<open>p/q\<close> as \<open>m \<cdot> 2^e\<close>: 53 significant bits, the
  exponent not below that of the least subnormal, \<open>2^-1074\<close>.\<close>

definition to_double :: "nat \<Rightarrow> nat \<Rightarrow> nat \<times> int" where
  "to_double p q =
     (let e = max (floor_log2_ratio p q - 52) (-1074)
      in if 0 \<le> e then (round_half_even p (q * 2 ^ nat e), e)
         else (round_half_even (p * 2 ^ nat (- e)) q, e))"

text \<open>\<^verbatim>\<open>int(float(s))\<close> on a parsed literal: None is the OverflowError of an infinity
  (a literal that rounds to \<open>2^1024\<close> or more is one) or the ValueError of NaN.\<close>

definition int_of_float_lit :: "float_lit \<Rightarrow> int option" where
  "int_of_float_lit l =
     (case l of
        FInf _ \<Rightarrow> None
      | FNaN \<Rightarrow> None
      | FNum neg n e \<Rightarrow>
          (let (p, q) = (if 0 \<le> e then (n * 10 ^ nat e, 1) else (n, 10 ^ nat (- e)))
           in if n = 0 then Some 0
              else (let (m, x) = to_double p q;
                        mag = (if 0 \<le> x then m * 2 ^ nat x else m div 2 ^ nat (- x))
                    in if 0 \<le> x \<and> 2 ^ 1024 \<le> m * 2 ^ nat x then None
                       else Some (if neg then - int mag else int mag))))"

section \<open>get_video_duration and generate_thumbnail\<close>

datatype probe_outcome =
    ProbeRaised          \<comment> \<open>timeout, ffprobe missing, or undecodable output: the handler returns 0\<close>
  | ProbeOut string      \<comment> \<open>the decoded standard output (return code is not looked at)\<close>

definition ffprobe_cmd :: "string \<Rightarrow> string list" where
  "ffprobe_cmd video = [''ffprobe'', ''-v'', ''quiet'', ''-show_entries'', ''format=duration'',
                        ''-of'', ''default=noprint_wrappers=1:nokey=1'', video]"

definition duration_of_stdout :: "string \<Rightarrow> int" where
  "duration_of_stdout out =
     (case parse_float (py_strip out) of
        None \<Rightarrow> 0
      | Some l \<Rightarrow> (case int_of_float_lit l of None \<Rightarrow> 0 | Some i \<Rightarrow> i))"

definition get_video_duration :: "string \<Rightarrow> probe_outcome \<Rightarrow> int py" where
  "get_video_duration video out =
     ([ERun (ffprobe_cmd video) None],
      Inr (case out of ProbeRaised \<Rightarrow> 0 | ProbeOut s \<Rightarrow> duration_of_stdout s))"

datatype thumb_outcome =
    ThumbTimeout         \<comment> \<open>ffmpeg ran over 30 s: TimeoutExpired, not caught\<close>
  | ThumbNotInstalled    \<comment> \<open>no ffmpeg: FileNotFoundError, not caught\<close>
  | ThumbRan bool        \<comment> \<open>ffmpeg finished (any return code); whether it wrote the still\<close>

definition ffmpeg_cmd :: "string \<Rightarrow> string \<Rightarrow> string list" where
  "ffmpeg_cmd video thumb = [''ffmpeg'', ''-y'', ''-i'', video, ''-ss'', ''1'', ''-vframes'', ''1'',
                             ''-vf'', ''scale=640:-1'', thumb]"

definition generate_thumbnail :: "string \<Rightarrow> string \<Rightarrow> thumb_outcome \<Rightarrow> bool py" where
  "generate_thumbnail video thumb out =
     ([ERun (ffmpeg_cmd video thumb) None],
      case out of
        ThumbTimeout \<Rightarrow> Inl TimeoutExpired
      | ThumbNotInstalled \<Rightarrow> Inl FileNotFoundError
      | ThumbRan wrote \<Rightarrow> Inr wrote)"

text \<open>A text that stops the digit part: empty, or starting with neither a digit nor an
  underscore.\<close>

definition digit_stop :: "string \<Rightarrow> bool" where
  "digit_stop r \<longleftrightarrow> (case r of [] \<Rightarrow> True | c # _ \<Rightarrow> \<not> is_digit c \<and> c \<noteq> CHR ''_'')"

declare py_isspace_def [model_defs] py_strip_def [model_defs] is_digit_def [model_defs]
  digit_val_def [model_defs] digitpart_def [model_defs] digits_nat_def [model_defs]
  parse_exponent_def [model_defs] finish_number_def [model_defs] parse_number_def [model_defs]
  ascii_lower_def [model_defs] parse_float_def [model_defs] floor_log2_ratio_def [model_defs]
  round_half_even_def [model_defs] to_double_def [model_defs] int_of_float_lit_def [model_defs]
  ffprobe_cmd_def [model_defs] duration_of_stdout_def [model_defs] get_video_duration_def [model_defs]
  ffmpeg_cmd_def [model_defs] generate_thumbnail_def [model_defs]

section \<open>Properties\<close>

subsection \<open>Reading the decimal text ffprobe prints\<close>

lemma digits_nat_snoc [simp]: "digits_nat (ds @ [d]) = 10 * digits_nat ds + d"
  by (simp add: digits_nat_def)

lemma digits_nat_Nil [simp]: "digits_nat [] = 0" and digits_nat_single [simp]: "digits_nat [d] = d"
  by (simp_all add: digits_nat_def)

lemma digit_char_props [simp]:
  "d < 10 \<Longrightarrow> is_digit (digit_char d)"
  "d < 10 \<Longrightarrow> digit_val (digit_char d) = d"
  by (simp_all add: is_digit_def digit_val_def)

lemma nat_str_digits:
  "nat_str n \<noteq> [] \<and> list_all is_digit (nat_str n) \<and> digits_nat (map digit_val (nat_str n)) = n"
proof (induction n rule: nat_str.induct)
  case (1 n)
  then show ?case
    by (cases "n < 10") (simp_all add: nat_str.simps[of n])
qed

lemma digit_not_special [simp]:
  "is_digit c \<Longrightarrow> c \<noteq> CHR ''_''" "is_digit c \<Longrightarrow> c \<noteq> CHR ''.''"
  "is_digit c \<Longrightarrow> c \<noteq> CHR ''-''" "is_digit c \<Longrightarrow> c \<noteq> CHR ''+''"
  "is_digit c \<Longrightarrow> c \<noteq> CHR ''e''" "is_digit c \<Longrightarrow> c \<noteq> CHR ''E''"
  by (auto simp: is_digit_def)

lemma digits_rest_digits:
  "list_all is_digit s \<Longrightarrow> digit_stop r \<Longrightarrow> digits_rest (s @ r) = (map digit_val s, r)"
proof (induction s)
  case Nil
  then show ?case by (cases r) (auto simp: digit_stop_def)
next
  case (Cons c s)
  then show ?case by simp
qed

lemma digitpart_digits:
  "s \<noteq> [] \<Longrightarrow> list_all is_digit s \<Longrightarrow> digit_stop r \<Longrightarrow> digitpart (s @ r) = Some (map digit_val s, r)"
  by (cases s) (simp_all add: digitpart_def digits_rest_digits)

lemma digit_stop_simps [simp]:
  "digit_stop []" "digit_stop (CHR ''.'' # r)"
  by (simp_all add: digit_stop_def is_digit_def)

lemma parse_number_point:
  assumes "s \<noteq> []" "list_all is_digit s" "list_all is_digit fs"
  shows "parse_number (s @ CHR ''.'' # fs) = Some (digits_nat (map digit_val (s @ fs)), - int (length fs))"
proof (cases "fs = []")
  case True
  have "digitpart (s @ [CHR ''.'']) = Some (map digit_val s, [CHR ''.''])"
    using digitpart_digits[OF assms(1,2), of "[CHR ''.'']"] by simp
  with True show ?thesis
    by (simp add: parse_number_def finish_number_def parse_exponent_def digitpart_def)
next
  case False
  with digitpart_digits[of fs "[]"] assms show ?thesis
    by (simp add: parse_number_def digitpart_digits finish_number_def parse_exponent_def)
qed

lemma ascii_lower_digit [simp]: "is_digit c \<Longrightarrow> ascii_lower c = c"
  by (simp add: ascii_lower_def is_digit_def Let_def)

lemma parse_float_point:
  assumes "s \<noteq> []" "list_all is_digit s" "list_all is_digit fs"
  shows "parse_float ((if neg then ''-'' else []) @ s @ CHR ''.'' # fs) =
           Some (FNum neg (digits_nat (map digit_val (s @ fs))) (- int (length fs)))"
proof -
  obtain c s' where s: "s = c # s'" and c: "is_digit c"
    using assms(1,2) by (cases s) auto
  then have low: "map ascii_lower (s @ CHR ''.'' # fs) \<noteq> ''inf'' \<and>
                  map ascii_lower (s @ CHR ''.'' # fs) \<noteq> ''infinity'' \<and>
                  map ascii_lower (s @ CHR ''.'' # fs) \<noteq> ''nan''"
    by (auto simp: is_digit_def)
  show ?thesis
    using s c low parse_number_point[OF assms]
    by (cases neg) (simp_all add: parse_float_def Let_def)
qed

lemma py_strip_trailing:
  assumes "x \<noteq> []" "\<not> py_isspace (hd x)" "\<not> py_isspace (last x)" "list_all py_isspace ws"
  shows "py_strip (x @ ws) = x"
proof -
  have "dropWhile py_isspace (x @ ws) = x @ ws"
    using assms(1,2) by (cases x) simp_all
  moreover have "dropWhile py_isspace (rev x) = rev x"
  proof -
    obtain y ys where r: "rev x = y # ys"
      using assms(1) by (cases "rev x") auto
    then have "last x = y"
      by (metis last_snoc rev_rev_ident rev.simps(2))
    with r assms(3) show ?thesis by simp
  qed
  moreover have "\<forall>c\<in>set (rev ws). py_isspace c"
    using assms(4) by (simp add: list_all_iff)
  ultimately show ?thesis
    by (simp add: py_strip_def dropWhile_append)
qed

lemma nbits_bounds: "0 < n \<Longrightarrow> 0 < nbits n \<and> 2 ^ (nbits n - 1) \<le> n \<and> n < 2 ^ nbits n"
proof (induction n rule: nbits.induct)
  case (1 n)
  show ?case
  proof (cases "n div 2 = 0")
    case True
    with "1.prems" have "n = 1" by auto
    then show ?thesis by (simp add: nbits.simps)
  next
    case False
    then have ih: "0 < nbits (n div 2) \<and> 2 ^ (nbits (n div 2) - 1) \<le> n div 2 \<and> n div 2 < 2 ^ nbits (n div 2)"
      using "1.IH" "1.prems" by simp
    have "nbits n = Suc (nbits (n div 2))"
      using "1.prems" by (simp add: nbits.simps)
    with ih show ?thesis
      by (cases "nbits (n div 2)") auto
  qed
qed

lemma floor_log2_ratio_lower:
  assumes "0 < p" "0 < q" "0 \<le> floor_log2_ratio p q"
  shows "q * 2 ^ nat (floor_log2_ratio p q) \<le> p"
proof -
  define np nq where "np = nbits p" and "nq = nbits q"
  have p: "2 ^ (np - 1) \<le> p" and q: "q < 2 ^ nq"
    using nbits_bounds[OF assms(1)] nbits_bounds[OF assms(2)] by (simp_all add: np_def nq_def)
  define k0 where "k0 = int np - int nq"
  show ?thesis
  proof (cases "if 0 \<le> k0 then p < q * 2 ^ nat k0 else p * 2 ^ nat (- k0) < q")
    case True
    with assms(3) have k: "floor_log2_ratio p q = k0 - 1" and "1 \<le> k0"
      by (simp_all add: floor_log2_ratio_def Let_def np_def nq_def k0_def split: if_splits)
    then have "Suc nq \<le> np"
      by (simp add: k0_def)
    then have e: "nat (k0 - 1) = np - nq - 1" and "nq + (np - nq - 1) = np - 1"
      by (simp add: k0_def, arith)
    have "q * 2 ^ (np - nq - 1) < 2 ^ nq * 2 ^ (np - nq - 1)"
      using q by simp
    also have "\<dots> = 2 ^ (np - 1)"
      by (simp only: power_add[symmetric] \<open>nq + (np - nq - 1) = np - 1\<close>)
    finally show ?thesis
      using p k e by simp
  next
    case False
    with assms(3) have "floor_log2_ratio p q = k0" and "0 \<le> k0"
      by (simp_all add: floor_log2_ratio_def Let_def np_def nq_def k0_def split: if_splits)
    with False show ?thesis by simp
  qed
qed

lemma round_half_even_ge: "0 < d \<Longrightarrow> a * d \<le> p \<Longrightarrow> a \<le> round_half_even p d"
  using less_eq_div_iff_mult_less_eq[of d a p] by (simp add: round_half_even_def Let_def)

lemma round_half_even_less:
  assumes "0 < d" "2 * p + d < 2 * b * d"
  shows "round_half_even p d < b"
proof -
  define q r where "q = p div d" and "r = p mod d"
  have p: "p = q * d + r"
    by (simp add: q_def r_def)
  have "2 * (q * d) + d \<le> 2 * p + d"
    using p by simp
  moreover have "2 * p + d < 2 * (b * d)"
    using assms(2) by (simp add: mult.assoc)
  ultimately have "q * d < b * d"
    by linarith
  then have qb: "q < b"
    using mult_less_cancel2 by blast
  have "d \<le> 2 * r \<Longrightarrow> 2 * (Suc q) * d < 2 * b * d"
    using assms(2) p by (simp add: algebra_simps)
  then have "d \<le> 2 * r \<Longrightarrow> Suc q < b"
    by (metis mult_less_cancel2 mult_less_cancel1 zero_less_numeral)
  with qb show ?thesis
    by (auto simp: round_half_even_def Let_def q_def[symmetric] r_def[symmetric])
qed

text \<open>Below \<open>2^34\<close>, the nearest double keeps at least 19 fractional bits, which is
  enough to keep a value at least \<open>1/q\<close> below the next integer, for \<open>q < 2^20\<close>,
  below it: rounding then never carries the integer part.\<close>

lemma to_double_trunc:
  assumes "0 < p" "0 < q" "q < 2 ^ 20" "n * q \<le> p" "p < Suc n * q" "p < q * 2 ^ 34"
  shows "snd (to_double p q) \<le> -19 \<and> fst (to_double p q) div 2 ^ nat (- snd (to_double p q)) = n"
proof -
  define k where "k = floor_log2_ratio p q"
  have k: "k \<le> 33"
  proof (rule ccontr)
    assume "\<not> k \<le> 33"
    then have "(2::nat) ^ 34 \<le> 2 ^ nat k"
      by (intro power_increasing) simp_all
    then have "q * 2 ^ 34 \<le> q * 2 ^ nat k"
      by simp
    also have "\<dots> \<le> p"
      using floor_log2_ratio_lower[OF assms(1,2)] \<open>\<not> k \<le> 33\<close> by (simp add: k_def)
    finally show False
      using assms(6) by simp
  qed
  define x where "x = max (k - 52) (-1074)"
  define E where "E = nat (- x)"
  have x: "x \<le> -19" "\<not> 0 \<le> x" and E: "19 \<le> E"
    using k by (simp_all add: x_def E_def)
  have td: "to_double p q = (round_half_even (p * 2 ^ E) q, x)"
    using x by (simp add: to_double_def Let_def k_def[symmetric] x_def[symmetric] E_def)
  have "(n * 2 ^ E) * q \<le> p * 2 ^ E"
    using assms(4) by (simp add: mult.commute mult.left_commute)
  then have lo: "n * 2 ^ E \<le> round_half_even (p * 2 ^ E) q"
    using round_half_even_ge[OF assms(2)] by blast
  have "q < 2 * 2 ^ E"
    using assms(3) power_increasing[OF E, of "2::nat"] by simp
  moreover have "2 * (p * 2 ^ E) + 2 * 2 ^ E \<le> 2 * (Suc n * 2 ^ E) * q"
  proof -
    have "Suc p * (2 * 2 ^ E) \<le> (Suc n * q) * (2 * 2 ^ E)"
      using assms(5) by (intro mult_le_mono1) simp
    then show ?thesis
      by (simp add: algebra_simps)
  qed
  ultimately have hi: "round_half_even (p * 2 ^ E) q < Suc n * 2 ^ E"
    using round_half_even_less[OF assms(2)] by simp
  from lo hi have "round_half_even (p * 2 ^ E) q div 2 ^ E = n"
    by (intro div_nat_eqI) (simp_all add: mult.commute)
  with td x E_def show ?thesis
    by simp
qed

lemma digits_nat_append: "digits_nat (xs @ ys) = digits_nat xs * 10 ^ length ys + digits_nat ys"
  by (induction ys rule: rev_induct) (simp_all flip: append_assoc)

lemma digit_val_less: "is_digit c \<Longrightarrow> digit_val c < 10"
  unfolding is_digit_def digit_val_def Let_def by linarith

lemma digits_nat_less: "list_all is_digit cs \<Longrightarrow> digits_nat (map digit_val cs) < 10 ^ length cs"
proof (induction cs rule: rev_induct)
  case (snoc c cs)
  then have "digit_val c < 10" and ih: "digits_nat (map digit_val cs) < 10 ^ length cs"
    by (simp_all add: digit_val_less)
  then have "10 * digits_nat (map digit_val cs) + digit_val c < 10 * 10 ^ length cs"
    by linarith
  then show ?case by simp
qed simp

lemma int_of_float_lit_trunc:
  assumes "n < 2 ^ 33" "f < 10 ^ L" "L \<le> 6"
  shows "int_of_float_lit (FNum neg (n * 10 ^ L + f) (- int L)) = Some (if neg then - int n else int n)"
proof (cases "n * 10 ^ L + f = 0")
  case True
  then show ?thesis by (simp add: int_of_float_lit_def)
next
  case False
  define N q where "N = n * 10 ^ L + f" and "q = (10::nat) ^ L"
  have pq: "(if 0 \<le> - int L then (N * 10 ^ nat (- int L), 1) else (N, 10 ^ nat (- (- int L)))) = (N, q)"
    by (simp add: q_def)
  have "q \<le> 10 ^ 6"
    using assms(3) power_increasing[of L 6 "10::nat"] by (simp add: q_def)
  then have q20: "q < 2 ^ 20" by simp
  have "N < Suc n * q"
    using assms(2) by (simp add: N_def q_def)
  moreover have "Suc n * q \<le> 2 ^ 33 * q"
    using assms(1) by (intro mult_le_mono1) simp
  ultimately have "N < 2 ^ 33 * q"
    by linarith
  moreover have "2 ^ 33 * q \<le> q * (2::nat) ^ 34"
    by simp
  ultimately have "N < q * 2 ^ 34"
    by linarith
  with False q20 \<open>N < Suc n * q\<close>
  have t: "snd (to_double N q) \<le> -19 \<and> fst (to_double N q) div 2 ^ nat (- snd (to_double N q)) = n"
    by (intro to_double_trunc) (simp_all add: N_def q_def)
  show ?thesis
    using False t pq unfolding N_def[symmetric]
    by (simp add: int_of_float_lit_def Let_def split_def)
qed

lemma not_isspace [simp]:
  "is_digit c \<Longrightarrow> \<not> py_isspace c" "\<not> py_isspace CHR ''-''" "\<not> py_isspace CHR ''.''"
  by (auto simp: py_isspace_def is_digit_def Let_def)

text \<open>C15. For the text ffprobe prints for a duration, \<^verbatim>\<open>n.dddddd\<close> and a line
  break, \<open>get_video_duration\<close> returns the integer part \<open>n\<close>, truncating toward zero
  (a leading minus sign gives \<open>-n\<close>), for every \<open>n < 2^33\<close> and every fraction of at
  most six digits: rounding to a double never carries into the integer part.\<close>

theorem get_video_duration_ffprobe:
  assumes "n < 2 ^ 33" "list_all is_digit fs" "length fs \<le> 6" "list_all py_isspace ws"
  shows "get_video_duration video (ProbeOut ((if neg then ''-'' else []) @ nat_str n @ CHR ''.'' # fs @ ws)) =
           ([ERun (ffprobe_cmd video) None], Inr (if neg then - int n else int n))"
proof -
  define x where "x = (if neg then ''-'' else []) @ nat_str n @ CHR ''.'' # fs"
  have ns: "nat_str n \<noteq> []" "list_all is_digit (nat_str n)" "digits_nat (map digit_val (nat_str n)) = n"
    using nat_str_digits[of n] by simp_all
  have hd: "\<not> py_isspace (hd x)"
    using ns(1,2) by (cases "nat_str n") (simp_all add: x_def)
  have "\<not> py_isspace (last x)"
  proof (cases "fs = []")
    case False
    then have "last fs \<in> set fs" by simp
    with False assms(2) show ?thesis by (simp add: x_def list_all_iff)
  qed (simp add: x_def)
  then have strip: "py_strip (x @ ws) = x"
    using hd assms(4) by (intro py_strip_trailing) (simp_all add: x_def)
  have "parse_float x = Some (FNum neg (n * 10 ^ length fs + digits_nat (map digit_val fs)) (- int (length fs)))"
    using parse_float_point[OF ns(1,2) assms(2), of neg] by (simp add: x_def digits_nat_append ns(3))
  then show ?thesis
    using strip int_of_float_lit_trunc[OF assms(1) digits_nat_less[OF assms(2)] assms(3)]
    by (simp add: get_video_duration_def duration_of_stdout_def x_def)
qed


subsection \<open>Integers below 2^53\<close>

lemma py_strip_surrounding:
  assumes "x \<noteq> []" "\<not> py_isspace (hd x)" "\<not> py_isspace (last x)"
    and "list_all py_isspace ws1" "list_all py_isspace ws2"
  shows "py_strip (ws1 @ x @ ws2) = x"
proof -
  have "dropWhile py_isspace (ws1 @ x @ ws2) = x @ ws2"
    using assms(1,2,4) by (cases x) (simp_all add: dropWhile_append list_all_iff)
  moreover have "dropWhile py_isspace (x @ ws2) = x @ ws2"
    using assms(1,2) by (cases x) simp_all
  ultimately have "py_strip (ws1 @ x @ ws2) = py_strip (x @ ws2)"
    by (simp add: py_strip_def)
  then show ?thesis
    using py_strip_trailing[OF assms(1,2,3,5)] by simp
qed

lemma round_half_even_1 [simp]: "round_half_even p 1 = p" "round_half_even p (Suc 0) = p"
  by (simp_all add: round_half_even_def)

lemma floor_log2_ratio_1:
  assumes "0 < n" "n < 2 ^ 53"
  shows "0 \<le> floor_log2_ratio n 1 \<and> floor_log2_ratio n 1 \<le> 52"
proof -
  have b: "0 < nbits n" "2 ^ (nbits n - 1) \<le> n" "n < 2 ^ nbits n"
    using nbits_bounds[OF assms(1)] by simp_all
  have n1: "nbits (Suc 0) = 1"
    by (simp add: nbits.simps)
  have "\<not> n < 2 ^ (nbits n - 1)"
    using b(2) by simp
  then have k: "floor_log2_ratio n 1 = int (nbits n) - 1"
    using b(1) by (simp add: floor_log2_ratio_def Let_def n1 nat_diff_distrib)
  have "nbits n \<le> 53"
  proof (rule ccontr)
    assume "\<not> nbits n \<le> 53"
    then have "(2::nat) ^ 53 \<le> 2 ^ (nbits n - 1)"
      by (intro power_increasing) simp_all
    with b(2) assms(2) show False by simp
  qed
  with k b(1) show ?thesis by simp
qed

lemma int_of_float_lit_integer:
  assumes "n < 2 ^ 53"
  shows "int_of_float_lit (FNum neg n 0) = Some (if neg then - int n else int n)"
proof (cases "n = 0")
  case False
  define k where "k = floor_log2_ratio n 1"
  have k: "0 \<le> k" "k \<le> 52"
    using floor_log2_ratio_1[OF _ assms] False by (simp_all add: k_def)
  have k1: "floor_log2_ratio n (Suc 0) = k"
    by (simp add: k_def)
  show ?thesis
  proof (cases "k = 52")
    case True
    then have "to_double n 1 = (n, 0)"
      by (simp add: to_double_def k1)
    with False assms show ?thesis
      by (simp add: int_of_float_lit_def)
  next
    case False': False
    define E where "E = nat (52 - k)"
    have "to_double n 1 = (n * 2 ^ E, - int E)"
      using k False' by (simp add: to_double_def k1 E_def)
    moreover have "0 < E"
      using k False' by (simp add: E_def)
    ultimately show ?thesis
      using False by (simp add: int_of_float_lit_def)
  qed
qed (simp add: int_of_float_lit_def)

lemma parse_float_integer:
  assumes "s \<noteq> []" "list_all is_digit s"
  shows "parse_float ((if neg then ''-'' else []) @ s) = Some (FNum neg (digits_nat (map digit_val s)) 0)"
proof -
  obtain c s' where s: "s = c # s'" and c: "is_digit c"
    using assms by (cases s) auto
  have "parse_number s = Some (digits_nat (map digit_val s), 0)"
    using digitpart_digits[OF assms, of "[]"]
    by (simp add: parse_number_def finish_number_def parse_exponent_def)
  moreover have "map ascii_lower s \<noteq> ''inf'' \<and> map ascii_lower s \<noteq> ''infinity'' \<and> map ascii_lower s \<noteq> ''nan''"
    using s c by (auto simp: is_digit_def)
  ultimately show ?thesis
    using s c by (cases neg) (simp_all add: parse_float_def Let_def)
qed

text \<open>C23. The text \<^verbatim>\<open>str(i)\<close> of an integer, with any white space around it, reads
  back through \<^verbatim>\<open>int(float(s.strip()))\<close> as \<open>i\<close> whenever \<open>|i| < 2^53\<close>: every such
  integer is a double, so neither rounding nor truncation changes it.\<close>

theorem get_video_duration_int_str:
  assumes "\<bar>i\<bar> < 2 ^ 53" "list_all py_isspace ws1" "list_all py_isspace ws2"
  shows "get_video_duration video (ProbeOut (ws1 @ int_str i @ ws2)) = ([ERun (ffprobe_cmd video) None], Inr i)"
proof -
  define n where "n = nat \<bar>i\<bar>"
  define neg where "neg = (i < 0)"
  have str: "int_str i = (if neg then ''-'' else []) @ nat_str n"
    by (simp add: int_str_def n_def neg_def)
  have i: "i = (if neg then - int n else int n)"
    by (simp add: n_def neg_def)
  have n: "n < 2 ^ 53"
    using assms(1) by (simp add: n_def nat_less_iff)
  have ns: "nat_str n \<noteq> []" "list_all is_digit (nat_str n)" "digits_nat (map digit_val (nat_str n)) = n"
    using nat_str_digits[of n] by simp_all
  have "last (nat_str n) \<in> set (nat_str n)"
    using ns(1) by simp
  then have "\<not> py_isspace (last (int_str i))"
    using ns(1,2) by (simp add: str list_all_iff)
  moreover have "\<not> py_isspace (hd (int_str i))"
    using ns(1,2) by (cases "nat_str n") (simp_all add: str)
  moreover have "int_str i \<noteq> []"
    using ns(1) by (simp add: str)
  ultimately have strip: "py_strip (ws1 @ int_str i @ ws2) = int_str i"
    using assms(2,3) by (intro py_strip_surrounding)
  show ?thesis
    using strip parse_float_integer[OF ns(1,2), of neg] int_of_float_lit_integer[OF n, of neg]
    by (simp add: get_video_duration_def duration_of_stdout_def str ns(3) flip: i)
qed


end
