(* ===== verification/Pipeline.thy ===== *)
theory Pipeline
  imports Supabase Render Probe
begin

text \<open>
  \<^verbatim>\<open>main()\<close> of \<^verbatim>\<open>scripts/render-manim.py\<close> (lines 160--239): the argument and
  credential checks, the fetch of pending videos, and the loop that renders, probes,
  uploads and writes back each one. One iteration of the loop body (lines 186--235) is
  \<open>process_video\<close>; the loop is \<open>process_videos\<close>, which stops at the first exception
  that escapes an iteration, as the Python loop does. The world a run meets is a
  \<open>world\<close> record: the two environment variables, the server's answers to the fetch and
  to every other request, and for the \<open>i\<close>-th video of the batch a \<open>job_env\<close> with
  the name of its fresh temporary directory and what manim, ffprobe and ffmpeg do.
\<close>

record job_env =
  tmpdir :: string             \<comment> \<open>the directory \<^verbatim>\<open>tempfile.TemporaryDirectory()\<close> creates\<close>
  manim :: manim_outcome
  probe :: probe_outcome
  ffmpeg :: thumb_outcome
  log_writable :: bool         \<comment> \<open>whether \<^verbatim>\<open>render-logs/<id>.log\<close> can be written\<close>

datatype job_result = Rendered | Failed

definition RENDER_LOGS_DIR :: string where
  "RENDER_LOGS_DIR = ''render-logs''"

definition public_url :: "config \<Rightarrow> string \<Rightarrow> string" where
  "public_url cfg key = supabase_url cfg @ ''/storage/v1/object/public/videos/'' @ key"

definition video_key :: "pyval \<Rightarrow> string" where
  "video_key vid = py_str vid @ ''.mp4''"

definition thumb_key :: "pyval \<Rightarrow> string" where
  "thumb_key vid = py_str vid @ ''_thumb.jpg''"

text \<open>The work directory after manim: what \<^verbatim>\<open>thumb_path.exists()\<close> and a later
  \<^verbatim>\<open>open(thumb_path)\<close> find. ffmpeg writing the still makes it a file; otherwise an
  entry \<^verbatim>\<open>thumb.jpg\<close> that manim left behind is what is there.\<close>

definition thumb_state :: "job_env \<Rightarrow> bool \<Rightarrow> bool \<times> bool" where
  "thumb_state je wrote =
     (if wrote then (True, False)
      else case manim je of
             MExit _ tree \<Rightarrow> (case entry tree ''thumb.jpg'' of None \<Rightarrow> (False, False)
                                                         | Some n \<Rightarrow> (True, is_dir_node n))
           | _ \<Rightarrow> (False, False))"

definition write_log :: "job_env \<Rightarrow> pyval \<Rightarrow> unit py" where
  "write_log je vid =
     (if log_writable je
      then ([EWriteText (path_join RENDER_LOGS_DIR (py_str vid @ ''.log''))
                         (''Render failed for '' @ py_str vid @ ''\<newline>'')], Inr ())
      else ([], Inl FileNotFoundError))"

section \<open>One iteration of the loop (lines 186--235)\<close>

text \<open>Lines 193--200: the render produced no file.\<close>

definition render_failed :: "config \<Rightarrow> unit responder \<Rightarrow> job_env \<Rightarrow> pyval \<Rightarrow> job_result py" where
  "render_failed cfg srv je vid =
     py_bind (supabase_update_video cfg srv vid [(''status'', PStr ''failed'')]) (\<lambda>_.
     py_bind (write_log je vid) (\<lambda>_. ([], Inr Failed)))"

text \<open>Lines 212--216: the video upload failed.\<close>

definition upload_failed :: "config \<Rightarrow> unit responder \<Rightarrow> pyval \<Rightarrow> job_result py" where
  "upload_failed cfg srv vid =
     py_bind (supabase_update_video cfg srv vid [(''status'', PStr ''failed'')]) (\<lambda>_. ([], Inr Failed))"

text \<open>Lines 224--235: the row is marked ready.\<close>

definition ready_updates :: "config \<Rightarrow> pyval \<Rightarrow> bool \<Rightarrow> int \<Rightarrow> (string \<times> pyval) list" where
  "ready_updates cfg vid thumb_exists duration =
     [(''video_url'', PStr (public_url cfg (video_key vid))),
      (''thumbnail_url'', if thumb_exists then PStr (public_url cfg (thumb_key vid)) else PNone),
      (''duration_seconds'', PInt duration),
      (''status'', PStr ''ready'')]"

definition mark_ready :: "config \<Rightarrow> unit responder \<Rightarrow> pyval \<Rightarrow> bool \<Rightarrow> int \<Rightarrow> job_result py" where
  "mark_ready cfg srv vid thumb_exists duration =
     py_bind (supabase_update_video cfg srv vid (ready_updates cfg vid thumb_exists duration)) (\<lambda>_. ([], Inr Rendered))"

text \<open>Lines 209--235: upload the video, then (best effort) the still, then write back.\<close>

definition publish ::
  "config \<Rightarrow> unit responder \<Rightarrow> job_env \<Rightarrow> pyval \<Rightarrow> string \<times> bool \<Rightarrow> int \<Rightarrow> string \<Rightarrow> bool \<Rightarrow> job_result py" where
  "publish cfg srv je vid output duration thumb_path wrote =
     (let (thumb_exists, thumb_is_dir) = thumb_state je wrote in
      py_bind (supabase_upload cfg srv ''videos'' (video_key vid) output ''video/mp4'') (\<lambda>ok.
      if \<not> ok then upload_failed cfg srv vid
      else
        py_bind (if thumb_exists
                 then supabase_upload cfg srv ''videos'' (thumb_key vid) (thumb_path, thumb_is_dir) ''image/jpeg''
                 else ([], Inr True)) (\<lambda>_.
        mark_ready cfg srv vid thumb_exists duration)))"

text \<open>Lines 202--235: probe, make the still, publish.\<close>

definition finish_render ::
  "config \<Rightarrow> unit responder \<Rightarrow> job_env \<Rightarrow> pyval \<Rightarrow> string \<times> bool \<Rightarrow> job_result py" where
  "finish_render cfg srv je vid output =
     (let thumb_path = path_join (tmpdir je) ''thumb.jpg'' in
      py_bind (get_video_duration (fst output) (probe je)) (\<lambda>duration.
      py_bind (generate_thumbnail (fst output) thumb_path (ffmpeg je)) (\<lambda>wrote.
      publish cfg srv je vid output duration thumb_path wrote)))"

text \<open>Everything inside \<^verbatim>\<open>with tempfile.TemporaryDirectory()\<close> (lines 190--235),
  ending in \<open>Rendered\<close>, \<open>Failed\<close> (a \<^verbatim>\<open>continue\<close>) or an exception.\<close>

definition job_body :: "config \<Rightarrow> unit responder \<Rightarrow> string \<Rightarrow> job_env \<Rightarrow> pyval \<Rightarrow> pyval \<Rightarrow> job_result py" where
  "job_body cfg srv quality je video vid =
     py_bind ([], py_getitem video ''manim_script'') (\<lambda>script.
     py_bind (render_script script quality (tmpdir je) (manim je)) (\<lambda>output.
     case output of
       None \<Rightarrow> render_failed cfg srv je vid
     | Some out \<Rightarrow> finish_render cfg srv je vid out))"

text \<open>Line 186 reads the id; the \<^verbatim>\<open>with\<close> statement creates the directory and removes
  it on every way out of its body, exceptions included.\<close>

definition process_video :: "config \<Rightarrow> unit responder \<Rightarrow> string \<Rightarrow> job_env \<Rightarrow> pyval \<Rightarrow> job_result py" where
  "process_video cfg srv quality je video =
     (case py_getitem video ''id'' of
        Inl e \<Rightarrow> ([], Inl e)
      | Inr vid \<Rightarrow>
          (let (es, r) = job_body cfg srv quality je video vid
           in ([ETempCreate (tmpdir je)] @ es @ [ETempCleanup (tmpdir je)], r)))"

section \<open>The loop (lines 185--235) and main (lines 160--239)\<close>

fun count_result :: "job_result \<Rightarrow> nat \<times> nat \<Rightarrow> nat \<times> nat" where
  "count_result Rendered (r, f) = (Suc r, f)"
| "count_result Failed (r, f) = (r, Suc f)"

fun process_videos ::
  "config \<Rightarrow> unit responder \<Rightarrow> string \<Rightarrow> (nat \<Rightarrow> job_env) \<Rightarrow> nat \<Rightarrow> pyval list \<Rightarrow> nat \<times> nat \<Rightarrow> (nat \<times> nat) py" where
  "process_videos cfg srv q jobs i [] cnt = ([], Inr cnt)"
| "process_videos cfg srv q jobs i (v # vs) cnt =
     py_bind (process_video cfg srv q (jobs i) v) (\<lambda>r. process_videos cfg srv q jobs (Suc i) vs (count_result r cnt))"

record cli_args =
  arg_quality :: string     \<comment> \<open>\<^verbatim>\<open>--quality\<close>, default \<^verbatim>\<open>l\<close>\<close>
  arg_limit :: int          \<comment> \<open>\<^verbatim>\<open>--limit\<close>, default 20\<close>

record world =
  w_config :: config
  w_fetch :: "pyval option responder"
  w_srv :: "unit responder"
  w_jobs :: "nat \<Rightarrow> job_env"

datatype run_result =
    Exited int "(nat \<times> nat) option"   \<comment> \<open>exit code and the printed summary (rendered, failed)\<close>
  | Crashed py_exc                     \<comment> \<open>an uncaught exception: traceback, exit code 1\<close>

definition fetch_path :: "int \<Rightarrow> string" where
  "fetch_path lim = ''videos?status=eq.generating&manim_script=not.is.null&limit='' @ int_str lim @
                    ''&select=id,content_element_id,manim_script''"

text \<open>argparse rejects a quality outside \<^verbatim>\<open>choices\<close> with exit code 2 before the body
  runs; parsing the command line text itself is the library's and is not modelled.\<close>

definition main :: "cli_args \<Rightarrow> world \<Rightarrow> effect list \<times> run_result" where
  "main args w =
     (let cfg = w_config w in
      if arg_quality args \<notin> {''l'', ''m'', ''h''} then ([], Exited 2 None)
      else if supabase_url cfg = [] \<or> supabase_key cfg = [] then ([], Exited 1 None)
      else
        (let (e1, r1) = supabase_request cfg (w_fetch w) GET (fetch_path (arg_limit args)) PNone;
             pre = EMkdir RENDER_LOGS_DIR # e1
         in case r1 of
              Inl e \<Rightarrow> (pre, Crashed e)
            | Inr videos \<Rightarrow>
                if \<not> py_truthy videos then (pre, Exited 0 None)
                else (case videos of
                       PList vs \<Rightarrow>
                         (let (e2, r2) = process_videos cfg (w_srv w) (arg_quality args) (w_jobs w) 0 vs (0, 0)
                          in (pre @ e2, case r2 of Inl e \<Rightarrow> Crashed e | Inr cnt \<Rightarrow> Exited 0 (Some cnt)))
                     | _ \<Rightarrow> (pre, Crashed TypeError))))"

section \<open>Observing a trace\<close>

text \<open>The status a PATCH request writes, and the URLs of the uploads, in the order they
  were issued.\<close>

fun status_write :: "effect \<Rightarrow> (string \<times> string) option" where
  "status_write (ERequest PATCH url hdrs (Some (PDict upd))) =
     (case map_of upd ''status'' of Some (PStr st) \<Rightarrow> Some (url, st) | _ \<Rightarrow> None)"
| "status_write _ = None"

definition status_writes :: "effect list \<Rightarrow> (string \<times> string) list" where
  "status_writes es = List.map_filter status_write es"

fun status_name :: "job_result \<Rightarrow> string" where
  "status_name Rendered = ''ready''"
| "status_name Failed = ''failed''"

fun upload_url :: "effect \<Rightarrow> string option" where
  "upload_url (EUpload m url hdrs f) = Some url"
| "upload_url _ = None"

definition uploads :: "effect list \<Rightarrow> string list" where
  "uploads es = List.map_filter upload_url es"

fun temp_effect :: "effect \<Rightarrow> bool" where
  "temp_effect (ETempCreate _) = True"
| "temp_effect (ETempCleanup _) = True"
| "temp_effect _ = False"

declare process_video_def [model_defs] job_body_def [model_defs] render_failed_def [model_defs]
  upload_failed_def [model_defs] mark_ready_def [model_defs] ready_updates_def [model_defs]
  publish_def [model_defs] finish_render_def [model_defs] thumb_state_def [model_defs]
  write_log_def [model_defs] main_def [model_defs] fetch_path_def [model_defs]
  video_key_def [model_defs] thumb_key_def [model_defs] public_url_def [model_defs]
  RENDER_LOGS_DIR_def [model_defs]

section \<open>Properties\<close>

subsection \<open>Trace observers through the steps\<close>

lemma status_writes_append [simp]: "status_writes (a @ b) = status_writes a @ status_writes b"
  by (simp add: status_writes_def map_filter_def)

lemma status_writes_Cons [simp]:
  "status_writes (e # es) = (case status_write e of None \<Rightarrow> [] | Some x \<Rightarrow> [x]) @ status_writes es"
  by (simp add: status_writes_def map_filter_def split: option.split)

lemma status_writes_Nil [simp]: "status_writes [] = []"
  by (simp add: status_writes_def map_filter_def)

lemma uploads_append [simp]: "uploads (a @ b) = uploads a @ uploads b"
  by (simp add: uploads_def map_filter_def)

lemma uploads_Cons [simp]:
  "uploads (e # es) = (case upload_url e of None \<Rightarrow> [] | Some x \<Rightarrow> [x]) @ uploads es"
  by (simp add: uploads_def map_filter_def split: option.split)

lemma uploads_Nil [simp]: "uploads [] = []"
  by (simp add: uploads_def map_filter_def)

lemma status_writes_py_bind [simp]:
  "status_writes (fst (py_bind m f)) =
     status_writes (fst m) @ (case snd m of Inl _ \<Rightarrow> [] | Inr a \<Rightarrow> status_writes (fst (f a)))"
  by (simp add: py_bind_def split: sum.split)

lemma uploads_py_bind [simp]:
  "uploads (fst (py_bind m f)) = uploads (fst m) @ (case snd m of Inl _ \<Rightarrow> [] | Inr a \<Rightarrow> uploads (fst (f a)))"
  by (simp add: py_bind_def split: sum.split)

lemma observers_render_script [simp]:
  "status_writes (fst (render_script s q wd m)) = []" "uploads (fst (render_script s q wd m)) = []"
  by (simp_all add: render_script_def Let_def split: pyval.split)

lemma observers_upload [simp]:
  "status_writes (fst (supabase_upload cfg srv b p f ct)) = []"
  by (simp add: supabase_upload_def Let_def split: prod.split http_resp.split)

lemma observers_steps [simp]:
  "status_writes (fst (get_video_duration v p)) = []" "uploads (fst (get_video_duration v p)) = []"
  "status_writes (fst (generate_thumbnail v t m)) = []" "uploads (fst (generate_thumbnail v t m)) = []"
  "status_writes (fst (write_log je vid)) = []" "uploads (fst (write_log je vid)) = []"
  "uploads (fst (supabase_update_video cfg srv vid upd)) = []"
  by (simp_all add: get_video_duration_def generate_thumbnail_def write_log_def supabase_update_video_effects)

lemma status_writes_update [simp]:
  "map_of upd ''status'' = Some (PStr st) \<Longrightarrow>
   status_writes (fst (supabase_update_video cfg srv vid upd)) = [(update_url cfg vid, st)]"
  by (simp add: supabase_update_video_effects)

lemma observers_render_failed:
  "status_writes (fst (render_failed cfg srv je vid)) = [(update_url cfg vid, ''failed'')]"
  "uploads (fst (render_failed cfg srv je vid)) = []"
  by (simp_all add: render_failed_def split: sum.split)

lemma observers_upload_failed:
  "status_writes (fst (upload_failed cfg srv vid)) = [(update_url cfg vid, ''failed'')]"
  "uploads (fst (upload_failed cfg srv vid)) = []"
  by (simp_all add: upload_failed_def split: sum.split)

lemma status_writes_mark_ready:
  "status_writes (fst (mark_ready cfg srv vid t d)) = [(update_url cfg vid, ''ready'')]"
  by (simp add: mark_ready_def ready_updates_def split: sum.split)

lemma snd_render_failed_Inr: "snd (render_failed cfg srv je vid) = Inr r \<Longrightarrow> r = Failed"
  by (auto simp: render_failed_def py_bind_def split: sum.splits)

lemma snd_upload_failed_Inr: "snd (upload_failed cfg srv vid) = Inr r \<Longrightarrow> r = Failed"
  by (auto simp: upload_failed_def py_bind_def split: sum.splits)

lemma snd_mark_ready_Inr: "snd (mark_ready cfg srv vid t d) = Inr r \<Longrightarrow> r = Rendered"
  by (auto simp: mark_ready_def py_bind_def split: sum.splits)

subsection \<open>One terminal status per job\<close>

lemma status_writes_publish:
  assumes "snd (publish cfg srv je vid out d tp w) = Inr r"
  shows "status_writes (fst (publish cfg srv je vid out d tp w)) = [(update_url cfg vid, status_name r)]"
proof -
  obtain te td where ts: "thumb_state je w = (te, td)" by fastforce
  let ?up = "supabase_upload cfg srv ''videos'' (video_key vid) out ''video/mp4''"
  let ?th = "if te then supabase_upload cfg srv ''videos'' (thumb_key vid) (tp, td) ''image/jpeg'' else ([], Inr True)"
  let ?k = "\<lambda>ok. if \<not> ok then upload_failed cfg srv vid else py_bind ?th (\<lambda>_. mark_ready cfg srv vid te d)"
  have p: "publish cfg srv je vid out d tp w = py_bind ?up ?k"
    by (simp add: publish_def ts)
  from assms[unfolded p] obtain ok where ok: "snd ?up = Inr ok" and rest: "snd (?k ok) = Inr r"
    by (erule py_bind_InrE)
  show ?thesis
  proof (cases ok)
    case False
    with rest ok show ?thesis
      by (auto simp: p observers_upload_failed dest: snd_upload_failed_Inr)
  next
    case True
    with rest obtain x where x: "snd ?th = Inr x" and mr: "snd (mark_ready cfg srv vid te d) = Inr r"
      by (auto elim: py_bind_InrE)
    with True ok show ?thesis
      by (auto simp: p status_writes_mark_ready dest: snd_mark_ready_Inr split: if_splits)
  qed
qed

lemma status_writes_finish_render:
  assumes "snd (finish_render cfg srv je vid out) = Inr r"
  shows "status_writes (fst (finish_render cfg srv je vid out)) = [(update_url cfg vid, status_name r)]"
proof -
  let ?tp = "path_join (tmpdir je) ''thumb.jpg''"
  let ?dur = "get_video_duration (fst out) (probe je)"
  let ?th = "generate_thumbnail (fst out) ?tp (ffmpeg je)"
  from assms obtain d where d: "snd ?dur = Inr d"
    and r1: "snd (py_bind ?th (publish cfg srv je vid out d ?tp)) = Inr r"
    unfolding finish_render_def Let_def by (erule py_bind_InrE)
  from r1 obtain w where w: "snd ?th = Inr w" and r2: "snd (publish cfg srv je vid out d ?tp w) = Inr r"
    by (erule py_bind_InrE)
  show ?thesis
    using d w status_writes_publish[OF r2] by (simp add: finish_render_def Let_def)
qed

lemma status_writes_job_body:
  assumes "snd (job_body cfg srv q je video vid) = Inr r"
  shows "status_writes (fst (job_body cfg srv q je video vid)) = [(update_url cfg vid, status_name r)]"
proof -
  let ?k = "\<lambda>outp. case outp of None \<Rightarrow> render_failed cfg srv je vid | Some out \<Rightarrow> finish_render cfg srv je vid out"
  from assms obtain script where sc: "py_getitem video ''manim_script'' = Inr script"
    and r1: "snd (py_bind (render_script script q (tmpdir je) (manim je)) ?k) = Inr r"
    unfolding job_body_def by (erule py_bind_pure_InrE)
  from r1 obtain outp where o: "snd (render_script script q (tmpdir je) (manim je)) = Inr outp"
    and r2: "snd (?k outp) = Inr r"
    by (erule py_bind_InrE)
  have "status_writes (fst (job_body cfg srv q je video vid)) = status_writes (fst (?k outp))"
    using sc o by (simp add: job_body_def)
  with r2 show ?thesis
    by (cases outp) (auto simp: observers_render_failed dest: snd_render_failed_Inr status_writes_finish_render)
qed

lemma process_video_InrE:
  assumes "snd (process_video cfg srv q je video) = Inr r"
  obtains vid where "py_getitem video ''id'' = Inr vid" "snd (job_body cfg srv q je video vid) = Inr r"
    "fst (process_video cfg srv q je video) =
       ETempCreate (tmpdir je) # fst (job_body cfg srv q je video vid) @ [ETempCleanup (tmpdir je)]"
  using assms by (auto simp: process_video_def split: sum.splits prod.splits)

lemma status_writes_process_video:
  assumes "snd (process_video cfg srv q je video) = Inr r"
  obtains vid where "py_getitem video ''id'' = Inr vid"
    "status_writes (fst (process_video cfg srv q je video)) = [(update_url cfg vid, status_name r)]"
  using assms by (elim process_video_InrE) (simp add: status_writes_job_body)

text \<open>C1. A batch that runs to its end has written exactly one terminal status for each
  fetched video, in the order they were fetched, \<^verbatim>\<open>ready\<close> or \<^verbatim>\<open>failed\<close>; every
  fetched item had an id; and the two counters of the summary count the two outcomes.\<close>

theorem process_videos_status_writes:
  assumes "process_videos cfg srv q jobs i vs cnt = (es, Inr cnt')"
  shows "\<exists>ids rs. list_all2 (\<lambda>v vid. py_getitem v ''id'' = Inr vid) vs ids \<and> length rs = length vs \<and>
           status_writes es = map2 (\<lambda>vid r. (update_url cfg vid, status_name r)) ids rs \<and>
           cnt' = (fst cnt + count_list rs Rendered, snd cnt + count_list rs Failed)"
  using assms
proof (induction vs arbitrary: i cnt es)
  case Nil
  then show ?case by simp
next
  case (Cons v vs)
  let ?pv = "process_video cfg srv q (jobs i) v"
  from Cons.prems obtain r where pv: "snd ?pv = Inr r"
    and rest: "process_videos cfg srv q jobs (Suc i) vs (count_result r cnt) =
                 (fst (process_videos cfg srv q jobs (Suc i) vs (count_result r cnt)), Inr cnt')"
    and es: "es = fst ?pv @ fst (process_videos cfg srv q jobs (Suc i) vs (count_result r cnt))"
    by (cases "snd ?pv") (auto simp: py_bind_def prod_eq_iff)
  from pv obtain vid where vid: "py_getitem v ''id'' = Inr vid"
    and sw: "status_writes (fst ?pv) = [(update_url cfg vid, status_name r)]"
    by (rule status_writes_process_video)
  from Cons.IH[OF rest] obtain ids rs where
    "list_all2 (\<lambda>v vid. py_getitem v ''id'' = Inr vid) vs ids" "length rs = length vs"
    "status_writes (fst (process_videos cfg srv q jobs (Suc i) vs (count_result r cnt))) =
       map2 (\<lambda>vid r. (update_url cfg vid, status_name r)) ids rs"
    "cnt' = (fst (count_result r cnt) + count_list rs Rendered, snd (count_result r cnt) + count_list rs Failed)"
    by blast
  with vid sw es show ?case
    by (intro exI[of _ "vid # ids"] exI[of _ "r # rs"]) (cases r; cases cnt; auto)
qed

subsection \<open>The failure branches of one job\<close>

text \<open>C2. When the render yields no output file (timeout, non-zero exit, or no video
  found), no upload is attempted and the job's row is set to \<^verbatim>\<open>failed\<close>, inside the
  job's temporary directory.\<close>

theorem render_failure_marks_failed:
  assumes "py_getitem video ''id'' = Inr vid" "py_getitem video ''manim_script'' = Inr script"
    and "snd (render_script script q (tmpdir je) (manim je)) = Inr None"
  shows "uploads (fst (process_video cfg srv q je video)) = [] \<and>
         status_writes (fst (process_video cfg srv q je video)) = [(update_url cfg vid, ''failed'')]"
proof -
  have "job_body cfg srv q je video vid =
          (fst (render_script script q (tmpdir je) (manim je)) @ fst (render_failed cfg srv je vid),
           snd (render_failed cfg srv je vid))"
    using assms(2,3) by (simp add: job_body_def py_bind_def)
  with assms(1) show ?thesis by (simp add: process_video_def observers_render_failed)
qed

text \<open>C3. When the video upload reports failure, the row is set to \<^verbatim>\<open>failed\<close>
  whatever happened to the still: the still is not uploaded and the job does not count as
  rendered.\<close>

theorem video_upload_failure_marks_failed:
  assumes "snd (supabase_upload cfg srv ''videos'' (video_key vid) out ''video/mp4'') = Inr False"
  shows "status_writes (fst (publish cfg srv je vid out d tp w)) = [(update_url cfg vid, ''failed'')] \<and>
         uploads (fst (publish cfg srv je vid out d tp w)) =
           uploads (fst (supabase_upload cfg srv ''videos'' (video_key vid) out ''video/mp4'')) \<and>
         snd (publish cfg srv je vid out d tp w) \<noteq> Inr Rendered"
proof -
  have p: "publish cfg srv je vid out d tp w =
             (fst (supabase_upload cfg srv ''videos'' (video_key vid) out ''video/mp4'') @ fst (upload_failed cfg srv vid),
              snd (upload_failed cfg srv vid))"
    using assms by (simp add: publish_def py_bind_def split: prod.split)
  have "snd (upload_failed cfg srv vid) \<noteq> Inr Rendered"
    using snd_upload_failed_Inr by blast
  with p show ?thesis by (simp add: observers_upload_failed)
qed

text \<open>C4. When there is no still but the video upload succeeded, nothing more is
  uploaded and the row is updated to \<^verbatim>\<open>ready\<close> with a null thumbnail URL.\<close>

theorem missing_thumbnail_ready_with_null_url:
  assumes "thumb_state je w = (False, td)"
    and "snd (supabase_upload cfg srv ''videos'' (video_key vid) out ''video/mp4'') = Inr True"
  shows "fst (publish cfg srv je vid out d tp w) =
           fst (supabase_upload cfg srv ''videos'' (video_key vid) out ''video/mp4'') @
           fst (supabase_update_video cfg srv vid (ready_updates cfg vid False d)) \<and>
         map_of (ready_updates cfg vid False d) ''thumbnail_url'' = Some PNone \<and>
         map_of (ready_updates cfg vid False d) ''status'' = Some (PStr ''ready'')"
  using assms by (simp add: publish_def mark_ready_def ready_updates_def py_bind_def split: sum.split)

subsection \<open>The run\<close>

text \<open>C5. With valid arguments and credentials, a fetch that returns an empty (falsy)
  result ends the run with exit code 0 and no summary, having made no upload and no
  update.\<close>

theorem main_empty_fetch:
  assumes "arg_quality args \<in> {''l'', ''m'', ''h''}"
    and "supabase_url (w_config w) \<noteq> []" "supabase_key (w_config w) \<noteq> []"
    and "w_fetch w GET (supabase_url (w_config w) @ ''/rest/v1/'' @ fetch_path (arg_limit args)) = Resp s (Some v)"
    and "s = 200 \<or> s = 201" and "\<not> py_truthy v"
  shows "snd (main args w) = Exited 0 None \<and> uploads (fst (main args w)) = [] \<and> status_writes (fst (main args w)) = []"
  using assms by (auto simp: main_def supabase_request_def Let_def)

text \<open>C19. The two checks of \<open>main\<close> come before any effect: a quality outside
  \<^verbatim>\<open>l\<close>, \<^verbatim>\<open>m\<close>, \<^verbatim>\<open>h\<close> is refused by argparse with exit code 2, and a
  missing URL or key ends the run with exit code 1, before the log directory is created or
  any request is made.\<close>

theorem main_rejects_before_effects:
  "(arg_quality args \<notin> {''l'', ''m'', ''h''} \<longrightarrow> main args w = ([], Exited 2 None)) \<and>
   (arg_quality args \<in> {''l'', ''m'', ''h''} \<and> (supabase_url (w_config w) = [] \<or> supabase_key (w_config w) = []) \<longrightarrow>
      main args w = ([], Exited 1 None))"
  by (simp add: main_def Let_def)

text \<open>C20. An HTTP error on the fetch (a wrong key, a missing table) is read as an empty
  batch: \<^verbatim>\<open>supabase_request\<close> returns None and the run exits with code 0 and no
  summary, exactly as when nothing is pending.\<close>

theorem main_fetch_http_error:
  assumes "arg_quality args \<in> {''l'', ''m'', ''h''}"
    and "supabase_url (w_config w) \<noteq> []" "supabase_key (w_config w) \<noteq> []"
    and "w_fetch w GET (supabase_url (w_config w) @ ''/rest/v1/'' @ fetch_path (arg_limit args)) = HTTPErr c"
  shows "main args w =
           ([EMkdir RENDER_LOGS_DIR] @ fst (supabase_request (w_config w) (w_fetch w) GET (fetch_path (arg_limit args)) PNone),
            Exited 0 None)"
  using assms by (auto simp: main_def supabase_request_def Let_def)

text \<open>C21. A status update whose request fails without an HTTP status (connection
  refused, DNS, reset) is not caught: after a failed render, \<^verbatim>\<open>URLError\<close> leaves the
  loop right after the PATCH, the temporary directory is removed, the log is not written
  and the videos after it are not processed.\<close>

theorem status_update_network_error_aborts:
  assumes "py_getitem v ''id'' = Inr vid" "py_getitem v ''manim_script'' = Inr script"
    and "snd (render_script script q (tmpdir (jobs i)) (manim (jobs i))) = Inr None"
    and "srv PATCH (update_url cfg vid) = NetErr"
  shows "process_videos cfg srv q jobs i (v # vs) cnt =
           (ETempCreate (tmpdir (jobs i)) # fst (render_script script q (tmpdir (jobs i)) (manim (jobs i))) @
              fst (supabase_update_video cfg srv vid [(''status'', PStr ''failed'')]) @ [ETempCleanup (tmpdir (jobs i))],
            Inl URLError)"
  using assms
  by (simp add: process_video_def job_body_def render_failed_def supabase_update_video_def Let_def py_bind_def)

subsection \<open>The temporary directory\<close>

lemma list_ex_temp_py_bind [simp]:
  "list_ex temp_effect (fst (py_bind m f)) \<longleftrightarrow>
     list_ex temp_effect (fst m) \<or> (case snd m of Inl _ \<Rightarrow> False | Inr a \<Rightarrow> list_ex temp_effect (fst (f a)))"
  by (simp add: py_bind_def split: sum.split)

lemma no_temp_steps [simp]:
  "\<not> list_ex temp_effect (fst (supabase_update_video cfg srv vid upd))"
  "\<not> list_ex temp_effect (fst (supabase_upload cfg srv b p f ct))"
  "\<not> list_ex temp_effect (fst (render_script s q wd m))"
  "\<not> list_ex temp_effect (fst (get_video_duration v pr))"
  "\<not> list_ex temp_effect (fst (generate_thumbnail v t th))"
  "\<not> list_ex temp_effect (fst (write_log je vid))"
  by (auto simp: supabase_update_video_def supabase_upload_def render_script_def get_video_duration_def
                 generate_thumbnail_def write_log_def Let_def
           split: prod.split http_resp.split pyval.split)

lemma no_temp_publish: "\<not> list_ex temp_effect (fst (publish cfg srv je vid out d tp w))"
  by (simp add: publish_def upload_failed_def mark_ready_def split: prod.split sum.split)

lemma no_temp_job_body: "\<not> list_ex temp_effect (fst (job_body cfg srv q je video vid))"
  by (simp add: job_body_def render_failed_def finish_render_def no_temp_publish Let_def
           split: sum.split option.split)

text \<open>C7. The \<^verbatim>\<open>with\<close> statement brackets each job: once the id is read, the job's
  temporary directory is created first and removed last, on every way out of the body
  (success, \<^verbatim>\<open>continue\<close> or exception), and nothing in between creates or removes
  one.\<close>

theorem process_video_cleans_up:
  assumes "py_getitem video ''id'' = Inr vid"
  shows "\<exists>es. fst (process_video cfg srv q je video) = ETempCreate (tmpdir je) # es @ [ETempCleanup (tmpdir je)] \<and>
              \<not> list_ex temp_effect es"
  using assms no_temp_job_body[of cfg srv q je video vid]
  by (auto simp: process_video_def split: prod.split)

subsection \<open>An exception ends the batch\<close>

text \<open>C8. \<^verbatim>\<open>generate_thumbnail\<close> does not catch \<^verbatim>\<open>TimeoutExpired\<close>: when ffmpeg runs over
  its 30 seconds, the exception leaves the loop, the job keeps the status it had (no
  status is written, nothing is uploaded) and the videos after it are not processed.\<close>

theorem thumbnail_timeout_aborts_batch:
  assumes "py_getitem v ''id'' = Inr vid" "py_getitem v ''manim_script'' = Inr script"
    and "snd (render_script script q (tmpdir (jobs i)) (manim (jobs i))) = Inr (Some out)"
    and "ffmpeg (jobs i) = ThumbTimeout"
  shows "snd (process_videos cfg srv q jobs i (v # vs) cnt) = Inl TimeoutExpired \<and>
         status_writes (fst (process_videos cfg srv q jobs i (v # vs) cnt)) = [] \<and>
         uploads (fst (process_videos cfg srv q jobs i (v # vs) cnt)) = []"
  using assms
  by (simp add: process_video_def job_body_def finish_render_def generate_thumbnail_def
                get_video_duration_def Let_def py_bind_def split: prod.split)

subsection \<open>Credentials on every request\<close>

lemma authenticated_steps [simp]:
  "list_all (authenticated cfg) (fst (supabase_update_video cfg srv vid upd))"
  "list_all (authenticated cfg) (fst (supabase_upload cfg srv b p f ct))"
  "list_all (authenticated cfg) (fst (supabase_request cfg fsrv m path body))"
  "list_all (authenticated cfg) (fst (render_script s q wd mo))"
  "list_all (authenticated cfg) (fst (get_video_duration v pr))"
  "list_all (authenticated cfg) (fst (generate_thumbnail v t th))"
  "list_all (authenticated cfg) (fst (write_log je vid))"
  by (simp_all add: list_all_iff supabase_update_video_authenticated supabase_upload_authenticated
        supabase_request_authenticated)
     (auto simp: render_script_def get_video_duration_def generate_thumbnail_def write_log_def Let_def
           split: pyval.split)

lemma authenticated_publish: "list_all (authenticated cfg) (fst (publish cfg srv je vid out d tp w))"
  by (simp add: publish_def upload_failed_def mark_ready_def split: prod.split sum.split)

lemma authenticated_job_body: "list_all (authenticated cfg) (fst (job_body cfg srv q je video vid))"
  by (simp add: job_body_def render_failed_def finish_render_def authenticated_publish
                Let_def split: sum.split option.split)

lemma authenticated_process_video: "list_all (authenticated cfg) (fst (process_video cfg srv q je video))"
  by (simp add: process_video_def authenticated_job_body split_def Let_def split: sum.split)

lemma authenticated_process_videos:
  "list_all (authenticated cfg) (fst (process_videos cfg srv q jobs i vs cnt))"
  by (induction vs arbitrary: i cnt) (simp_all add: authenticated_process_video split: sum.split)

end
