(* ===== verification/Rows.thy ===== *)
theory Rows
  imports Pipeline
begin

text \<open>
  The \<^verbatim>\<open>videos\<close> table as the run sees it, and the life cycle of a row. The
  specification gives a row the statuses \<^verbatim>\<open>generating\<close>, \<^verbatim>\<open>ready\<close> and
  \<^verbatim>\<open>failed\<close>, and says the script only reads pending rows and writes their terminal
  fields once. The abstract machine is the step relation \<open>table_step\<close>: one pending row
  becomes \<^verbatim>\<open>ready\<close> or \<^verbatim>\<open>failed\<close>. The table itself is PostgREST's, outside the
  repository: a PATCH on \<^verbatim>\<open>videos?id=eq.<k>\<close> sets the status of the row whose id prints
  as \<open>k\<close> (\<open>apply_writes\<close>). The refinement theorem shows that the status
  writes of a batch that ends normally are a run of the abstract machine.
\<close>

type_synonym table = "string \<Rightarrow> string option"

definition update_prefix :: "config \<Rightarrow> string" where
  "update_prefix cfg = supabase_url cfg @ ''/rest/v1/'' @ ''videos?id=eq.''"

definition row_key :: "config \<Rightarrow> string \<Rightarrow> string option" where
  "row_key cfg url =
     (if take (length (update_prefix cfg)) url = update_prefix cfg
      then Some (drop (length (update_prefix cfg)) url) else None)"

text \<open>A PATCH takes effect when PostgREST answered it with a success status
  (\<^verbatim>\<open>urlopen\<close> returned); after an HTTP error the row is unchanged (the script
  ignores the \<open>False\<close> that \<^verbatim>\<open>supabase_update_video\<close> then returns).\<close>

definition patch_applied :: "unit responder \<Rightarrow> string \<Rightarrow> bool" where
  "patch_applied srv url = (case srv PATCH url of Resp _ _ \<Rightarrow> True | _ \<Rightarrow> False)"

fun apply_writes :: "config \<Rightarrow> unit responder \<Rightarrow> table \<Rightarrow> (string \<times> string) list \<Rightarrow> table" where
  "apply_writes cfg srv db [] = db"
| "apply_writes cfg srv db ((url, st) # ws) =
     apply_writes cfg srv
       (case row_key cfg url of Some k \<Rightarrow> if patch_applied srv url then db(k \<mapsto> st) else db | None \<Rightarrow> db) ws"

definition terminal :: "string \<Rightarrow> bool" where
  "terminal s \<longleftrightarrow> s = ''ready'' \<or> s = ''failed''"

text \<open>The status writes of one job: none, or one terminal status for its row.\<close>

definition one_status :: "config \<Rightarrow> pyval \<Rightarrow> (string \<times> string) list \<Rightarrow> bool" where
  "one_status cfg vid ws \<longleftrightarrow>
     ws = [] \<or> ws = [(update_url cfg vid, ''ready'')] \<or> ws = [(update_url cfg vid, ''failed'')]"

inductive status_step :: "string \<Rightarrow> string \<Rightarrow> bool" where
  to_ready: "status_step ''generating'' ''ready''"
| to_failed: "status_step ''generating'' ''failed''"

inductive table_step :: "table \<Rightarrow> table \<Rightarrow> bool" where
  "db k = Some s \<Longrightarrow> status_step s s' \<Longrightarrow> table_step db (db(k \<mapsto> s'))"

inductive_simps status_step_simps: "status_step s s'"
inductive_cases table_step_cases: "table_step db db'"

section \<open>The abstract machine\<close>

lemma status_step_terminal: "status_step s s' \<Longrightarrow> s = ''generating'' \<and> terminal s'"
  by (auto simp: status_step_simps terminal_def)

lemma status_step_status_name [intro]: "status_step ''generating'' (status_name r)"
  by (cases r) (simp_all add: status_step_simps)

lemma terminal_not_generating [simp]: "terminal s \<Longrightarrow> s \<noteq> ''generating''"
  by (auto simp: terminal_def)

text \<open>Rule induction: a row that is \<^verbatim>\<open>ready\<close> or \<^verbatim>\<open>failed\<close> never changes again.\<close>

lemma table_steps_keep_terminal:
  assumes "table_step\<^sup>*\<^sup>* db db'" "db k = Some s" "terminal s"
  shows "db' k = Some s"
  using assms
proof (induction rule: rtranclp_induct)
  case (step db1 db2)
  then have "db1 k = Some s" by simp
  from step.hyps(2) obtain k' s0 s' where h: "db1 k' = Some s0" "status_step s0 s'" "db2 = db1(k' \<mapsto> s')"
    by (auto elim: table_step_cases)
  have "s0 = ''generating''"
    using status_step_terminal[OF h(2)] by simp
  with h(1) \<open>db1 k = Some s\<close> step.prems(2) have "k' \<noteq> k"
    by auto
  with h \<open>db1 k = Some s\<close> show ?case by simp
qed simp

section \<open>The concrete writes\<close>

lemma row_key_update_url [simp]: "row_key cfg (update_url cfg vid) = Some (py_str vid)"
  by (simp add: row_key_def update_url_def update_prefix_def)

lemma apply_writes_append: "apply_writes cfg srv db (xs @ ys) = apply_writes cfg srv (apply_writes cfg srv db xs) ys"
  by (induction cfg srv db xs rule: apply_writes.induct) simp_all

section \<open>The writes of a batch\<close>

lemma one_status_simps [simp]:
  "one_status cfg vid []" "one_status cfg vid [(update_url cfg vid, ''ready'')]"
  "one_status cfg vid [(update_url cfg vid, ''failed'')]"
  by (simp_all add: one_status_def)

lemma one_status_py_bind:
  assumes "status_writes (fst m) = []" "\<And>a. snd m = Inr a \<Longrightarrow> one_status cfg vid (status_writes (fst (f a)))"
  shows "one_status cfg vid (status_writes (fst (py_bind m f)))"
  using assms by (cases "snd m") auto

lemma one_status_publish: "one_status cfg vid (status_writes (fst (publish cfg srv je vid out d tp w)))"
proof -
  obtain te td where ts: "thumb_state je w = (te, td)" by fastforce
  show ?thesis
    unfolding publish_def ts Let_def prod.case
    by (intro one_status_py_bind)
       (auto simp: observers_upload_failed status_writes_mark_ready split: sum.split)
qed

lemma one_status_finish_render: "one_status cfg vid (status_writes (fst (finish_render cfg srv je vid out)))"
  unfolding finish_render_def Let_def
  by (intro one_status_py_bind one_status_publish) simp_all

lemma one_status_job_body: "one_status cfg vid (status_writes (fst (job_body cfg srv q je video vid)))"
  unfolding job_body_def
  by (intro one_status_py_bind)
     (simp_all add: one_status_finish_render observers_render_failed split: option.split)

lemma one_status_process_video:
  "py_getitem video ''id'' = Inr vid \<Longrightarrow> one_status cfg vid (status_writes (fst (process_video cfg srv q je video)))"
  using one_status_job_body[of cfg vid srv q je video]
  by (simp add: process_video_def split_def Let_def)

lemma one_status_steps:
  assumes "one_status cfg vid ws" "db (py_str vid) = Some ''generating''"
  shows "table_step\<^sup>*\<^sup>* db (apply_writes cfg srv db ws) \<and>
         (\<forall>k. k \<noteq> py_str vid \<longrightarrow> apply_writes cfg srv db ws k = db k)"
proof -
  have "table_step db (db(py_str vid \<mapsto> ''ready''))" "table_step db (db(py_str vid \<mapsto> ''failed''))"
    using assms(2) by (auto intro: table_step.intros simp: status_step_simps)
  then have "table_step\<^sup>*\<^sup>* db (db(py_str vid \<mapsto> ''ready''))" "table_step\<^sup>*\<^sup>* db (db(py_str vid \<mapsto> ''failed''))"
    by (auto intro: r_into_rtranclp)
  then show ?thesis
    using assms(1) by (auto simp: one_status_def)
qed

text \<open>Whatever the world does, exceptions included, the status writes of a batch move each
  of its pending rows at most one step along the life cycle and leave the other rows alone;
  when the batch ends normally and the table accepts the updates, every row of the batch
  ends terminal.\<close>

lemma batch_status_writes:
  assumes "map (\<lambda>v. py_getitem v ''id'') vs = map Inr ids"
    and "distinct (map py_str ids)"
    and "\<forall>vid\<in>set ids. db (py_str vid) = Some ''generating''"
  shows "table_step\<^sup>*\<^sup>* db (apply_writes cfg srv db (status_writes (fst (process_videos cfg srv q jobs i vs cnt)))) \<and>
         (\<forall>k. k \<notin> py_str ` set ids \<longrightarrow> apply_writes cfg srv db (status_writes (fst (process_videos cfg srv q jobs i vs cnt))) k = db k) \<and>
         (\<not> isl (snd (process_videos cfg srv q jobs i vs cnt)) \<longrightarrow>
          (\<forall>vid\<in>set ids. patch_applied srv (update_url cfg vid)) \<longrightarrow>
          (\<forall>vid\<in>set ids. \<exists>s. apply_writes cfg srv db (status_writes (fst (process_videos cfg srv q jobs i vs cnt))) (py_str vid) = Some s \<and> terminal s))"
  using assms
proof (induction vs arbitrary: i cnt db ids)
  case Nil
  then show ?case by simp
next
  case (Cons v vs)
  from Cons.prems(1) obtain vid ids' where ids: "ids = vid # ids'" and vid: "py_getitem v ''id'' = Inr vid"
    and ids': "map (\<lambda>v. py_getitem v ''id'') vs = map Inr ids'"
    by (cases ids) auto
  let ?pv = "process_video cfg srv q (jobs i) v"
  define db1 where "db1 = apply_writes cfg srv db (status_writes (fst ?pv))"
  have one: "table_step\<^sup>*\<^sup>* db db1" "\<forall>k. k \<noteq> py_str vid \<longrightarrow> db1 k = db k"
    using one_status_steps[OF one_status_process_video[OF vid], where db = db and srv = srv] Cons.prems(3) ids
    by (simp_all add: db1_def)
  show ?case
  proof (cases "snd ?pv")
    case (Inl e)
    then have "process_videos cfg srv q jobs i (v # vs) cnt = (fst ?pv, Inl e)"
      by (simp add: py_bind_def)
    with one ids show ?thesis
      by (auto simp: db1_def)
  next
    case (Inr r)
    let ?rest = "process_videos cfg srv q jobs (Suc i) vs (count_result r cnt)"
    have run: "process_videos cfg srv q jobs i (v # vs) cnt = (fst ?pv @ fst ?rest, snd ?rest)"
      using Inr by (simp add: py_bind_def)
    have new: "py_str vid \<notin> py_str ` set ids'"
      using Cons.prems(2) ids by auto
    have pend: "\<forall>vid'\<in>set ids'. db1 (py_str vid') = Some ''generating''"
      using Cons.prems(3) ids one(2) new by (auto simp: image_iff)
    have dist: "distinct (map py_str ids')"
      using Cons.prems(2) ids by simp
    from Cons.IH[OF ids' dist pend, of "Suc i" "count_result r cnt"]
    have ih: "table_step\<^sup>*\<^sup>* db1 (apply_writes cfg srv db1 (status_writes (fst ?rest)))"
      "\<forall>k. k \<notin> py_str ` set ids' \<longrightarrow> apply_writes cfg srv db1 (status_writes (fst ?rest)) k = db1 k"
      "\<not> isl (snd ?rest) \<longrightarrow> (\<forall>vid\<in>set ids'. patch_applied srv (update_url cfg vid)) \<longrightarrow>
         (\<forall>vid\<in>set ids'. \<exists>s. apply_writes cfg srv db1 (status_writes (fst ?rest)) (py_str vid) = Some s \<and> terminal s)"
      by blast+
    have aw: "apply_writes cfg srv db (status_writes (fst (process_videos cfg srv q jobs i (v # vs) cnt))) =
                apply_writes cfg srv db1 (status_writes (fst ?rest))"
      by (simp only: run fst_conv status_writes_append apply_writes_append db1_def)
    obtain vid' where "py_getitem v ''id'' = Inr vid'"
      and sw: "status_writes (fst ?pv) = [(update_url cfg vid', status_name r)]"
      using Inr by (rule status_writes_process_video)
    with vid have sw: "status_writes (fst ?pv) = [(update_url cfg vid, status_name r)]"
      by simp
    have "patch_applied srv (update_url cfg vid) \<Longrightarrow>
          apply_writes cfg srv db1 (status_writes (fst ?rest)) (py_str vid) = Some (status_name r)"
      using ih(2) new by (simp add: db1_def sw)
    moreover have "terminal (status_name r)"
      by (cases r) (simp_all add: terminal_def)
    ultimately show ?thesis
      unfolding aw using one ih ids run by (auto intro: rtranclp_trans)
  qed
qed

section \<open>Refinement\<close>

text \<open>C22. The status writes of a batch that ends normally, applied to the table, are a
  run of the abstract machine when the fetched rows were pending, have distinct ids and
  the table accepts their updates:
  every fetched row ends \<^verbatim>\<open>ready\<close> or \<^verbatim>\<open>failed\<close>, each having taken one step,
  and every other row is left as it was.\<close>

theorem batch_refines_table_steps:
  assumes "process_videos cfg srv q jobs i vs cnt = (es, Inr cnt')"
    and "map (\<lambda>v. py_getitem v ''id'') vs = map Inr ids"
    and "distinct (map py_str ids)"
    and "\<forall>vid\<in>set ids. db (py_str vid) = Some ''generating''"
    and "\<forall>vid\<in>set ids. patch_applied srv (update_url cfg vid)"
  shows "table_step\<^sup>*\<^sup>* db (apply_writes cfg srv db (status_writes es)) \<and>
         (\<forall>vid\<in>set ids. \<exists>s. apply_writes cfg srv db (status_writes es) (py_str vid) = Some s \<and> terminal s) \<and>
         (\<forall>k. k \<notin> py_str ` set ids \<longrightarrow> apply_writes cfg srv db (status_writes es) k = db k)"
  using batch_status_writes[OF assms(2-4), where srv = srv and cfg = cfg and q = q and jobs = jobs and i = i and cnt = cnt]
    assms(1,5) by simp

end
