(* ===== verification/Runs.thy ===== *)
theory Runs
  imports Rows
begin

text \<open>The rows of the \<^verbatim>\<open>videos\<close> table that the run reads and writes, in the
  order PostgREST returns them.\<close>

record vrow =
  row_id :: string
  row_content :: pyval
  row_script :: pyval       \<comment> \<open>\<open>PNone\<close> for SQL null\<close>
  row_status :: string

definition row_json :: "vrow \<Rightarrow> pyval" where
  "row_json r = PDict [(''id'', PStr (row_id r)), (''content_element_id'', row_content r),
                       (''manim_script'', row_script r)]"

text \<open>The backlog: the rows waiting for a render, with status \<^verbatim>\<open>generating\<close> and a
  script, in table order.\<close>

definition pending :: "vrow list \<Rightarrow> vrow list" where
  "pending db = filter (\<lambda>r. row_status r = ''generating'' \<and> row_script r \<noteq> PNone) db"

section \<open>PostgREST's reading of a read request\<close>

text \<open>The server side of the fetch is not code of the repository: it is PostgREST over the
  \<^verbatim>\<open>videos\<close> table. It is described here for the part of its query language a read
  of this table can use: the query string split at \<^verbatim>\<open>&\<close>, each parameter split at
  its first \<^verbatim>\<open>=\<close>; the filters \<^verbatim>\<open>status=eq.\<close>\<open>s\<close> and
  \<^verbatim>\<open>manim_script=not.is.null\<close>, in conjunction; \<^verbatim>\<open>limit=\<close>\<open>n\<close> with \<open>n\<close> a
  non-negative decimal; \<^verbatim>\<open>select=\<close> a comma list of columns, all of them when absent.
  Any other parameter is refused with 400, as is a negative or non-numeric limit; rows
  come in table order.\<close>

fun split_on :: "char \<Rightarrow> string \<Rightarrow> string list" where
  "split_on c [] = [[]]"
| "split_on c (x # xs) =
     (if x = c then [] # split_on c xs
      else (case split_on c xs of w # ws \<Rightarrow> (x # w) # ws | [] \<Rightarrow> [[x]]))"

datatype row_filter = StatusEq string | ScriptNotNull

record pg_read =
  pr_filters :: "row_filter list"
  pr_limit :: "nat option"
  pr_select :: "string list option"

definition video_columns :: "string list" where
  "video_columns = [''id'', ''content_element_id'', ''manim_script'', ''status'']"

definition row_col :: "vrow \<Rightarrow> string \<Rightarrow> pyval" where
  "row_col r c =
     (if c = ''id'' then PStr (row_id r)
      else if c = ''content_element_id'' then row_content r
      else if c = ''manim_script'' then row_script r
      else PStr (row_status r))"

fun row_holds :: "row_filter \<Rightarrow> vrow \<Rightarrow> bool" where
  "row_holds (StatusEq s) r = (row_status r = s)"
| "row_holds ScriptNotNull r = (row_script r \<noteq> PNone)"

definition read_param :: "pg_read \<Rightarrow> string \<Rightarrow> pg_read option" where
  "read_param q p =
     (let k = takeWhile (\<lambda>c. c \<noteq> CHR ''='') p;
          v = drop 1 (dropWhile (\<lambda>c. c \<noteq> CHR ''='') p)
      in if k = ''status'' \<and> take 3 v = ''eq.'' then Some (q\<lparr>pr_filters := pr_filters q @ [StatusEq (drop 3 v)]\<rparr>)
         else if k = ''manim_script'' \<and> v = ''not.is.null'' then Some (q\<lparr>pr_filters := pr_filters q @ [ScriptNotNull]\<rparr>)
         else if k = ''limit'' \<and> v \<noteq> [] \<and> list_all is_digit v then Some (q\<lparr>pr_limit := Some (digits_nat (map digit_val v))\<rparr>)
         else if k = ''select'' \<and> list_all (\<lambda>c. c \<in> set video_columns) (split_on CHR '','' v)
           then Some (q\<lparr>pr_select := Some (split_on CHR '','' v)\<rparr>)
         else None)"

fun read_params :: "pg_read \<Rightarrow> string list \<Rightarrow> pg_read option" where
  "read_params q [] = Some q"
| "read_params q (p # ps) = (case read_param q p of Some q' \<Rightarrow> read_params q' ps | None \<Rightarrow> None)"

definition read_answer :: "pg_read \<Rightarrow> vrow list \<Rightarrow> pyval list" where
  "read_answer q db =
     (let rs = filter (\<lambda>r. list_all (\<lambda>f. row_holds f r) (pr_filters q)) db;
          rs' = (case pr_limit q of Some n \<Rightarrow> take n rs | None \<Rightarrow> rs);
          cols = (case pr_select q of Some cs \<Rightarrow> cs | None \<Rightarrow> video_columns)
      in map (\<lambda>r. PDict (map (\<lambda>c. (c, row_col r c)) cols)) rs')"

text \<open>The answer to any request of the fetch's responder: a GET under
  \<^verbatim>\<open>/rest/v1/videos?\<close> is read as above, anything else is not found.\<close>

definition table_fetch :: "config \<Rightarrow> vrow list \<Rightarrow> pyval option responder" where
  "table_fetch cfg db m url =
     (let base = supabase_url cfg @ ''/rest/v1/videos?''
      in if m = GET \<and> take (length base) url = base
         then (case read_params \<lparr>pr_filters = [], pr_limit = None, pr_select = None\<rparr>
                       (split_on CHR ''&'' (drop (length base) url)) of
                 Some q \<Rightarrow> Resp 200 (Some (PList (read_answer q db)))
               | None \<Rightarrow> HTTPErr 400)
         else HTTPErr 404)"

definition status_of :: "vrow list \<Rightarrow> table" where
  "status_of db = map_of (map (\<lambda>r. (row_id r, row_status r)) db)"

definition set_status :: "string \<Rightarrow> string \<Rightarrow> vrow list \<Rightarrow> vrow list" where
  "set_status k st db = map (\<lambda>r. if row_id r = k then r\<lparr>row_status := st\<rparr> else r) db"

fun apply_patches :: "config \<Rightarrow> unit responder \<Rightarrow> vrow list \<Rightarrow> (string \<times> string) list \<Rightarrow> vrow list" where
  "apply_patches cfg srv db [] = db"
| "apply_patches cfg srv db ((url, st) # ws) =
     apply_patches cfg srv
       (case row_key cfg url of Some k \<Rightarrow> if patch_applied srv url then set_status k st db else db | None \<Rightarrow> db) ws"

definition table_world :: "config \<Rightarrow> vrow list \<Rightarrow> unit responder \<Rightarrow> (nat \<Rightarrow> job_env) \<Rightarrow> world" where
  "table_world cfg db srv jobs = \<lparr>w_config = cfg, w_fetch = table_fetch cfg db, w_srv = srv, w_jobs = jobs\<rparr>"

text \<open>One run of the script against the table, and the table it leaves.\<close>

definition run_on_table :: "config \<Rightarrow> cli_args \<Rightarrow> unit responder \<Rightarrow> (nat \<Rightarrow> job_env) \<Rightarrow> vrow list \<Rightarrow> vrow list \<times> run_result" where
  "run_on_table cfg args srv jobs db =
     (let (es, res) = main args (table_world cfg db srv jobs)
      in (apply_patches cfg srv db (status_writes es), res))"

text \<open>Runs in sequence (the job is started again and again), each with its own arguments,
  server behaviour and tools.\<close>

text \<open>\<open>n\<close> runs one after the other with the same arguments and server, the
  \<open>k\<close>-th run meeting the tools \<open>jobs k\<close>.\<close>

fun drain :: "config \<Rightarrow> cli_args \<Rightarrow> unit responder \<Rightarrow> (nat \<Rightarrow> nat \<Rightarrow> job_env) \<Rightarrow> nat \<Rightarrow> vrow list \<Rightarrow> vrow list" where
  "drain cfg args srv jobs 0 db = db"
| "drain cfg args srv jobs (Suc n) db = drain cfg args srv jobs n (fst (run_on_table cfg args srv (jobs n) db))"

inductive runs :: "config \<Rightarrow> vrow list \<Rightarrow> vrow list \<Rightarrow> bool" for cfg where
  runs_refl: "runs cfg db db"
| runs_step: "runs cfg db db' \<Longrightarrow> run_on_table cfg args srv jobs db' = (db'', res) \<Longrightarrow> runs cfg db db''"

section \<open>The table\<close>

text \<open>Tools that do not make the job raise: manim installed and leaving no file where
  the script expects a directory and no directory where it expects the video, ffmpeg
  installed and finishing in time, no directory \<^verbatim>\<open>thumb.jpg\<close>, a writable log folder.\<close>

definition tools_ok :: "job_env \<Rightarrow> bool" where
  "tools_ok je \<longleftrightarrow>
     log_writable je \<and> (case ffmpeg je of ThumbRan _ \<Rightarrow> True | _ \<Rightarrow> False) \<and>
     \<not> snd (thumb_state je False) \<and>
     (case manim je of
        MNotInstalled \<Rightarrow> False
      | MTimeout \<Rightarrow> True
      | MExit rc tree \<Rightarrow> rc \<noteq> 0 \<or>
          (case find_output tree of Inl _ \<Rightarrow> False | Inr None \<Rightarrow> True | Inr (Some (rel, n)) \<Rightarrow> \<not> is_dir_node n))"

section \<open>The fetch as PostgREST reads it\<close>

lemma split_on_no: "c \<notin> set xs \<Longrightarrow> split_on c xs = [xs]"
  by (induction xs) auto

lemma split_on_append: "c \<notin> set xs \<Longrightarrow> split_on c (xs @ c # ys) = xs # split_on c ys"
  by (induction xs) auto

lemma int_str_chars: "c \<in> set (int_str i) \<Longrightarrow> c = CHR ''-'' \<or> is_digit c"
  using nat_str_digits[of "nat (- i)"] nat_str_digits[of "nat i"]
  by (auto simp: int_str_def list_all_iff split: if_splits)

lemma int_str_digits:
  "int_str i \<noteq> []"
  "list_all is_digit (int_str i) \<longleftrightarrow> 0 \<le> i"
  "0 \<le> i \<Longrightarrow> digits_nat (map digit_val (int_str i)) = nat i"
  using nat_str_digits[of "nat (- i)"] nat_str_digits[of "nat i"] digit_not_special(3)[of "CHR ''-''"]
  by (auto simp: int_str_def)

lemma fetch_query:
  "split_on CHR ''&'' (''status=eq.generating&manim_script=not.is.null&limit='' @ int_str lim @
                       ''&select=id,content_element_id,manim_script'') =
   [''status=eq.generating'', ''manim_script=not.is.null'', ''limit='' @ int_str lim,
    ''select=id,content_element_id,manim_script'']"
proof -
  have eq: "''status=eq.generating&manim_script=not.is.null&limit='' @ int_str lim @
              ''&select=id,content_element_id,manim_script'' =
            ''status=eq.generating'' @ CHR ''&'' # (''manim_script=not.is.null'' @ CHR ''&'' #
              ((''limit='' @ int_str lim) @ CHR ''&'' # ''select=id,content_element_id,manim_script''))"
    by simp
  have n: "CHR ''&'' \<notin> set ''status=eq.generating''" "CHR ''&'' \<notin> set ''manim_script=not.is.null''"
    "CHR ''&'' \<notin> set (''limit='' @ int_str lim)" "CHR ''&'' \<notin> set ''select=id,content_element_id,manim_script''"
    using int_str_chars[of "CHR ''&''" lim] by (auto simp: is_digit_def)
  show ?thesis
    unfolding eq by (simp only: split_on_append[OF n(1)] split_on_append[OF n(2)] split_on_append[OF n(3)] split_on_no[OF n(4)])
qed

lemma read_fetch_params:
  "read_params \<lparr>pr_filters = [], pr_limit = None, pr_select = None\<rparr>
     [''status=eq.generating'', ''manim_script=not.is.null'', ''limit='' @ int_str lim,
      ''select=id,content_element_id,manim_script''] =
   (if 0 \<le> lim then Some \<lparr>pr_filters = [StatusEq ''generating'', ScriptNotNull], pr_limit = Some (nat lim),
                         pr_select = Some [''id'', ''content_element_id'', ''manim_script'']\<rparr>
    else None)"
  by (simp add: read_param_def Let_def video_columns_def int_str_digits)

lemma read_answer_fetch:
  "read_answer \<lparr>pr_filters = [StatusEq ''generating'', ScriptNotNull], pr_limit = Some n,
                pr_select = Some [''id'', ''content_element_id'', ''manim_script'']\<rparr> db =
   map row_json (take n (pending db))"
  by (simp add: read_answer_def pending_def row_json_def row_col_def)

text \<open>The fetch of line 174 is answered with the first \<open>limit\<close> rows of the backlog, and
  refused when the limit is negative.\<close>

lemma table_fetch_fetch_path:
  "table_fetch cfg db GET (supabase_url cfg @ ''/rest/v1/'' @ fetch_path lim) =
     (if 0 \<le> lim then Resp 200 (Some (PList (map row_json (take (nat lim) (pending db))))) else HTTPErr 400)"
proof -
  have url: "supabase_url cfg @ ''/rest/v1/'' @ fetch_path lim =
             (supabase_url cfg @ ''/rest/v1/videos?'') @
             (''status=eq.generating&manim_script=not.is.null&limit='' @ int_str lim @
              ''&select=id,content_element_id,manim_script'')"
    by (simp add: fetch_path_def)
  have t: "\<And>xs ys. take (length xs) (xs @ ys) = xs" "\<And>xs ys. drop (length xs) (xs @ ys) = ys"
    by simp_all
  show ?thesis
    unfolding table_fetch_def Let_def url
    by (simp only: t fetch_query read_fetch_params simp_thms if_True)
       (simp add: read_answer_fetch)
qed

section \<open>Runs that raise nothing\<close>

lemma no_exc_steps:
  assumes "\<forall>m u. srv m u \<noteq> NetErr"
  shows "\<not> isl (snd (supabase_update_video cfg srv vid upd))"
    and "\<not> isl (snd (supabase_upload cfg srv b p (f, False) ct))"
  using assms
  by (auto simp: supabase_update_video_def supabase_upload_def Let_def split: http_resp.split)

lemma no_exc_publish:
  assumes "\<forall>m u. srv m u \<noteq> NetErr" "\<not> snd (thumb_state je w)"
  shows "\<not> isl (snd (publish cfg srv je vid (f, False) d tp w))"
proof -
  obtain te td where ts: "thumb_state je w = (te, td)" by fastforce
  with assms(2) have "\<not> td" by simp
  then show ?thesis
    unfolding publish_def ts Let_def prod.case
    using no_exc_steps[OF assms(1)]
    by (intro not_isl_py_bind) (simp_all add: upload_failed_def mark_ready_def not_isl_py_bind)
qed

lemma row_ids_set_status [simp]: "map row_id (set_status k st db) = map row_id db"
  by (induction db) (simp_all add: set_status_def)

lemma row_ids_apply_patches [simp]: "map row_id (apply_patches cfg srv db ws) = map row_id db"
  by (induction cfg srv db ws rule: apply_patches.induct) (simp_all split: option.split)

lemma set_status_absent: "k \<notin> set (map row_id db) \<Longrightarrow> set_status k st db = db"
  by (induction db) (auto simp: set_status_def)

lemma status_of_set_status:
  "k \<in> set (map row_id db) \<Longrightarrow> distinct (map row_id db) \<Longrightarrow>
   status_of (set_status k st db) = (status_of db)(k \<mapsto> st)"
proof (induction db)
  case (Cons r db)
  show ?case
  proof (cases "row_id r = k")
    case True
    with Cons.prems have "set_status k st db = db"
      by (intro set_status_absent) auto
    with True show ?thesis
      by (simp add: status_of_def set_status_def fun_eq_iff)
  next
    case False
    with Cons show ?thesis
      by (auto simp: status_of_def set_status_def fun_upd_twist)
  qed
qed simp

lemma status_of_apply_patches:
  assumes "distinct (map row_id db)"
    and "\<forall>(u, st)\<in>set ws. \<exists>k\<in>set (map row_id db). row_key cfg u = Some k"
  shows "status_of (apply_patches cfg srv db ws) = apply_writes cfg srv (status_of db) ws"
  using assms
proof (induction ws arbitrary: db)
  case (Cons w ws)
  obtain url st where w: "w = (url, st)" by fastforce
  with Cons.prems(2) obtain k where k: "row_key cfg url = Some k" "k \<in> set (map row_id db)"
    by auto
  define db1 where "db1 = (if patch_applied srv url then set_status k st db else db)"
  have ids1: "map row_id db1 = map row_id db"
    by (simp add: db1_def)
  have "distinct (map row_id db1)"
    using Cons.prems(1) by (simp only: ids1)
  moreover have "\<forall>(u, st)\<in>set ws. \<exists>k\<in>set (map row_id db1). row_key cfg u = Some k"
    using Cons.prems(2) by (simp only: ids1) simp
  ultimately have "status_of (apply_patches cfg srv db1 ws) = apply_writes cfg srv (status_of db1) ws"
    using Cons.IH by blast
  moreover have "status_of db1 = (if patch_applied srv url then (status_of db)(k \<mapsto> st) else status_of db)"
    using Cons.prems(1) k(2) by (simp add: db1_def status_of_set_status)
  ultimately show ?case
    using w k by (simp add: db1_def)
qed simp

lemma status_of_pending:
  "distinct (map row_id db) \<Longrightarrow> r \<in> set (pending db) \<Longrightarrow> status_of db (row_id r) = Some ''generating''"
proof -
  assume "distinct (map row_id db)" "r \<in> set (pending db)"
  moreover have "distinct (map fst (map (\<lambda>r. (row_id r, row_status r)) db)) = distinct (map row_id db)"
    by (simp add: comp_def)
  ultimately show ?thesis
    by (auto simp: status_of_def pending_def intro: map_of_is_SomeI)
qed

lemma py_getitem_row_json [simp]:
  "py_getitem (row_json r) ''id'' = Inr (PStr (row_id r))"
  "py_getitem (row_json r) ''manim_script'' = Inr (row_script r)"
  by (simp_all add: row_json_def)

lemma batch_writes_keys:
  assumes "map (\<lambda>v. py_getitem v ''id'') vs = map Inr ids"
  shows "\<forall>(u, st)\<in>set (status_writes (fst (process_videos cfg srv q jobs i vs cnt))).
           \<exists>vid\<in>set ids. u = update_url cfg vid"
  using assms
proof (induction vs arbitrary: i cnt ids)
  case (Cons v vs)
  from Cons.prems obtain vid ids' where ids: "ids = vid # ids'" and vid: "py_getitem v ''id'' = Inr vid"
    and ids': "map (\<lambda>v. py_getitem v ''id'') vs = map Inr ids'"
    by (cases ids) auto
  let ?pv = "process_video cfg srv q (jobs i) v"
  have one: "one_status cfg vid (status_writes (fst ?pv))"
    by (rule one_status_process_video[OF vid])
  show ?case
  proof (intro ballI, clarify)
    fix u st
    assume "(u, st) \<in> set (status_writes (fst (process_videos cfg srv q jobs i (v # vs) cnt)))"
    then have "(u, st) \<in> set (status_writes (fst ?pv)) \<or>
      (\<exists>r. snd ?pv = Inr r \<and> (u, st) \<in> set (status_writes (fst (process_videos cfg srv q jobs (Suc i) vs (count_result r cnt)))))"
      by (auto split: sum.splits)
    then show "\<exists>vid\<in>set ids. u = update_url cfg vid"
    proof
      assume "(u, st) \<in> set (status_writes (fst ?pv))"
      with one ids show ?thesis by (auto simp: one_status_def)
    next
      assume "\<exists>r. snd ?pv = Inr r \<and> (u, st) \<in> set (status_writes (fst (process_videos cfg srv q jobs (Suc i) vs (count_result r cnt))))"
      with Cons.IH[OF ids'] ids show ?thesis by fastforce
    qed
  qed
qed simp

section \<open>One run, any number of runs\<close>

lemma status_writes_supabase_request [simp]:
  "status_writes (fst (supabase_request cfg fsrv GET path body)) = []"
  by (simp add: supabase_request_def Let_def)

lemma main_status_writes:
  "status_writes (fst (main args w)) = [] \<or>
   (\<exists>vs. snd (supabase_request (w_config w) (w_fetch w) GET (fetch_path (arg_limit args)) PNone) = Inr (PList vs) \<and>
         status_writes (fst (main args w)) =
           status_writes (fst (process_videos (w_config w) (w_srv w) (arg_quality args) (w_jobs w) 0 vs (0, 0))))"
  by (auto simp: main_def Let_def split_def split: sum.split pyval.split)

lemma table_fetch_list:
  assumes "snd (supabase_request cfg (table_fetch cfg db) GET (fetch_path lim) PNone) = Inr (PList vs)"
  shows "vs = map row_json (take (nat lim) (pending db))"
  using assms table_fetch_fetch_path[of cfg db lim] by (auto simp: supabase_request_def Let_def split: if_splits)

lemma pending_rows:
  fixes n :: nat
  assumes "distinct (map row_id db)"
  defines "rs \<equiv> take n (pending db)"
  shows "map (\<lambda>v. py_getitem v ''id'') (map row_json rs) = map Inr (map (PStr \<circ> row_id) rs)"
    and "distinct (map py_str (map (PStr \<circ> row_id) rs))"
    and "\<forall>vid\<in>set (map (PStr \<circ> row_id) rs). status_of db (py_str vid) = Some ''generating''"
proof -
  have "distinct (map row_id (pending db))"
    using assms(1) by (simp add: pending_def distinct_map_filter)
  then show "distinct (map py_str (map (PStr \<circ> row_id) rs))"
    by (simp add: rs_def comp_def take_map[symmetric] distinct_take)
  show "\<forall>vid\<in>set (map (PStr \<circ> row_id) rs). status_of db (py_str vid) = Some ''generating''"
    using assms(1) status_of_pending by (auto simp: rs_def dest: in_set_takeD)
qed (simp add: comp_def)

lemma run_on_table_steps:
  assumes "distinct (map row_id db)" "run_on_table cfg args srv jobs db = (db', res)"
  shows "map row_id db' = map row_id db \<and> table_step\<^sup>*\<^sup>* (status_of db) (status_of db')"
proof -
  let ?w = "table_world cfg db srv jobs"
  have db': "db' = apply_patches cfg srv db (status_writes (fst (main args ?w)))"
    using assms(2) by (simp add: run_on_table_def split_def Let_def)
  show ?thesis
  proof (cases "status_writes (fst (main args ?w)) = []")
    case True
    then show ?thesis by (simp add: db')
  next
    case False
    then obtain vs where vs: "snd (supabase_request cfg (table_fetch cfg db) GET (fetch_path (arg_limit args)) PNone) = Inr (PList vs)"
      and sw: "status_writes (fst (main args ?w)) =
                 status_writes (fst (process_videos cfg srv (arg_quality args) jobs 0 vs (0, 0)))"
      using main_status_writes[of args ?w] by (auto simp: table_world_def)
    define rs where "rs = take (nat (arg_limit args)) (pending db)"
    have vs_rs: "vs = map row_json rs"
      using table_fetch_list[OF vs] by (simp add: rs_def)
    note p = pending_rows[OF assms(1), of "nat (arg_limit args)", folded rs_def]
    let ?es = "status_writes (fst (process_videos cfg srv (arg_quality args) jobs 0 vs (0, 0)))"
    have keys: "\<forall>(u, st)\<in>set ?es. \<exists>k\<in>set (map row_id db). row_key cfg u = Some k"
      using batch_writes_keys[OF p(1)[folded vs_rs]] by (fastforce simp: rs_def dest: in_set_takeD simp add: pending_def)
    have "table_step\<^sup>*\<^sup>* (status_of db) (apply_writes cfg srv (status_of db) ?es)"
      using batch_status_writes[OF p(1)[folded vs_rs] p(2) p(3)] by blast
    with keys assms(1) show ?thesis
      by (simp add: db' sw status_of_apply_patches)
  qed
qed

text \<open>C24. Over any sequence of runs, whatever each run's arguments, server and tools do
  (crashes included), the table keeps its rows and each row moves only along the life
  cycle \<^verbatim>\<open>generating\<close> to \<^verbatim>\<open>ready\<close>/\<^verbatim>\<open>failed\<close>: a row that is
  \<^verbatim>\<open>ready\<close> or \<^verbatim>\<open>failed\<close> is never written again.\<close>

theorem runs_follow_life_cycle:
  assumes "runs cfg db db'" "distinct (map row_id db)"
  shows "map row_id db' = map row_id db \<and> table_step\<^sup>*\<^sup>* (status_of db) (status_of db') \<and>
         (\<forall>k s. status_of db k = Some s \<longrightarrow> terminal s \<longrightarrow> status_of db' k = Some s)"
  using assms
proof (induction rule: runs.induct)
  case (runs_step db0 db1 args srv jobs db2 res)
  then have ih: "map row_id db1 = map row_id db0" "table_step\<^sup>*\<^sup>* (status_of db0) (status_of db1)"
    by blast+
  with runs_step.prems have "distinct (map row_id db1)"
    by simp
  from run_on_table_steps[OF this runs_step.hyps(2)] ih
  have "map row_id db2 = map row_id db0" "table_step\<^sup>*\<^sup>* (status_of db0) (status_of db2)"
    by (auto intro: rtranclp_trans)
  then show ?case
    by (blast intro: table_steps_keep_terminal)
qed simp

lemma no_exc_process_video:
  assumes "\<forall>m u. srv m u \<noteq> NetErr" "tools_ok je"
    and "py_getitem video ''id'' = Inr vid" "py_getitem video ''manim_script'' = Inr (PStr t)"
  shows "\<not> isl (snd (process_video cfg srv q je video))"
proof -
  have th: "\<not> snd (thumb_state je w)" for w
    using assms(2) by (cases w) (simp_all add: tools_ok_def thumb_state_def)
  have rf: "\<not> isl (snd (render_failed cfg srv je vid))"
    using assms(2) no_exc_steps(1)[OF assms(1)]
    by (simp add: render_failed_def write_log_def tools_ok_def not_isl_py_bind)
  have fr: "\<not> isl (snd (finish_render cfg srv je vid (f, False)))" for f
    using assms(2) no_exc_publish[OF assms(1) th]
    by (auto simp: finish_render_def Let_def get_video_duration_def generate_thumbnail_def tools_ok_def
             intro!: not_isl_py_bind split: thumb_outcome.splits)
  have rs: "\<not> isl (snd (render_script (PStr t) q (tmpdir je) (manim je)))" and
    out: "snd (render_script (PStr t) q (tmpdir je) (manim je)) = Inr (Some out) \<Longrightarrow> snd out = False" for out
    using assms(2)
    by (auto simp: render_script_def Let_def tools_ok_def split: manim_outcome.splits sum.splits option.splits if_splits)
  have "\<not> isl (snd (job_body cfg srv q je video vid))"
    unfolding job_body_def using assms(4) rs rf fr out
    by (intro not_isl_py_bind) (auto split: option.split intro: not_isl_py_bind)
  with assms(3) show ?thesis
    by (simp add: process_video_def split_def Let_def)
qed

lemma no_exc_process_videos:
  assumes "\<forall>m u. srv m u \<noteq> NetErr" "\<forall>i. tools_ok (jobs i)"
    and "\<forall>v\<in>set vs. (\<exists>vid. py_getitem v ''id'' = Inr vid) \<and> (\<exists>t. py_getitem v ''manim_script'' = Inr (PStr t))"
  shows "\<not> isl (snd (process_videos cfg srv q jobs i vs cnt))"
  using assms(3)
proof (induction vs arbitrary: i cnt)
  case (Cons v vs)
  then obtain vid t where "py_getitem v ''id'' = Inr vid" "py_getitem v ''manim_script'' = Inr (PStr t)"
    by auto
  moreover have "\<not> isl (snd (process_videos cfg srv q jobs i' vs c))" for i' c
    using Cons.IH[of i' c] Cons.prems by simp
  ultimately show ?case
    using assms(1,2) unfolding process_videos.simps
    by (intro not_isl_py_bind no_exc_process_video) auto
qed simp

lemma row_scripts_apply_patches [simp]:
  "map (\<lambda>r. (row_id r, row_script r)) (apply_patches cfg srv db ws) = map (\<lambda>r. (row_id r, row_script r)) db"
proof (induction cfg srv db ws rule: apply_patches.induct)
  case (2 cfg srv db url st ws)
  have "map (\<lambda>r. (row_id r, row_script r)) (set_status k st db) = map (\<lambda>r. (row_id r, row_script r)) db" for k
    by (induction db) (simp_all add: set_status_def)
  with 2 show ?case by (simp split: option.split)
qed simp

lemma pending_iff:
  assumes "distinct (map row_id db)"
  shows "k \<in> set (map row_id (pending db)) \<longleftrightarrow>
           k \<in> set (map row_id db) \<and> status_of db k = Some ''generating'' \<and>
           (k, PNone) \<notin> set (map (\<lambda>r. (row_id r, row_script r)) db)"
proof -
  have d: "distinct (map fst (map (\<lambda>r. (row_id r, row_status r)) db))"
    using assms by (simp add: comp_def)
  have st: "r \<in> set db \<Longrightarrow> status_of db (row_id r) = Some (row_status r)" for r
    using d by (auto simp: status_of_def intro: map_of_is_SomeI)
  have uniq: "r \<in> set db \<Longrightarrow> r' \<in> set db \<Longrightarrow> row_id r = row_id r' \<Longrightarrow> r = r'" for r r'
    using assms by (metis distinct_map inj_onD)
  show ?thesis
  proof
    assume "k \<in> set (map row_id (pending db))"
    then show "k \<in> set (map row_id db) \<and> status_of db k = Some ''generating'' \<and>
               (k, PNone) \<notin> set (map (\<lambda>r. (row_id r, row_script r)) db)"
      by (auto simp: pending_def st dest: uniq)
  next
    assume "k \<in> set (map row_id db) \<and> status_of db k = Some ''generating'' \<and>
            (k, PNone) \<notin> set (map (\<lambda>r. (row_id r, row_script r)) db)"
    then obtain r where "r \<in> set db" "row_id r = k" "row_status r = ''generating''" "row_script r \<noteq> PNone"
      using st by force
    then show "k \<in> set (map row_id (pending db))"
      by (force simp: pending_def)
  qed
qed

lemma table_fetch_ok:
  assumes "0 \<le> lim"
  shows "snd (supabase_request cfg (table_fetch cfg db) GET (fetch_path lim) PNone) =
           Inr (PList (map row_json (take (nat lim) (pending db))))"
  using assms table_fetch_fetch_path[of cfg db lim] by (simp add: supabase_request_def Let_def)

lemma main_table_world:
  fixes db :: "vrow list"
  assumes "arg_quality args \<in> {''l'', ''m'', ''h''}" "supabase_url cfg \<noteq> []" "supabase_key cfg \<noteq> []"
    and "0 \<le> arg_limit args"
  defines "vs \<equiv> map row_json (take (nat (arg_limit args)) (pending db))"
  shows "status_writes (fst (main args (table_world cfg db srv jobs))) =
           status_writes (fst (process_videos cfg srv (arg_quality args) jobs 0 vs (0, 0))) \<and>
         snd (main args (table_world cfg db srv jobs)) =
           (if vs = [] then Exited 0 None
            else case snd (process_videos cfg srv (arg_quality args) jobs 0 vs (0, 0)) of
                   Inl e \<Rightarrow> Crashed e | Inr c \<Rightarrow> Exited 0 (Some c))"
  using assms(1-3) table_fetch_ok[OF assms(4), of cfg db]
  by (simp add: main_def table_world_def vs_def split_def Let_def)

text \<open>Progress of one run whose tools and server raise nothing: it takes the first
  \<open>limit\<close> pending rows out of the backlog (each ends \<^verbatim>\<open>ready\<close> or
  \<^verbatim>\<open>failed\<close>), leaves the other pending rows pending, and exits with code 0.\<close>

lemma run_progress:
  assumes "distinct (map row_id db)" "\<forall>r\<in>set db. row_script r = PNone \<or> (\<exists>t. row_script r = PStr t)"
    and "arg_quality args \<in> {''l'', ''m'', ''h''}" "supabase_url cfg \<noteq> []" "supabase_key cfg \<noteq> []"
    and "0 \<le> arg_limit args"
    and "\<forall>m u. srv m u \<noteq> NetErr" "\<forall>u. patch_applied srv u" "\<forall>i. tools_ok (jobs i)"
    and "run_on_table cfg args srv jobs db = (db', res)"
  shows "(\<exists>c. res = Exited 0 c) \<and>
         set (map row_id (pending db')) =
           set (map row_id (pending db)) - set (map row_id (take (nat (arg_limit args)) (pending db)))"
proof -
  define rs where "rs = take (nat (arg_limit args)) (pending db)"
  define vs where "vs = map row_json rs"
  let ?run = "process_videos cfg srv (arg_quality args) jobs 0 vs (0, 0)"
  let ?w = "table_world cfg db srv jobs"
  have m: "status_writes (fst (main args ?w)) = status_writes (fst ?run)"
    "snd (main args ?w) = (if vs = [] then Exited 0 None
       else case snd ?run of Inl e \<Rightarrow> Crashed e | Inr c \<Rightarrow> Exited 0 (Some c))"
    using main_table_world[OF assms(3-6), of db srv jobs] by (simp_all add: vs_def rs_def)
  have rows: "\<forall>r\<in>set rs. \<exists>t. row_script r = PStr t"
    using assms(2) by (auto simp: rs_def pending_def dest!: in_set_takeD)
  have ok: "\<not> isl (snd ?run)"
    using rows by (intro no_exc_process_videos[OF assms(7,9)]) (auto simp: vs_def)
  have db': "db' = apply_patches cfg srv db (status_writes (fst ?run))" "res = snd (main args ?w)"
    using assms(10) m(1) by (simp_all add: run_on_table_def split_def Let_def)
  have "\<exists>c. res = Exited 0 c"
    using ok by (cases "snd ?run") (simp_all add: db'(2) m(2))
  note p = pending_rows[OF assms(1), of "nat (arg_limit args)", folded rs_def]
  have keys: "\<forall>(u, st)\<in>set (status_writes (fst ?run)). \<exists>k\<in>set (map row_id db). row_key cfg u = Some k"
    using batch_writes_keys[OF p(1)[folded vs_def]] by (fastforce simp: rs_def pending_def dest: in_set_takeD)
  have sdb': "status_of db' = apply_writes cfg srv (status_of db) (status_writes (fst ?run))"
    using keys assms(1) by (simp add: db'(1) status_of_apply_patches)
  have B: "(\<forall>k. k \<notin> py_str ` set (map (PStr \<circ> row_id) rs) \<longrightarrow> status_of db' k = status_of db k) \<and>
           (\<not> isl (snd ?run) \<longrightarrow> (\<forall>vid\<in>set (map (PStr \<circ> row_id) rs). patch_applied srv (update_url cfg vid)) \<longrightarrow>
             (\<forall>vid\<in>set (map (PStr \<circ> row_id) rs). \<exists>s. status_of db' (py_str vid) = Some s \<and> terminal s))"
    unfolding sdb' using batch_status_writes[OF p(1)[folded vs_def] p(2) p(3), where cfg = cfg and srv = srv
      and q = "arg_quality args" and jobs = jobs and i = 0 and cnt = "(0, 0)"] by blast
  have "py_str ` set (map (PStr \<circ> row_id) rs) = row_id ` set rs"
    by (auto simp: image_iff)
  with B have other: "\<forall>k. k \<notin> row_id ` set rs \<longrightarrow> status_of db' k = status_of db k"
    by simp
  from B ok assms(8) have fin: "\<forall>r\<in>set rs. \<exists>s. status_of db' (row_id r) = Some s \<and> terminal s"
    by simp
  have d': "distinct (map row_id db')"
    using assms(1) by (simp add: db'(1))
  have "k \<in> set (map row_id (pending db')) \<longleftrightarrow> k \<in> set (map row_id (pending db)) \<and> k \<notin> row_id ` set rs" for k
  proof (cases "k \<in> row_id ` set rs")
    case True
    then obtain r where "r \<in> set rs" "k = row_id r" by auto
    with fin have "status_of db' k \<noteq> Some ''generating''" by auto
    with True show ?thesis
      using pending_iff[OF d', of k] by simp
  next
    case False
    then show ?thesis
      using pending_iff[OF d', of k] pending_iff[OF assms(1), of k] other by (simp add: db'(1))
  qed
  then have "set (map row_id (pending db')) = set (map row_id (pending db)) - set (map row_id rs)"
    by auto
  with \<open>\<exists>c. res = Exited 0 c\<close> show ?thesis
    by (simp add: rs_def)
qed

lemma run_on_table_rows:
  "fst (run_on_table cfg args srv jobs db) = apply_patches cfg srv db (status_writes (fst (main args (table_world cfg db srv jobs))))"
  by (simp add: run_on_table_def split_def Let_def)

lemma pending_length:
  "distinct (map row_id db) \<Longrightarrow> length (pending db) = card (set (map row_id (pending db)))"
proof -
  assume "distinct (map row_id db)"
  then have "distinct (map row_id (pending db))"
    by (simp add: pending_def distinct_map_filter)
  from distinct_card[OF this] show ?thesis
    by simp
qed

text \<open>C25. Liveness: in an environment where tools and server raise nothing and with a
  limit of at least one, the backlog of pending rows is emptied: after as many runs as there
  were pending rows, none is left, every one having ended \<^verbatim>\<open>ready\<close> or
  \<^verbatim>\<open>failed\<close>.\<close>

theorem drain_empties_backlog:
  assumes "distinct (map row_id db)" "\<forall>r\<in>set db. row_script r = PNone \<or> (\<exists>t. row_script r = PStr t)"
    and "arg_quality args \<in> {''l'', ''m'', ''h''}" "supabase_url cfg \<noteq> []" "supabase_key cfg \<noteq> []"
    and "1 \<le> arg_limit args"
    and "\<forall>m u. srv m u \<noteq> NetErr" "\<forall>u. patch_applied srv u" "\<forall>k i. tools_ok (jobs k i)"
    and "length (pending db) \<le> n"
  shows "pending (drain cfg args srv jobs n db) = []"
  using assms(1,2,10)
proof (induction n arbitrary: db)
  case 0
  then show ?case by simp
next
  case (Suc n)
  obtain db1 res where r: "run_on_table cfg args srv (jobs n) db = (db1, res)"
    by fastforce
  have pr: "set (map row_id (pending db1)) =
              set (map row_id (pending db)) - set (map row_id (take (nat (arg_limit args)) (pending db)))"
  proof -
    have l: "0 \<le> arg_limit args" using assms(6) by simp
    have t: "\<forall>i. tools_ok (jobs n i)" using assms(9) by simp
    show ?thesis
      using run_progress[OF Suc.prems(1,2) assms(3-5) l assms(7,8) t r] by (rule conjunct2)
  qed
  have same: "map (\<lambda>r. (row_id r, row_script r)) db1 = map (\<lambda>r. (row_id r, row_script r)) db"
    using r run_on_table_rows[of cfg args srv "jobs n" db] by simp
  have ids1: "map row_id db1 = map row_id db"
    using arg_cong[OF same, of "map fst"] by (simp add: comp_def)
  have scr: "map row_script db1 = map row_script db"
    using arg_cong[OF same, of "map snd"] by (simp add: comp_def)
  have d1: "distinct (map row_id db1)"
    using Suc.prems(1) ids1 by simp
  have s1: "\<forall>r\<in>set db1. row_script r = PNone \<or> (\<exists>t. row_script r = PStr t)"
  proof
    fix r
    assume "r \<in> set db1"
    then have "row_script r \<in> set (map row_script db)"
      unfolding scr[symmetric] by simp
    then obtain r0 where "r0 \<in> set db" "row_script r = row_script r0"
      by auto
    with Suc.prems(2) show "row_script r = PNone \<or> (\<exists>t. row_script r = PStr t)"
      by simp
  qed
  have "length (pending db1) \<le> n"
  proof (cases "pending db")
    case Nil
    with pr have "pending db1 = []" by simp
    then show ?thesis by simp
  next
    case (Cons r rest)
    have "row_id r \<in> set (map row_id (take (nat (arg_limit args)) (pending db)))"
      using assms(6) Cons by (cases "nat (arg_limit args)") auto
    moreover have "row_id r \<in> set (map row_id (pending db))"
      using Cons by simp
    ultimately have "card (set (map row_id (pending db1))) < card (set (map row_id (pending db)))"
      unfolding pr by (intro psubset_card_mono) auto
    with pending_length[OF d1] pending_length[OF Suc.prems(1)] Suc.prems(3) show ?thesis
      by simp
  qed
  from Suc.IH[OF d1 s1 this] r show ?case
    by simp
qed

end
