(* ===== verification/Cli.thy ===== *)
theory Cli
  imports Pipeline
begin

text \<open>
  The command line and the environment of \<^verbatim>\<open>scripts/render-manim.py\<close>: the two
  variables read at import (lines 26--27) and the parser built in \<^verbatim>\<open>main\<close>
  (lines 161--164), with argparse's reading of the argument strings for this parser
  (Python 3.11.10): options given whole, with \<^verbatim>\<open>=value\<close>, or by a unique prefix;
  \<^verbatim>\<open>-h\<close>/\<^verbatim>\<open>--help\<close>; a value is the next string unless that string looks like
  an option (a negative number does not, as the parser has no option that looks like one);
  \<^verbatim>\<open>type=int\<close> is Python's \<^verbatim>\<open>int(str)\<close>; \<^verbatim>\<open>choices\<close> is checked on the value.
  Errors exit with code 2, help with code 0. The marker \<^verbatim>\<open>--\<close>, whose handling differs
  between Python versions, is not modelled: a command line containing it gives
  \<open>CliMarker\<close>.
\<close>

section \<open>int(str)\<close>

text \<open>The limit CPython (3.11 and later) puts on the decimal digits \<^verbatim>\<open>int(s)\<close> converts,
  \<^verbatim>\<open>sys.int_info.default_max_str_digits\<close>; sign and underscores are not counted,
  leading zeros are.\<close>

definition int_max_str_digits :: nat where
  "int_max_str_digits = 4300"

text \<open>\<^verbatim>\<open>int(s)\<close> in base 10: white space around, an optional sign, digits with single
  underscores between them, no more digits than the limit. None is the ValueError.\<close>

definition py_int :: "string \<Rightarrow> int option" where
  "py_int s =
     (let t = py_strip s;
          (neg, body) = (case t of
                           c # r \<Rightarrow> if c = CHR ''-'' then (True, r) else if c = CHR ''+'' then (False, r) else (False, t)
                         | [] \<Rightarrow> (False, t))
      in case digitpart body of
           Some (ds, []) \<Rightarrow>
             if int_max_str_digits < length ds then None
             else Some (if neg then - int (digits_nat ds) else int (digits_nat ds))
         | _ \<Rightarrow> None)"

section \<open>The environment (lines 26--27)\<close>

definition config_of_env :: "(string \<Rightarrow> string option) \<Rightarrow> config" where
  "config_of_env env =
     \<lparr>supabase_url = (case env ''SUPABASE_URL'' of Some v \<Rightarrow> v | None \<Rightarrow> []),
      supabase_key = (case env ''SUPABASE_SERVICE_KEY'' of Some v \<Rightarrow> v | None \<Rightarrow> [])\<rparr>"

section \<open>The parser (lines 161--164)\<close>

datatype cli_opt = OQuality | OLimit | OHelp

text \<open>The option strings in the order argparse registers them.\<close>

definition option_strings :: "(string \<times> cli_opt) list" where
  "option_strings = [(''-h'', OHelp), (''--help'', OHelp), (''--quality'', OQuality), (''--limit'', OLimit)]"

text \<open>How argparse reads one argument string: a value (\<open>TArg\<close>), an option with its
  explicit argument if any, a string that looks like an unknown option, an ambiguous
  abbreviation, or the marker.\<close>

datatype cli_tok = TArg | TOpt cli_opt "string option" | TUnknown | TAmbiguous | TMarker

text \<open>\<^verbatim>\<open>_negative_number_matcher\<close>: \<^verbatim>\<open>^-\d+$|^-\d*\.\d+$\<close>, matched with
  \<^verbatim>\<open>re.match\<close>, where \<^verbatim>\<open>$\<close> also matches before a final newline.\<close>

definition negative_number_match :: "string \<Rightarrow> bool" where
  "negative_number_match s =
     (case s of
        c # r \<Rightarrow> c = CHR ''-'' \<and>
          ((r \<noteq> [] \<and> list_all is_digit r) \<or>
           (case dropWhile is_digit r of d # e \<Rightarrow> d = CHR ''.'' \<and> e \<noteq> [] \<and> list_all is_digit e | [] \<Rightarrow> False))
      | [] \<Rightarrow> False)"

definition looks_negative :: "string \<Rightarrow> bool" where
  "looks_negative s =
     (negative_number_match s \<or>
      (s \<noteq> [] \<and> last s = CHR ''\<newline>'' \<and> negative_number_match (butlast s)))"

text \<open>\<^verbatim>\<open>_get_option_tuples\<close>: the options an abbreviation can stand for.\<close>

definition option_tuples :: "string \<Rightarrow> (cli_opt \<times> string option) list" where
  "option_tuples s =
     (if take 2 s = ''--'' then
        (let name = takeWhile (\<lambda>c. c \<noteq> CHR ''='') s;
             rest = dropWhile (\<lambda>c. c \<noteq> CHR ''='') s;
             expl = (case rest of [] \<Rightarrow> None | _ # v \<Rightarrow> Some v)
         in map (\<lambda>(n, op). (op, expl)) (filter (\<lambda>(n, op). take (length name) n = name) option_strings))
      else
        map (\<lambda>(n, op). (op, Some (drop 2 s))) (filter (\<lambda>(n, op). n = take 2 s) option_strings) @
        map (\<lambda>(n, op). (op, None)) (filter (\<lambda>(n, op). n \<noteq> take 2 s \<and> take (length s) n = s) option_strings))"

text \<open>\<^verbatim>\<open>_parse_optional\<close>.\<close>

definition classify :: "string \<Rightarrow> cli_tok" where
  "classify s =
     (if s = ''--'' then TMarker
      else case s of
        [] \<Rightarrow> TArg
      | c # r \<Rightarrow>
          if c \<noteq> CHR ''-'' then TArg
          else case map_of option_strings s of
            Some op \<Rightarrow> TOpt op None
          | None \<Rightarrow>
              if r = [] then TArg
              else
                (let name = takeWhile (\<lambda>c. c \<noteq> CHR ''='') s;
                     rest = dropWhile (\<lambda>c. c \<noteq> CHR ''='') s
                 in case (if rest \<noteq> [] then map_of option_strings name else None) of
                      Some op \<Rightarrow> TOpt op (Some (tl rest))
                    | None \<Rightarrow>
                        (case option_tuples s of
                           [(op, e)] \<Rightarrow> TOpt op e
                         | [] \<Rightarrow> if looks_negative s \<or> CHR '' '' \<in> set s then TArg else TUnknown
                         | _ \<Rightarrow> TAmbiguous)))"

datatype cli_outcome = CliArgs cli_args | CliExit int | CliMarker

text \<open>The action of \<^verbatim>\<open>--quality\<close> (\<^verbatim>\<open>choices\<close>) and of \<^verbatim>\<open>--limit\<close> (\<^verbatim>\<open>type=int\<close>) on
  a value; None is the error.\<close>

fun apply_opt :: "cli_opt \<Rightarrow> string \<Rightarrow> cli_args \<Rightarrow> cli_args option" where
  "apply_opt OQuality v a = (if v \<in> {''l'', ''m'', ''h''} then Some (a\<lparr>arg_quality := v\<rparr>) else None)"
| "apply_opt OLimit v a = map_option (\<lambda>n. a\<lparr>arg_limit := n\<rparr>) (py_int v)"
| "apply_opt OHelp v a = None"

text \<open>\<^verbatim>\<open>-h\<close> with an explicit argument \<open>x\<close> (\<^verbatim>\<open>consume_optional\<close>): on a long
  option, after \<^verbatim>\<open>=\<close>, or when \<open>x\<close> is empty or starts with \<^verbatim>\<open>-\<close>, the
  argument is refused (exit 2); otherwise \<open>x\<close> is read as a group of short flags, the
  help action is queued first, and it runs before the rest of the group is looked at
  (exit 0).\<close>

definition help_explicit :: "string \<Rightarrow> string \<Rightarrow> cli_outcome" where
  "help_explicit s x =
     (if take 2 s \<noteq> ''--'' \<and> take 3 s \<noteq> ''-h='' \<and> x \<noteq> [] \<and> hd x \<noteq> CHR ''-''
      then CliExit 0 else CliExit 2)"

fun parse_loop :: "string list \<Rightarrow> cli_args \<Rightarrow> bool \<Rightarrow> cli_outcome" where
  "parse_loop [] a extras = (if extras then CliExit 2 else CliArgs a)"
| "parse_loop (s # ss) a extras =
     (case classify s of
        TMarker \<Rightarrow> CliMarker
      | TArg \<Rightarrow> parse_loop ss a True
      | TUnknown \<Rightarrow> parse_loop ss a True
      | TAmbiguous \<Rightarrow> CliExit 2
      | TOpt OHelp None \<Rightarrow> CliExit 0
      | TOpt OHelp (Some x) \<Rightarrow> help_explicit s x
      | TOpt op (Some v) \<Rightarrow> (case apply_opt op v a of None \<Rightarrow> CliExit 2 | Some a' \<Rightarrow> parse_loop ss a' extras)
      | TOpt op None \<Rightarrow>
          (case ss of
             v # ss' \<Rightarrow>
               if classify v = TArg
               then (case apply_opt op v a of None \<Rightarrow> CliExit 2 | Some a' \<Rightarrow> parse_loop ss' a' extras)
               else CliExit 2
           | [] \<Rightarrow> CliExit 2))"

text \<open>\<^verbatim>\<open>parse_args\<close>: every string up to the marker is classified first, so an ambiguous
  abbreviation is an error wherever it stands; then the strings are consumed in order from
  the defaults.\<close>

definition parse_cli :: "string list \<Rightarrow> cli_outcome" where
  "parse_cli argv =
     (if list_ex (\<lambda>s. classify s = TAmbiguous) (takeWhile (\<lambda>s. s \<noteq> ''--'') argv) then CliExit 2
      else parse_loop argv \<lparr>arg_quality = ''l'', arg_limit = 20\<rparr> False)"

text \<open>The script as started: environment read at import, arguments parsed, then the body
  of \<^verbatim>\<open>main\<close>.\<close>

definition run_script ::
  "string list \<Rightarrow> (string \<Rightarrow> string option) \<Rightarrow> world \<Rightarrow> (effect list \<times> run_result) option" where
  "run_script argv env w =
     (case parse_cli argv of
        CliArgs a \<Rightarrow> Some (main a (w\<lparr>w_config := config_of_env env\<rparr>))
      | CliExit c \<Rightarrow> Some ([], Exited c None)
      | CliMarker \<Rightarrow> None)"

section \<open>Properties\<close>

subsection \<open>The reading of one string\<close>

lemma digit_not_option_char: "is_digit c \<Longrightarrow> c \<noteq> CHR ''h'' \<and> c \<noteq> CHR ''-'' \<and> c \<noteq> CHR ''=''"
  by (auto simp: is_digit_def)
lemma no_eq_digits: "list_all is_digit r \<Longrightarrow> dropWhile (\<lambda>c. c \<noteq> CHR ''='') r = []"
  by (induction r) (use digit_not_option_char in auto)
lemma filter_short_options: assumes "c \<noteq> CHR ''h''" "c \<noteq> CHR ''-''"
  shows "filter (\<lambda>(n, op). n = take 2 (CHR ''-'' # c # r)) option_strings = []"
  using assms by (simp add: option_strings_def)
lemma filter_prefix_options: assumes "c \<noteq> CHR ''h''" "c \<noteq> CHR ''-''"
  shows "filter (\<lambda>(n, op). n \<noteq> take 2 (CHR ''-'' # c # r) \<and> take (length (CHR ''-'' # c # r)) n = CHR ''-'' # c # r) option_strings = []"
  using assms by (simp add: option_strings_def)
lemma option_tuples_neg_digits: assumes "c \<noteq> CHR ''h''" "c \<noteq> CHR ''-''" shows "option_tuples (CHR ''-'' # c # r) = []"
proof -
  have t: "take 2 (CHR ''-'' # c # r) \<noteq> ''--''" using assms by simp
  show ?thesis unfolding option_tuples_def if_not_P[OF t] using filter_short_options[OF assms, of r] filter_prefix_options[OF assms, of r]
    by (simp only: map_append list.map append_Nil)
qed
lemma map_of_neg_digits: assumes "c \<noteq> CHR ''h''" "c \<noteq> CHR ''-''" shows "map_of option_strings (CHR ''-'' # c # r) = None"
  using assms by (simp add: option_strings_def)
lemma looks_negative_digits: "is_digit c \<Longrightarrow> list_all is_digit r \<Longrightarrow> looks_negative (CHR ''-'' # c # r)"
  by (simp add: looks_negative_def negative_number_match_def)
lemma classify_neg_digits:
  assumes "is_digit c" "list_all is_digit r"
  shows "classify (CHR ''-'' # c # r) = TArg"
proof -
  note nh = digit_not_option_char[OF assms(1)]
  have m: "CHR ''-'' # c # r \<noteq> ''--''" using nh by simp
  have d: "dropWhile (\<lambda>c. c \<noteq> CHR ''='') (CHR ''-'' # c # r) = []"
    using no_eq_digits[of "c # r"] assms nh by simp
  show ?thesis
    unfolding classify_def if_not_P[OF m] list.case
    using map_of_neg_digits[of c r] option_tuples_neg_digits[of c r] looks_negative_digits[OF assms] nh d by (simp add: Let_def)
qed
lemma classify_digits:
  assumes "is_digit c"
  shows "classify (c # r) = TArg"
  using digit_not_option_char[OF assms] by (simp add: classify_def)
lemma classify_int_str: "classify (int_str i) = TArg"
proof -
  define n where "n = nat \<bar>i\<bar>"
  have str: "int_str i = (if i < 0 then CHR ''-'' # nat_str n else nat_str n)"
    by (simp add: int_str_def n_def)
  obtain c r where cr: "nat_str n = c # r" "is_digit c" "list_all is_digit r"
    using nat_str_digits[of n] by (cases "nat_str n") auto
  show ?thesis
    unfolding str cr(1) using classify_neg_digits[OF cr(2,3)] classify_digits[OF cr(2)] by simp
qed
lemma nat_str_length_le:
  "0 < k \<Longrightarrow> length (nat_str n) \<le> k \<longleftrightarrow> n < 10 ^ k"
proof (induction n arbitrary: k rule: nat_str.induct)
  case (1 n)
  show ?case
  proof (cases "n < 10")
    case True
    have "(10::nat) ^ 1 \<le> 10 ^ k"
      using "1.prems" by (intro power_increasing) simp_all
    with True "1.prems" show ?thesis
      by (simp add: nat_str.simps[of n])
  next
    case False
    have ne: "nat_str (n div 10) \<noteq> []"
      using nat_str_digits[of "n div 10"] by simp
    show ?thesis
    proof (cases k)
      case (Suc k')
      show ?thesis
      proof (cases k')
        case 0
        with Suc False ne show ?thesis
          by (simp add: nat_str.simps[of n])
      next
        case (Suc k'')
        then have "length (nat_str (n div 10)) \<le> k' \<longleftrightarrow> n div 10 < 10 ^ k'"
          using "1.IH"[OF False, of k'] by simp
        with \<open>k = Suc k'\<close> False show ?thesis
          by (simp add: nat_str.simps[of n] div_less_iff_less_mult mult.commute)
      qed
    qed (use "1.prems" in simp)
  qed
qed

lemma int_max_str_digits_pos: "0 < int_max_str_digits"
  by (simp add: int_max_str_digits_def)

lemma one_digit_within_limit: "\<bar>i::int\<bar> < 10 \<Longrightarrow> \<bar>i\<bar> < 10 ^ int_max_str_digits"
  using power_increasing[of 1 int_max_str_digits "10::int"] int_max_str_digits_pos by simp

lemma py_int_int_str: "py_int (int_str i) = (if \<bar>i\<bar> < 10 ^ int_max_str_digits then Some i else None)"
proof -
  define n where "n = nat \<bar>i\<bar>"
  have ns: "nat_str n \<noteq> []" "list_all is_digit (nat_str n)" "digits_nat (map digit_val (nat_str n)) = n"
    using nat_str_digits[of n] by simp_all
  have str: "int_str i = (if i < 0 then CHR ''-'' # nat_str n else nat_str n)"
    by (simp add: int_str_def n_def)
  have "\<bar>i\<bar> < 10 ^ int_max_str_digits \<longleftrightarrow> int n < int (10 ^ int_max_str_digits)"
    by (simp add: n_def)
  also have "\<dots> \<longleftrightarrow> \<not> int_max_str_digits < length (map digit_val (nat_str n))"
    using nat_str_length_le[OF int_max_str_digits_pos, of n] by (simp only: of_nat_less_iff length_map not_less)
  finally have len: "\<bar>i\<bar> < 10 ^ int_max_str_digits \<longleftrightarrow> \<not> int_max_str_digits < length (map digit_val (nat_str n))" .
  have "last (nat_str n) \<in> set (nat_str n)"
    using ns(1) by simp
  then have "\<not> py_isspace (last (int_str i))"
    using ns(1,2) by (simp add: str list_all_iff)
  moreover have "\<not> py_isspace (hd (int_str i))"
    using ns(1,2) by (cases "nat_str n") (simp_all add: str)
  moreover have "int_str i \<noteq> []"
    by (simp add: str ns(1))
  ultimately have strip: "py_strip (int_str i) = int_str i"
    using py_strip_surrounding[of "int_str i" "[]" "[]"] by simp
  have dp: "digitpart (nat_str n) = Some (map digit_val (nat_str n), [])"
    using digitpart_digits[OF ns(1,2), of "[]"] by simp
  obtain c r where cr: "nat_str n = c # r" "is_digit c"
    using ns(1,2) by (cases "nat_str n") auto
  show ?thesis
  proof (cases "i < 0")
    case True
    then have i: "i = - int n" and s: "int_str i = CHR ''-'' # nat_str n"
      by (simp_all add: n_def str)
    show ?thesis
      using strip dp ns(3) len unfolding s by (simp add: py_int_def Let_def i)
  next
    case False
    then have i: "i = int n" and s: "int_str i = nat_str n"
      by (simp_all add: n_def str)
    have "c \<noteq> CHR ''-''" "c \<noteq> CHR ''+''"
      using cr(2) by (auto simp: is_digit_def)
    then show ?thesis
      using strip dp ns(3) cr(1) len unfolding s by (simp add: py_int_def Let_def i)
  qed
qed

lemma classify_limit: "classify ''--limit'' = TOpt OLimit None"
  by (simp add: classify_def option_strings_def)
lemma classify_limit_eq: "classify (''--limit='' @ v) = TOpt OLimit (Some v)"
  by (simp add: classify_def option_strings_def Let_def)
lemma classify_quality: "classify ''--quality'' = TOpt OQuality None"
  by (simp add: classify_def option_strings_def)
lemma classify_quality_eq: "classify (''--quality='' @ v) = TOpt OQuality (Some v)"
  by (simp add: classify_def option_strings_def Let_def)
lemma no_ambiguous_takeWhile:
  "\<not> list_ex P xs \<Longrightarrow> \<not> list_ex P (takeWhile Q xs)"
  by (auto simp: list_ex_iff dest: set_takeWhileD)
lemma parse_cli_loop:
  "\<not> list_ex (\<lambda>s. classify s = TAmbiguous) argv \<Longrightarrow>
   parse_cli argv = parse_loop argv \<lparr>arg_quality = ''l'', arg_limit = 20\<rparr> False"
  by (simp add: parse_cli_def no_ambiguous_takeWhile)
subsection \<open>Parsing the whole command line\<close>

lemma apply_opt_quality:
  "apply_opt op v a = Some a' \<Longrightarrow> arg_quality a \<in> {''l'', ''m'', ''h''} \<Longrightarrow> arg_quality a' \<in> {''l'', ''m'', ''h''}"
  by (cases op) (auto split: if_splits)

text \<open>Any property of the arguments that the two actions preserve holds of the result.\<close>

lemma parse_loop_preserves:
  assumes step: "\<And>op v st st'. apply_opt op v st = Some st' \<Longrightarrow> P st \<Longrightarrow> P st'"
  shows "parse_loop ss st extras = CliArgs res \<Longrightarrow> P st \<Longrightarrow> P res"
proof (induction "length ss" arbitrary: ss st extras rule: less_induct)
  case less
  show ?case
  proof (cases ss)
    case Nil
    with less.prems show ?thesis by (simp split: if_splits)
  next
    case (Cons s ss1)
    have ih: "P res" if "parse_loop xs st' ex = CliArgs res" "P st'" "length xs < length ss" for xs st' ex
      using less.hyps that by blast
    have Pa: "P st'" if "apply_opt op v st = Some st'" for op v st'
      using step that less.prems(2) by blast
    have len: "length ss1 < length ss" "length (tl ss1) < length ss"
      using Cons by simp_all
    show ?thesis
    proof (cases "classify s")
      case TArg
      with less.prems(1) Cons len show ?thesis by (auto intro: ih less.prems(2))
    next
      case TUnknown
      with less.prems(1) Cons len show ?thesis by (auto intro: ih less.prems(2))
    next
      case (TOpt op e)
      show ?thesis
      proof (cases e)
        case None
        show ?thesis
        proof (cases ss1)
          case (Cons v ss2)
          from less.prems(1) \<open>ss = s # ss1\<close> TOpt None Cons obtain st' where
            "apply_opt op v st = Some st'" "parse_loop ss2 st' extras = CliArgs res"
            by (cases op) (auto simp del: apply_opt.simps split: option.splits if_splits)
          with Cons len show ?thesis by (auto intro: ih dest: Pa)
        qed (use less.prems(1) \<open>ss = s # ss1\<close> TOpt None in \<open>cases op; simp\<close>)
      next
        case (Some v)
        show ?thesis
        proof (cases "op = OHelp")
          case True
          with less.prems(1) \<open>ss = s # ss1\<close> TOpt Some show ?thesis
            by (simp add: help_explicit_def split: if_splits)
        next
          case False
          with less.prems(1) \<open>ss = s # ss1\<close> TOpt Some obtain st' where
            "apply_opt op v st = Some st'" "parse_loop ss1 st' extras = CliArgs res"
            by (cases op) (auto simp del: apply_opt.simps split: option.splits)
          with len show ?thesis by (auto intro: ih dest: Pa)
        qed
      qed
    qed (use less.prems(1) Cons in simp_all)
  qed
qed

lemma parse_cli_choices:
  assumes "parse_cli argv = CliArgs a"
  shows "arg_quality a \<in> {''l'', ''m'', ''h''}"
proof -
  have l: "parse_loop argv \<lparr>arg_quality = ''l'', arg_limit = 20\<rparr> False = CliArgs a"
    using assms by (simp add: parse_cli_def split: if_splits)
  show ?thesis
    using parse_loop_preserves[where P = "\<lambda>st. arg_quality st \<in> {''l'', ''m'', ''h''}", OF apply_opt_quality l]
    by simp
qed

lemma main_fetch_first:
  assumes "arg_quality a \<in> {''l'', ''m'', ''h''}" "supabase_url (w_config w) \<noteq> []" "supabase_key (w_config w) \<noteq> []"
  shows "\<exists>es r. main a w =
           (EMkdir RENDER_LOGS_DIR #
            ERequest GET (supabase_url (w_config w) @ ''/rest/v1/'' @ fetch_path (arg_limit a))
              (auth_headers (w_config w) ''application/json'' @ [(''Prefer'', ''return=representation'')]) None # es, r)"
  using assms by (auto simp: main_def Let_def supabase_request_def split_def split: sum.split pyval.split)
text \<open>C26. Whatever the command line, a run of the body of \<^verbatim>\<open>main\<close> gets a quality
  among \<^verbatim>\<open>l\<close>, \<^verbatim>\<open>m\<close>, \<^verbatim>\<open>h\<close>: argparse's \<^verbatim>\<open>choices\<close> check holds of every
  parsed result, so the render preset is always the one \<^verbatim>\<open>QUALITY_FLAGS\<close> names and
  never the fallback of \<^verbatim>\<open>.get\<close>.\<close>

theorem parse_cli_quality:
  assumes "parse_cli argv = CliArgs a"
  shows "arg_quality a \<in> {''l'', ''m'', ''h''} \<and> quality_flag (arg_quality a) = the (map_of QUALITY_FLAGS (arg_quality a))"
  using parse_cli_choices[OF assms] by (auto simp: quality_flag_def QUALITY_FLAGS_def)

text \<open>C27. Round trip of \<^verbatim>\<open>--limit\<close>: the decimal text of an integer \<open>i\<close>,
  given as the next string or after \<^verbatim>\<open>=\<close>, parses back to \<open>i\<close> with the default
  quality whenever it has at most \<open>int_max_str_digits\<close> digits, and exits with code 2
  when it has more. Zero and negative numbers parse too: argparse reads \<^verbatim>\<open>-5\<close> as a
  value, not an option, and \<^verbatim>\<open>type=int\<close> does not ask for a positive number.\<close>

theorem parse_cli_limit_roundtrip:
  "parse_cli [''--limit'', int_str i] =
     (if \<bar>i\<bar> < 10 ^ int_max_str_digits then CliArgs \<lparr>arg_quality = ''l'', arg_limit = i\<rparr> else CliExit 2) \<and>
   parse_cli [''--limit='' @ int_str i] =
     (if \<bar>i\<bar> < 10 ^ int_max_str_digits then CliArgs \<lparr>arg_quality = ''l'', arg_limit = i\<rparr> else CliExit 2)"
  using classify_limit_eq[of "int_str i"]
  by (simp add: parse_cli_loop classify_limit classify_int_str py_int_int_str)

text \<open>C28. A quality outside the choices is an error with exit code 2, whatever the
  string is (a value, something that looks like an option, an ambiguous abbreviation)
  and however it is attached to \<^verbatim>\<open>--quality\<close>.\<close>

theorem parse_cli_bad_quality:
  assumes "q \<notin> {''l'', ''m'', ''h''}"
  shows "parse_cli [''--quality'', q] = CliExit 2 \<and> parse_cli [''--quality='' @ q] = CliExit 2"
proof
  show "parse_cli [''--quality='' @ q] = CliExit 2"
    using assms classify_quality_eq[of q] by (simp add: parse_cli_loop)
  show "parse_cli [''--quality'', q] = CliExit 2"
  proof (cases "classify q = TAmbiguous")
    case True
    then show ?thesis by (simp add: parse_cli_def classify_quality)
  next
    case False
    with assms show ?thesis by (simp add: parse_cli_loop classify_quality)
  qed
qed

text \<open>C29. From the command line to the first request: with both variables of the
  environment set, the script started as \<^verbatim>\<open>--limit i\<close> (with \<open>i\<close> within the
  digit limit of \<^verbatim>\<open>int()\<close>) creates the log directory and then sends the GET of the
  rows with status \<^verbatim>\<open>generating\<close> and a script, at most \<open>i\<close> of them, with the
  three columns the loop reads, authenticated with the key read from the environment.\<close>

theorem run_script_fetch_limit:
  assumes "env ''SUPABASE_URL'' = Some u" "env ''SUPABASE_SERVICE_KEY'' = Some k" "u \<noteq> []" "k \<noteq> []"
    and "\<bar>i\<bar> < 10 ^ int_max_str_digits"
  shows "\<exists>es r. run_script [''--limit'', int_str i] env w =
           Some (EMkdir RENDER_LOGS_DIR #
                 ERequest GET (u @ ''/rest/v1/videos?status=eq.generating&manim_script=not.is.null&limit='' @
                               int_str i @ ''&select=id,content_element_id,manim_script'')
                   (auth_headers \<lparr>supabase_url = u, supabase_key = k\<rparr> ''application/json'' @
                    [(''Prefer'', ''return=representation'')]) None # es, r)"
proof -
  have p: "parse_cli [''--limit'', int_str i] = CliArgs \<lparr>arg_quality = ''l'', arg_limit = i\<rparr>"
    using assms(5) by (simp add: parse_cli_loop classify_limit classify_int_str py_int_int_str)
  have c: "config_of_env env = \<lparr>supabase_url = u, supabase_key = k\<rparr>"
    using assms(1,2) by (simp add: config_of_env_def)
  show ?thesis
    using main_fetch_first[of "\<lparr>arg_quality = ''l'', arg_limit = i\<rparr>" "w\<lparr>w_config := config_of_env env\<rparr>"] assms(3,4)
    by (simp add: run_script_def p c fetch_path_def)
qed

text \<open>C30. A missing or empty \<^verbatim>\<open>SUPABASE_URL\<close> or \<^verbatim>\<open>SUPABASE_SERVICE_KEY\<close>
  stops every parsed command line with exit code 1 before any effect: no directory is
  created and no request is sent.\<close>

theorem run_script_missing_env:
  assumes "parse_cli argv = CliArgs a"
    and "env ''SUPABASE_URL'' \<in> {None, Some []} \<or> env ''SUPABASE_SERVICE_KEY'' \<in> {None, Some []}"
  shows "run_script argv env w = Some ([], Exited 1 None)"
  using parse_cli_choices[OF assms(1)] assms
  by (auto simp: run_script_def main_def config_of_env_def)

end
