(* ===== verification/Scenarios.thy ===== *)
theory Scenarios
  imports Runs Cli
begin

text \<open>
  Concrete worlds the script can meet, used to run the model: a configured project, a
  server that accepts every request, the work directory manim leaves after a successful
  low-quality render, and jobs whose tools succeed or fail in the ways the script handles.
\<close>

definition ex_cfg :: config where
  "ex_cfg = \<lparr>supabase_url = ''https://db.example'', supabase_key = ''service-key''\<rparr>"

definition ex_srv_ok :: "unit responder" where
  "ex_srv_ok = (\<lambda>m url. Resp 200 ())"

text \<open>A server on which creating a storage object fails with 409 and overwriting it
  fails with 400, while row updates succeed.\<close>

definition ex_srv_storage_down :: "unit responder" where
  "ex_srv_storage_down = (\<lambda>m url. if m = PATCH then Resp 204 () else if m = POST then HTTPErr 409 else HTTPErr 400)"

text \<open>A server that accepts the video of job \<^verbatim>\<open>v1\<close> but rejects its still (413, on
  both the create and the overwrite).\<close>

definition ex_srv_thumb_rejected :: "unit responder" where
  "ex_srv_thumb_rejected =
     (\<lambda>m url. if m = PATCH then Resp 204 ()
              else if url = storage_url ex_cfg ''videos'' ''v1_thumb.jpg'' then HTTPErr 413 else Resp 201 ())"

text \<open>A server whose row updates fail without an HTTP status (the REST endpoint is
  unreachable) while storage works.\<close>

definition ex_srv_patch_down :: "unit responder" where
  "ex_srv_patch_down = (\<lambda>m url. if m = PATCH then NetErr else Resp 200 ())"

definition ex_manim_tree :: "fs_node list" where
  "ex_manim_tree =
     [FFile ''scene.py'',
      FDir ''media'' [FDir ''videos'' [FDir ''scene'' [FDir ''480p15'' [FFile ''ExampleScene.mp4'']]]]]"

text \<open>A render that exited with 0 but left only the partial movie files, two levels
  below the quality directory.\<close>

definition ex_partial_tree :: "fs_node list" where
  "ex_partial_tree =
     [FFile ''scene.py'',
      FDir ''media'' [FDir ''videos'' [FDir ''scene'' [FDir ''480p15''
        [FDir ''partial_movie_files'' [FDir ''ExampleScene'' [FFile ''00000.mp4'']]]]]]]"

text \<open>A render whose output went elsewhere (another media directory layout).\<close>

definition ex_other_layout_tree :: "fs_node list" where
  "ex_other_layout_tree = [FFile ''scene.py'', FDir ''out'' [FFile ''notes.txt'', FFile ''ExampleScene.mp4'']]"

definition ex_job_ok :: job_env where
  "ex_job_ok = \<lparr>tmpdir = ''/tmp/tmpa1'', manim = MExit 0 ex_manim_tree, probe = ProbeOut ''12.480000\<newline>'',
                ffmpeg = ThumbRan True, log_writable = True\<rparr>"

definition ex_job_render_error :: job_env where
  "ex_job_render_error = ex_job_ok\<lparr>manim := MExit 1 [FFile ''scene.py'']\<rparr>"

definition ex_job_no_thumb :: job_env where
  "ex_job_no_thumb = ex_job_ok\<lparr>ffmpeg := ThumbRan False\<rparr>"

definition ex_job_thumb_timeout :: job_env where
  "ex_job_thumb_timeout = ex_job_ok\<lparr>ffmpeg := ThumbTimeout\<rparr>"

definition ex_video :: "string \<Rightarrow> pyval" where
  "ex_video i = PDict [(''id'', PStr i), (''content_element_id'', PStr ''ce''), (''manim_script'', PStr ''from manim import *'')]"

definition ex_args :: cli_args where
  "ex_args = \<lparr>arg_quality = ''l'', arg_limit = 20\<rparr>"

text \<open>A table with one pending row and one row already rendered.\<close>

definition ex_table :: "vrow list" where
  "ex_table =
     [\<lparr>row_id = ''v1'', row_content = PStr ''ce'', row_script = PStr ''from manim import *'', row_status = ''generating''\<rparr>,
      \<lparr>row_id = ''v0'', row_content = PStr ''ce'', row_script = PStr ''from manim import *'', row_status = ''ready''\<rparr>]"

text \<open>An environment with both variables set to the example project.\<close>

definition ex_env :: "string \<Rightarrow> string option" where
  "ex_env v = (if v = ''SUPABASE_URL'' then Some ''https://db.example''
               else if v = ''SUPABASE_SERVICE_KEY'' then Some ''service-key'' else None)"

text \<open>A run whose fetch finds nothing pending.\<close>

definition ex_world_empty :: world where
  "ex_world_empty = \<lparr>w_config = ex_cfg, w_fetch = (\<lambda>m url. Resp 200 (Some (PList []))),
                     w_srv = ex_srv_ok, w_jobs = (\<lambda>_. ex_job_ok)\<rparr>"

text \<open>A run whose fetch is refused with 401 (a wrong service key).\<close>

definition ex_world_unauthorized :: world where
  "ex_world_unauthorized = ex_world_empty\<lparr>w_fetch := (\<lambda>m url. HTTPErr 401)\<rparr>"

lemmas scenario_defs = ex_table_def ex_srv_patch_down_def ex_world_unauthorized_def ex_srv_thumb_rejected_def ex_partial_tree_def ex_other_layout_tree_def ex_args_def ex_world_empty_def ex_cfg_def ex_srv_ok_def ex_srv_storage_down_def ex_manim_tree_def ex_job_ok_def
  ex_job_render_error_def ex_job_no_thumb_def ex_job_thumb_timeout_def ex_video_def

end
