(* ===== verification/Storage.thy ===== *)
theory Storage
  imports Pipeline
begin

text \<open>
  The storage objects of a run. Each job writes at most two objects of the
  \<^verbatim>\<open>videos\<close> bucket, keyed by the text of its id (\<^verbatim>\<open>f"{vid}.mp4"\<close> and
  \<^verbatim>\<open>f"{vid}_thumb.jpg"\<close>, lines 210 and 219 of \<^verbatim>\<open>scripts/render-manim.py\<close>), and the
  row it marks ready records the public URLs of the same keys (lines 224--225). The
  lemmas show that the keys are deterministic and separate the jobs, and relate the
  URLs written to the row to the uploads that were made.
\<close>

definition job_objects :: "config \<Rightarrow> pyval \<Rightarrow> string set" where
  "job_objects cfg vid = {storage_url cfg ''videos'' (video_key vid), storage_url cfg ''videos'' (thumb_key vid)}"

section \<open>Keys\<close>

lemma storage_url_eq_iff [simp]: "storage_url cfg b k = storage_url cfg b k' \<longleftrightarrow> k = k'"
  by (simp add: storage_url_def)

lemma video_key_eq_iff [simp]: "video_key a = video_key b \<longleftrightarrow> py_str a = py_str b"
  by (simp add: video_key_def)

lemma thumb_key_eq_iff [simp]: "thumb_key a = thumb_key b \<longleftrightarrow> py_str a = py_str b"
  by (simp add: thumb_key_def)

lemma video_key_ne_thumb_key [simp]: "video_key a \<noteq> thumb_key b" "thumb_key b \<noteq> video_key a"
proof -
  have "last (video_key a) \<noteq> last (thumb_key b)"
    by (simp add: video_key_def thumb_key_def)
  then show "video_key a \<noteq> thumb_key b" "thumb_key b \<noteq> video_key a"
    by auto
qed

section \<open>Uploads of a job\<close>

lemma uploads_py_bind_subset:
  assumes "set (uploads (fst m)) \<subseteq> S" "\<And>a. snd m = Inr a \<Longrightarrow> set (uploads (fst (f a))) \<subseteq> S"
  shows "set (uploads (fst (py_bind m f))) \<subseteq> S"
  using assms by (cases "snd m") auto

lemma uploads_supabase_upload:
  "set (uploads (fst (supabase_upload cfg srv b p f ct))) \<subseteq> {storage_url cfg b p}"
  by (simp add: supabase_upload_def Let_def split: prod.split http_resp.split)

lemma uploads_publish:
  "set (uploads (fst (publish cfg srv je vid out d tp w))) \<subseteq> job_objects cfg vid"
proof -
  obtain te td where ts: "thumb_state je w = (te, td)" by fastforce
  have v: "set (uploads (fst (supabase_upload cfg srv ''videos'' (video_key vid) out ''video/mp4''))) \<subseteq> job_objects cfg vid"
    using uploads_supabase_upload by (fastforce simp: job_objects_def)
  have t: "set (uploads (fst (supabase_upload cfg srv ''videos'' (thumb_key vid) (tp, td) ''image/jpeg''))) \<subseteq> job_objects cfg vid"
    using uploads_supabase_upload by (fastforce simp: job_objects_def)
  show ?thesis
    unfolding publish_def ts Let_def prod.case
  proof (intro uploads_py_bind_subset v)
    fix ok
    show "set (uploads (fst (if \<not> ok then upload_failed cfg srv vid
            else py_bind (if te then supabase_upload cfg srv ''videos'' (thumb_key vid) (tp, td) ''image/jpeg''
                          else ([], Inr True)) (\<lambda>_. mark_ready cfg srv vid te d)))) \<subseteq> job_objects cfg vid"
      using t by (simp add: observers_upload_failed mark_ready_def split: sum.split)
  qed
qed

lemma uploads_finish_render:
  "set (uploads (fst (finish_render cfg srv je vid out))) \<subseteq> job_objects cfg vid"
  unfolding finish_render_def Let_def
  by (intro uploads_py_bind_subset uploads_publish) simp_all

lemma uploads_job_body:
  "set (uploads (fst (job_body cfg srv q je video vid))) \<subseteq> job_objects cfg vid"
  unfolding job_body_def
  by (intro uploads_py_bind_subset)
     (simp_all add: uploads_finish_render observers_render_failed split: option.split)

lemma uploads_process_video:
  "py_getitem video ''id'' = Inr vid \<Longrightarrow>
   set (uploads (fst (process_video cfg srv q je video))) \<subseteq> job_objects cfg vid"
  using uploads_job_body[of cfg srv q je video vid]
  by (simp add: process_video_def split_def Let_def)

lemma job_objects_disjoint:
  "py_str a \<noteq> py_str b \<Longrightarrow> job_objects cfg a \<inter> job_objects cfg b = {}"
  by (auto simp: job_objects_def)

text \<open>C16. Two jobs whose ids print differently never write to the same storage object:
  the keys are deterministic in the id, and a video key never equals a still's key.\<close>

theorem jobs_write_disjoint_objects:
  assumes "py_getitem v1 ''id'' = Inr a" "py_getitem v2 ''id'' = Inr b" "py_str a \<noteq> py_str b"
  shows "set (uploads (fst (process_video cfg srv q1 je1 v1))) \<inter>
         set (uploads (fst (process_video cfg srv q2 je2 v2))) = {}"
  using uploads_process_video[OF assms(1)] uploads_process_video[OF assms(2)] job_objects_disjoint[OF assms(3)]
  by blast

section \<open>What a ready row records\<close>

lemma publish_Rendered:
  assumes "snd (publish cfg srv je vid out d tp w) = Inr Rendered"
  shows "snd (supabase_upload cfg srv ''videos'' (video_key vid) out ''video/mp4'') = Inr True \<and>
         (\<exists>te mid. fst (publish cfg srv je vid out d tp w) =
            fst (supabase_upload cfg srv ''videos'' (video_key vid) out ''video/mp4'') @ mid @
            fst (supabase_update_video cfg srv vid (ready_updates cfg vid te d)))"
proof -
  obtain te td where ts: "thumb_state je w = (te, td)" by fastforce
  let ?up = "supabase_upload cfg srv ''videos'' (video_key vid) out ''video/mp4''"
  let ?th = "if te then supabase_upload cfg srv ''videos'' (thumb_key vid) (tp, td) ''image/jpeg'' else ([], Inr True)"
  let ?k = "\<lambda>ok. if \<not> ok then upload_failed cfg srv vid else py_bind ?th (\<lambda>_. mark_ready cfg srv vid te d)"
  have p: "publish cfg srv je vid out d tp w = py_bind ?up ?k"
    by (simp add: publish_def ts)
  from assms[unfolded p] obtain ok where ok: "snd ?up = Inr ok" and rest: "snd (?k ok) = Inr Rendered"
    by (erule py_bind_InrE)
  have "ok"
    using rest snd_upload_failed_Inr by (cases ok) auto
  with rest obtain x where x: "snd ?th = Inr x"
    by (auto elim: py_bind_InrE)
  have "fst (publish cfg srv je vid out d tp w) =
          fst ?up @ fst ?th @ fst (supabase_update_video cfg srv vid (ready_updates cfg vid te d))"
    using ok x \<open>ok\<close> by (simp add: p fst_py_bind_Inr mark_ready_def)
  moreover have "snd ?up = Inr True"
    using ok \<open>ok\<close> by simp
  ultimately show ?thesis
    by blast
qed

lemma finish_render_Rendered:
  assumes "snd (finish_render cfg srv je vid out) = Inr Rendered"
  obtains d tp w pre where "snd (publish cfg srv je vid out d tp w) = Inr Rendered"
    "fst (finish_render cfg srv je vid out) = pre @ fst (publish cfg srv je vid out d tp w)"
proof -
  let ?tp = "path_join (tmpdir je) ''thumb.jpg''"
  let ?dur = "get_video_duration (fst out) (probe je)"
  let ?th = "generate_thumbnail (fst out) ?tp (ffmpeg je)"
  from assms obtain d where d: "snd ?dur = Inr d"
    and r1: "snd (py_bind ?th (publish cfg srv je vid out d ?tp)) = Inr Rendered"
    unfolding finish_render_def Let_def by (erule py_bind_InrE)
  from r1 obtain w where w: "snd ?th = Inr w" and r2: "snd (publish cfg srv je vid out d ?tp w) = Inr Rendered"
    by (erule py_bind_InrE)
  have "fst (finish_render cfg srv je vid out) = (fst ?dur @ fst ?th) @ fst (publish cfg srv je vid out d ?tp w)"
    using d w by (simp add: finish_render_def Let_def fst_py_bind_Inr)
  with r2 that show ?thesis
    by blast
qed

lemma job_body_Rendered:
  assumes "snd (job_body cfg srv q je video vid) = Inr Rendered"
  obtains out pre where "snd (finish_render cfg srv je vid out) = Inr Rendered"
    "fst (job_body cfg srv q je video vid) = pre @ fst (finish_render cfg srv je vid out)"
proof -
  let ?k = "\<lambda>outp. case outp of None \<Rightarrow> render_failed cfg srv je vid | Some out \<Rightarrow> finish_render cfg srv je vid out"
  from assms obtain script where sc: "py_getitem video ''manim_script'' = Inr script"
    and r1: "snd (py_bind (render_script script q (tmpdir je) (manim je)) ?k) = Inr Rendered"
    unfolding job_body_def by (erule py_bind_pure_InrE)
  from r1 obtain outp where o: "snd (render_script script q (tmpdir je) (manim je)) = Inr outp"
    and r2: "snd (?k outp) = Inr Rendered"
    by (erule py_bind_InrE)
  obtain out where out: "outp = Some out"
    using r2 by (cases outp) (auto dest: snd_render_failed_Inr)
  have "fst (job_body cfg srv q je video vid) =
          fst (render_script script q (tmpdir je) (manim je)) @ fst (finish_render cfg srv je vid out)"
    using sc o out by (simp add: job_body_def fst_py_bind_Inr)
  with r2 out that show ?thesis
    by auto
qed

lemma supabase_upload_Inr_uploads:
  "snd (supabase_upload cfg srv b p f ct) = Inr ok \<Longrightarrow> storage_url cfg b p \<in> set (uploads (fst (supabase_upload cfg srv b p f ct)))"
  by (auto simp: supabase_upload_def Let_def split: prod.splits if_splits http_resp.splits)

text \<open>C17. A row is marked \<^verbatim>\<open>ready\<close> only after the upload of its video reported
  success, and the last request of the job is the update that records as
  \<^verbatim>\<open>video_url\<close> the public URL of the very key that was uploaded, with status
  \<^verbatim>\<open>ready\<close>.\<close>

theorem ready_row_names_uploaded_video:
  assumes "snd (process_video cfg srv q je video) = Inr Rendered"
  shows "\<exists>vid out upd pre. py_getitem video ''id'' = Inr vid \<and>
           snd (supabase_upload cfg srv ''videos'' (video_key vid) out ''video/mp4'') = Inr True \<and>
           storage_url cfg ''videos'' (video_key vid) \<in> set (uploads pre) \<and>
           fst (process_video cfg srv q je video) =
             pre @ fst (supabase_update_video cfg srv vid upd) @ [ETempCleanup (tmpdir je)] \<and>
           map_of upd ''video_url'' = Some (PStr (public_url cfg (video_key vid))) \<and>
           map_of upd ''status'' = Some (PStr ''ready'')"
proof -
  obtain vid where id: "py_getitem video ''id'' = Inr vid"
    and jb: "snd (job_body cfg srv q je video vid) = Inr Rendered"
    and tr: "fst (process_video cfg srv q je video) =
               ETempCreate (tmpdir je) # fst (job_body cfg srv q je video vid) @ [ETempCleanup (tmpdir je)]"
    using assms by (elim process_video_InrE)
  obtain out pre1 where fr: "snd (finish_render cfg srv je vid out) = Inr Rendered"
    and tr1: "fst (job_body cfg srv q je video vid) = pre1 @ fst (finish_render cfg srv je vid out)"
    using jb by (elim job_body_Rendered)
  obtain d tp w pre2 where pb: "snd (publish cfg srv je vid out d tp w) = Inr Rendered"
    and tr2: "fst (finish_render cfg srv je vid out) = pre2 @ fst (publish cfg srv je vid out d tp w)"
    using fr by (elim finish_render_Rendered)
  let ?up = "supabase_upload cfg srv ''videos'' (video_key vid) out ''video/mp4''"
  obtain te mid where ok: "snd ?up = Inr True"
    and tr3: "fst (publish cfg srv je vid out d tp w) =
                fst ?up @ mid @ fst (supabase_update_video cfg srv vid (ready_updates cfg vid te d))"
    using publish_Rendered[OF pb] by blast
  let ?pre = "ETempCreate (tmpdir je) # pre1 @ pre2 @ fst ?up @ mid"
  have "fst (process_video cfg srv q je video) =
          ?pre @ fst (supabase_update_video cfg srv vid (ready_updates cfg vid te d)) @ [ETempCleanup (tmpdir je)]"
    using tr tr1 tr2 tr3 by simp
  moreover have "storage_url cfg ''videos'' (video_key vid) \<in> set (uploads ?pre)"
    using supabase_upload_Inr_uploads[OF ok] by simp
  ultimately show ?thesis
    using id ok by (fastforce simp: ready_updates_def)
qed

text \<open>C18. The result of the still's upload is not looked at (line 221): when the still
  exists but its upload fails, the row is still marked \<^verbatim>\<open>ready\<close> and its
  \<^verbatim>\<open>thumbnail_url\<close> names the object that was not written.\<close>

theorem thumbnail_url_despite_failed_upload:
  assumes "thumb_state je w = (True, td)"
    and "snd (supabase_upload cfg srv ''videos'' (video_key vid) out ''video/mp4'') = Inr True"
    and "snd (supabase_upload cfg srv ''videos'' (thumb_key vid) (tp, td) ''image/jpeg'') = Inr False"
  shows "fst (publish cfg srv je vid out d tp w) =
           fst (supabase_upload cfg srv ''videos'' (video_key vid) out ''video/mp4'') @
           fst (supabase_upload cfg srv ''videos'' (thumb_key vid) (tp, td) ''image/jpeg'') @
           fst (supabase_update_video cfg srv vid (ready_updates cfg vid True d)) \<and>
         map_of (ready_updates cfg vid True d) ''thumbnail_url'' = Some (PStr (public_url cfg (thumb_key vid))) \<and>
         map_of (ready_updates cfg vid True d) ''status'' = Some (PStr ''ready'')"
  using assms by (simp add: publish_def mark_ready_def ready_updates_def py_bind_def split: sum.split)

end
