(* ===== verification/Spec2Isabelle.thy ===== *)
theory Spec2Isabelle
  imports Scenarios Storage Rows
begin

text \<open>
  \<^bold>\<open>A model of the Manim rendering job of ypsimath (\<^verbatim>\<open>src/scripts/render-manim.py\<close>).\<close>

  \<^bold>\<open>The program.\<close> One run of the script fetches the videos whose status is
  \<^verbatim>\<open>generating\<close> and whose script is set (\<^verbatim>\<open>supabase_request\<close>, lines 37--55, called
  at line 174), and for each one, inside a fresh temporary directory: writes its Manim
  script and renders it (\<^verbatim>\<open>render_script\<close>, lines 125--157, with the preset of
  \<^verbatim>\<open>QUALITY_FLAGS\<close>, lines 30--34), reads its duration with ffprobe
  (\<^verbatim>\<open>get_video_duration\<close>, lines 103--113), extracts a still with ffmpeg
  (\<^verbatim>\<open>generate_thumbnail\<close>, lines 116--122), uploads video and still
  (\<^verbatim>\<open>supabase_upload\<close>, lines 58--80) and writes the row back
  (\<^verbatim>\<open>supabase_update_video\<close>, lines 83--100). \<^verbatim>\<open>main\<close> (lines 160--239) checks
  the arguments and the two credentials, runs the loop and prints a summary. The two
  credentials are read from the environment at import (lines 26--27) and the arguments by
  argparse (lines 161--164); the script is started by its \<^verbatim>\<open>__main__\<close> guard
  (lines 241--242).

  \<^bold>\<open>How it is modelled.\<close> Every step is a HOL function that returns the externally
  visible effects it issued (HTTP requests with method, URL, headers and JSON body,
  uploads, subprocess runs, file writes, the temporary directory's creation and removal)
  and either its Python result or the exception that escapes it (type \<open>'a py\<close> of
  theory \<open>Prelude\<close>, composed by \<open>py_bind\<close> in the order of the statements). The
  outside world is an oracle: the server is a \<^emph>\<open>responder\<close> from method and URL to the
  outcome of \<^verbatim>\<open>urlopen\<close> (a status, an \<^verbatim>\<open>HTTPError\<close> code, or another
  failure), and the \<open>i\<close>-th video of the batch meets a \<open>job_env\<close> that says what
  manim (timeout, missing, or a return code and the work directory it leaves), ffprobe
  (its output) and ffmpeg (timeout, missing, or whether it wrote the still) do.
  \<^item> \<open>Prelude\<close>: Python exceptions, the values of \<^verbatim>\<open>json.loads\<close> (\<open>pyval\<close>) with
    truthiness, \<^verbatim>\<open>d[k]\<close> and \<^verbatim>\<open>str()\<close>/\<^verbatim>\<open>repr()\<close>, decimal printing, the effect
    datatype and \<open>py_bind\<close>.
  \<^item> \<open>Supabase\<close>: \<open>supabase_request\<close>, \<open>supabase_upload\<close> (POST, PUT only after an
    \<^verbatim>\<open>HTTPError\<close>), \<open>supabase_update_video\<close>; the contract of the upload and the
    fact that every request carries the service key.
  \<^item> \<open>Render\<close>: \<open>quality_flag\<close>, the work directory as a tree \<open>fs_node\<close>,
    pathlib's \<open>exists\<close>, \<open>glob\<close> and \<open>rglob\<close> (Python 3.10/3.11 order),
    \<open>find_output\<close> and \<open>render_script\<close>.
  \<^item> \<open>Probe\<close>: \<^verbatim>\<open>int(float(stdout.strip()))\<close> spelled out: Python's white space,
    the grammar of \<^verbatim>\<open>float()\<close> (underscores, exponent, inf/nan), rounding of the exact
    decimal value to the nearest double (ties to even, subnormals, overflow to infinity)
    and truncation; \<open>get_video_duration\<close> and \<open>generate_thumbnail\<close>.
  \<^item> \<open>Pipeline\<close>: one loop iteration split along the code's blocks
    (\<open>render_failed\<close> lines 193--200, \<open>finish_render\<close> 202--207, \<open>publish\<close> 209--235
    with \<open>upload_failed\<close> and \<open>mark_ready\<close>), \<open>job_body\<close> and \<open>process_video\<close>
    (the \<^verbatim>\<open>with\<close> block), the loop \<open>process_videos\<close> and \<open>main\<close>; and the trace
    observers \<open>status_writes\<close> (the status each PATCH writes) and \<open>uploads\<close>.
  \<^item> \<open>Storage\<close>: the storage objects a job writes (\<open>job_objects\<close>: the keys
    \<^verbatim>\<open>{vid}.mp4\<close> and \<^verbatim>\<open>{vid}_thumb.jpg\<close> of bucket \<^verbatim>\<open>videos\<close>) and how the
    URLs written to a ready row relate to the uploads that were made.
  \<^item> \<open>Rows\<close>: the life cycle of a row of the \<^verbatim>\<open>videos\<close> table as an inductive step
    relation (\<open>status_step\<close>, \<open>table_step\<close>), the table's reading of a status PATCH
    (\<open>apply_writes\<close>, part of the environment, not of the repository), and the
    refinement of a batch's status writes into steps of that machine.
  \<^item> \<open>Runs\<close>: the \<^verbatim>\<open>videos\<close> table as a list of rows (\<open>vrow\<close>) that answers
    every GET by PostgREST's reading of its query string (\<open>table_fetch\<close>: split at
    \<^verbatim>\<open>&\<close> and \<^verbatim>\<open>=\<close>, the filters \<^verbatim>\<open>status=eq.\<close> and
    \<^verbatim>\<open>manim_script=not.is.null\<close>, \<^verbatim>\<open>limit\<close>, \<^verbatim>\<open>select\<close>; anything else refused),
    whatever URL the code builds, and applies the run's PATCHes; \<open>run_on_table\<close> is one run of \<open>main\<close> against it,
    \<open>runs\<close> (inductive) any sequence of runs, \<open>drain\<close> a given number of runs.
  \<^item> \<open>Cli\<close>: the environment (\<open>config_of_env\<close>), argparse's reading of this parser's
    argument strings (\<open>classify\<close> for one string, \<open>parse_loop\<close> and \<open>parse_cli\<close>
    for the command line, \<open>py_int\<close> for \<^verbatim>\<open>type=int\<close> with CPython's limit of
    \<open>int_max_str_digits\<close> = 4300 digits, \<open>apply_opt\<close> for the
    \<^verbatim>\<open>choices\<close> check) and \<open>run_script\<close>, the script as started.
  \<^item> \<open>Scenarios\<close>: concrete worlds; the witnesses below run the model on them by
    \<open>simp\<close>.

  \<^bold>\<open>What is proved.\<close>
  \<^item> One job and the loop (\<open>Pipeline\<close>): a batch that ends normally writes exactly one
    terminal status per fetched video, in order, and the summary counts them (C1); a
    failed render uploads nothing and writes \<^verbatim>\<open>failed\<close> (C2); a failed video upload
    writes \<^verbatim>\<open>failed\<close> whatever the still (C3); a missing still gives \<^verbatim>\<open>ready\<close> with
    a null thumbnail URL (C4); the temporary directory brackets every job on every exit
    path (C7); a timeout of ffmpeg escapes the loop and leaves the job without a status
    (C8); a status update failing without an HTTP status aborts the batch (C21).
  \<^item> The run (\<open>Pipeline\<close>, root): an empty fetch exits 0 with no effect but the fetch
    (C5); a bad quality or a missing credential stops the run before any effect (C19); an
    HTTP error on the fetch is read as an empty batch (C20); every request of every run
    carries the service key (C10).
  \<^item> The helpers: the upload's success contract, POST then PUT (C9); the unknown quality
    falls back to the low preset (C6); output discovery is sound (C11), uses the recursive
    scan only when the media directory is missing (C12, where the code is narrower than
    its specification) and then finds any video (C14); \<open>render_script\<close> returns None
    exactly on timeout, non-zero exit or no file found (C13); ffprobe's text
    \<^verbatim>\<open>n.dddddd\<close> gives the duration \<open>n\<close> for all \<open>n < 2^33\<close> (C15, through the
    exact grammar of \<^verbatim>\<open>float()\<close>, correct rounding and truncation).
  \<^item> Across jobs (\<open>Storage\<close>, \<open>Rows\<close>): jobs with different ids write disjoint
    objects (C16); a row is marked ready only after its video upload succeeded and names
    that key (C17); a failed still upload still leaves a thumbnail URL in a ready row
    (C18, a departure from the specification); the status writes of a batch refine the row
    life cycle \<^verbatim>\<open>generating\<close> to \<^verbatim>\<open>ready\<close>/\<^verbatim>\<open>failed\<close>, and by rule induction a
    terminal row never changes again (C22).
  \<^item> ffprobe's output for an integer duration, with any white space around it, reads back
    as that integer for all \<open>|i| < 2^53\<close> (C23).
  \<^item> Over the table (\<open>Runs\<close>): any sequence of runs keeps the rows, moves every status
    along the life cycle and never changes a terminal one (C24, rule induction on
    \<open>runs\<close>); when tools and server raise nothing and the limit is at least one, as
    many runs as there are pending rows leave none pending (C25).
  \<^item> The command line (\<open>Cli\<close>): every parsed quality is one of the three presets
    (C26); \<^verbatim>\<open>--limit\<close> reads back every integer of at most 4300 digits, negative
    ones included, and exits 2 on longer ones (C27, where the code is wider than the
    specification's positive limit); a quality outside the choices exits 2 (C28); the
    first request of \<^verbatim>\<open>--limit i\<close> is the GET of the generating rows with a script,
    at most \<open>i\<close> of them (C29, the URL written out); a missing credential exits 1 before any effect for
    every command line that parses (C30).

  \<^bold>\<open>Not modelled.\<close> Printing to stdout and stderr (including the error body that
  \<^verbatim>\<open>e.read().decode()\<close> prints, assumed decodable): \<^verbatim>\<open>print\<close> changes no state
  the model observes, and the summary's counts are part of \<open>run_result\<close>; argparse's
  \<^verbatim>\<open>--\<close> marker (a command line containing it gives \<open>CliMarker\<close>, as its
  handling differs between Python versions) and the text of its messages; JSON floats in responses; symbolic links
  in the work directory; the contents of uploaded files; pathlib's normalisation of a
  video id containing \<^verbatim>\<open>/\<close> in the log path (whether the log can be written is part of
  the world); the server's own behaviour beyond the outcome of each request, except the
  read of the \<^verbatim>\<open>videos\<close> table in \<open>Runs\<close>; that the log directory can always be
  created (\<^verbatim>\<open>mkdir(exist_ok=True)\<close> is taken to succeed). No step
  loops, so no fuel is needed: every definition is total by structural recursion (the
  directory walk by the size of the tree). \<open>drain\<close> counts runs of the whole script,
  which the table's operator repeats; C25 says how many are enough.

  \<^bold>\<open>Bounds.\<close> C15 is stated for \<open>n < 2^33\<close> seconds and at most six fraction
  digits: below \<open>2^34\<close> a double keeps 19 fractional bits, more than the
  \<open>log2 10^6\<close> needed to keep a value at least \<open>10^-6\<close> below the next integer from
  rounding up. C23 is stated below \<open>2^53\<close>, the integers a double holds exactly.

  \<^bold>\<open>Plan.\<close> Next: the duration parser's error branches (non-numeric, inf, nan and
  overflow read as 0), the log file written on a failed render, and the interleaving of
  a batch with a concurrent writer of the table.
\<close>

section \<open>Properties across components\<close>

text \<open>C10. Every HTTP request a run makes, the fetch, the uploads and the row updates,
  carries the service key both as \<^verbatim>\<open>apikey\<close> and as a bearer token, whatever the
  world does.\<close>

theorem main_requests_authenticated:
  "list_all (authenticated (w_config w)) (fst (main args w))"
  by (simp add: main_def authenticated_process_videos Let_def split_def split: sum.split pyval.split)

section \<open>Witnesses\<close>

theorem process_videos_status_writes_witness:
  "snd (process_videos ex_cfg ex_srv_ok ''l'' (\<lambda>_. ex_job_ok) 0 [ex_video ''v1'', ex_video ''v2''] (0, 0)) = Inr (2, 0) \<and>
   (\<exists>ids rs. list_all2 (\<lambda>v vid. py_getitem v ''id'' = Inr vid) [ex_video ''v1'', ex_video ''v2''] ids \<and>
      length rs = length [ex_video ''v1'', ex_video ''v2''] \<and>
      status_writes (fst (process_videos ex_cfg ex_srv_ok ''l'' (\<lambda>_. ex_job_ok) 0 [ex_video ''v1'', ex_video ''v2''] (0, 0))) =
        map2 (\<lambda>vid r. (update_url ex_cfg vid, status_name r)) ids rs \<and>
      (2::nat, 0::nat) = (fst (0::nat, 0::nat) + count_list rs Rendered, snd (0::nat, 0::nat) + count_list rs Failed))"
proof -
  let ?run = "process_videos ex_cfg ex_srv_ok ''l'' (\<lambda>_. ex_job_ok) 0 [ex_video ''v1'', ex_video ''v2''] (0, 0)"
  have r: "snd ?run = Inr (2, 0)"
    by (simp add: model_defs py_defs scenario_defs py_bind_def Let_def)
  then have "?run = (fst ?run, Inr (2, 0))"
    by (metis prod.collapse)
  from r process_videos_status_writes[OF this] show ?thesis
    by (rule conjI)
qed

theorem render_failure_marks_failed_witness:
  "py_getitem (ex_video ''v1'') ''id'' = Inr (PStr ''v1'') \<and>
   snd (render_script (PStr ''from manim import *'') ''l'' (tmpdir ex_job_render_error) (manim ex_job_render_error)) = Inr None \<and>
   uploads (fst (process_video ex_cfg ex_srv_ok ''l'' ex_job_render_error (ex_video ''v1''))) = [] \<and>
   status_writes (fst (process_video ex_cfg ex_srv_ok ''l'' ex_job_render_error (ex_video ''v1''))) =
     [(update_url ex_cfg (PStr ''v1''), ''failed'')]"
proof -
  have a: "py_getitem (ex_video ''v1'') ''id'' = Inr (PStr ''v1'')"
    and b: "py_getitem (ex_video ''v1'') ''manim_script'' = Inr (PStr ''from manim import *'')"
    by (simp_all add: ex_video_def)
  have c: "snd (render_script (PStr ''from manim import *'') ''l'' (tmpdir ex_job_render_error) (manim ex_job_render_error)) = Inr None"
    by (simp add: render_script_def ex_job_render_error_def ex_job_ok_def Let_def)
  show ?thesis using a c render_failure_marks_failed[OF a b c] by simp
qed

theorem video_upload_failure_marks_failed_witness:
  "snd (supabase_upload ex_cfg ex_srv_storage_down ''videos'' (video_key (PStr ''v1'')) (''/tmp/tmpa1/out.mp4'', False) ''video/mp4'') = Inr False \<and>
   status_writes (fst (publish ex_cfg ex_srv_storage_down ex_job_ok (PStr ''v1'') (''/tmp/tmpa1/out.mp4'', False) 12 ''/tmp/tmpa1/thumb.jpg'' True)) =
     [(update_url ex_cfg (PStr ''v1''), ''failed'')]"
proof -
  have h: "snd (supabase_upload ex_cfg ex_srv_storage_down ''videos'' (video_key (PStr ''v1'')) (''/tmp/tmpa1/out.mp4'', False) ''video/mp4'') = Inr False"
    by (simp add: supabase_upload_def ex_srv_storage_down_def Let_def)
  from h video_upload_failure_marks_failed[OF h, of ex_job_ok 12 "''/tmp/tmpa1/thumb.jpg''" True] show ?thesis
    by simp
qed

theorem missing_thumbnail_ready_with_null_url_witness:
  "thumb_state ex_job_no_thumb False = (False, False) \<and>
   snd (supabase_upload ex_cfg ex_srv_ok ''videos'' (video_key (PStr ''v1'')) (''/tmp/tmpa1/out.mp4'', False) ''video/mp4'') = Inr True \<and>
   map_of (ready_updates ex_cfg (PStr ''v1'') False 12) ''thumbnail_url'' = Some PNone"
proof -
  have a: "thumb_state ex_job_no_thumb False = (False, False)"
    by (simp add: thumb_state_def ex_job_no_thumb_def ex_job_ok_def ex_manim_tree_def entry_def)
  have b: "snd (supabase_upload ex_cfg ex_srv_ok ''videos'' (video_key (PStr ''v1'')) (''/tmp/tmpa1/out.mp4'', False) ''video/mp4'') = Inr True"
    by (simp add: supabase_upload_def ex_srv_ok_def Let_def)
  from a b missing_thumbnail_ready_with_null_url[OF a b, of 12 "''/tmp/tmpa1/thumb.jpg''"] show ?thesis
    by simp
qed

theorem process_video_cleans_up_witness:
  "py_getitem (ex_video ''v1'') ''id'' = Inr (PStr ''v1'') \<and>
   (\<exists>es. fst (process_video ex_cfg ex_srv_ok ''l'' ex_job_thumb_timeout (ex_video ''v1'')) =
          ETempCreate (tmpdir ex_job_thumb_timeout) # es @ [ETempCleanup (tmpdir ex_job_thumb_timeout)] \<and>
        \<not> list_ex temp_effect es)"
proof -
  have a: "py_getitem (ex_video ''v1'') ''id'' = Inr (PStr ''v1'')"
    by (simp add: ex_video_def)
  with process_video_cleans_up[OF a] show ?thesis
    by blast
qed

theorem thumbnail_timeout_aborts_batch_witness:
  "snd (render_script (PStr ''from manim import *'') ''l'' (tmpdir ex_job_thumb_timeout) (manim ex_job_thumb_timeout)) =
     Inr (Some (''/tmp/tmpa1/media/videos/scene/480p15/ExampleScene.mp4'', False)) \<and>
   snd (process_videos ex_cfg ex_srv_ok ''l'' (\<lambda>_. ex_job_thumb_timeout) 0 [ex_video ''v1'', ex_video ''v2''] (0, 0)) =
     Inl TimeoutExpired \<and>
   status_writes (fst (process_videos ex_cfg ex_srv_ok ''l'' (\<lambda>_. ex_job_thumb_timeout) 0 [ex_video ''v1'', ex_video ''v2''] (0, 0))) = []"
proof -
  have a: "py_getitem (ex_video ''v1'') ''id'' = Inr (PStr ''v1'')"
    and b: "py_getitem (ex_video ''v1'') ''manim_script'' = Inr (PStr ''from manim import *'')"
    by (simp_all add: ex_video_def)
  have c: "snd (render_script (PStr ''from manim import *'') ''l'' (tmpdir ex_job_thumb_timeout)
                 (manim ex_job_thumb_timeout)) =
           Inr (Some (''/tmp/tmpa1/media/videos/scene/480p15/ExampleScene.mp4'', False))"
    by (simp add: render_script_def find_output_def ex_job_thumb_timeout_def ex_job_ok_def ex_manim_tree_def
                  entry_def media_rel_def is_mp4_def ends_with_def abs_path_def path_join_def Let_def)
  have d: "ffmpeg ex_job_thumb_timeout = ThumbTimeout"
    by (simp add: ex_job_thumb_timeout_def)
  from c thumbnail_timeout_aborts_batch[where jobs = "\<lambda>_. ex_job_thumb_timeout" and i = 0 and cfg = ex_cfg
      and srv = ex_srv_ok and vs = "[ex_video ''v2'']" and cnt = "(0, 0)", OF a b c d] show ?thesis
    by simp
qed

theorem main_empty_fetch_witness:
  "snd (main ex_args ex_world_empty) = Exited 0 None \<and> uploads (fst (main ex_args ex_world_empty)) = [] \<and>
   status_writes (fst (main ex_args ex_world_empty)) = []"
  by (rule main_empty_fetch[where s = 200 and v = "PList []"])
     (simp_all add: ex_args_def ex_world_empty_def ex_cfg_def)

theorem render_script_quality_fallback_witness:
  "''x'' \<notin> {''m'', ''h''} \<and>
   render_script (PStr ''s'') ''x'' ''/tmp/w'' (MExit 0 ex_manim_tree) =
     render_script (PStr ''s'') ''l'' ''/tmp/w'' (MExit 0 ex_manim_tree)"
proof -
  have h: "''x'' \<notin> {''m'', ''h''}" by simp
  with render_script_quality_fallback[OF h] show ?thesis by simp
qed

theorem supabase_upload_true_iff_witness:
  "snd (supabase_upload ex_cfg ex_srv_storage_down ''videos'' ''v1.mp4'' (''/tmp/tmpa1/out.mp4'', False) ''video/mp4'') \<noteq> Inr True \<and>
   snd (supabase_upload ex_cfg ex_srv_ok ''videos'' ''v1.mp4'' (''/tmp/tmpa1/out.mp4'', False) ''video/mp4'') = Inr True"
  by (simp add: supabase_upload_true_iff ex_srv_storage_down_def ex_srv_ok_def)

theorem find_output_sound_witness:
  "wf_entries ex_manim_tree \<and>
   find_output ex_manim_tree =
     Inr (Some ([''media'', ''videos'', ''scene'', ''480p15'', ''ExampleScene.mp4''], FFile ''ExampleScene.mp4'')) \<and>
   lookup_path ex_manim_tree [''media'', ''videos'', ''scene'', ''480p15'', ''ExampleScene.mp4''] =
     Some (FFile ''ExampleScene.mp4'')"
proof -
  have wf: "wf_entries ex_manim_tree"
    by (simp add: ex_manim_tree_def)
  have f: "find_output ex_manim_tree =
             Inr (Some ([''media'', ''videos'', ''scene'', ''480p15'', ''ExampleScene.mp4''], FFile ''ExampleScene.mp4''))"
    by (simp add: find_output_def ex_manim_tree_def media_rel_def entry_def is_mp4_def ends_with_def)
  from wf f find_output_sound[OF wf f] show ?thesis
    by simp
qed

theorem find_output_no_fallback_witness:
  "find_output ex_partial_tree = Inr None \<and>
   ([''media'', ''videos'', ''scene'', ''480p15'', ''partial_movie_files'', ''ExampleScene'', ''00000.mp4''],
    FFile ''00000.mp4'') \<in> set (rglob is_mp4 [] ex_partial_tree)"
proof -
  let ?rel = "[''media'', ''videos'', ''scene'', ''480p15'', ''partial_movie_files'', ''ExampleScene'', ''00000.mp4'']"
  have a: "lookup_path ex_partial_tree media_rel =
             Some (FDir ''scene'' [FDir ''480p15'' [FDir ''partial_movie_files'' [FDir ''ExampleScene'' [FFile ''00000.mp4'']]]])"
    by (simp add: ex_partial_tree_def media_rel_def entry_def)
  have b: "\<forall>s\<in>set [FDir ''480p15'' [FDir ''partial_movie_files'' [FDir ''ExampleScene'' [FFile ''00000.mp4'']]]].
             glob_in is_mp4 media_rel s = []"
    by (simp add: is_mp4_def ends_with_def)
  have c: "lookup_path ex_partial_tree ?rel = Some (FFile ''00000.mp4'')"
    by (simp add: ex_partial_tree_def entry_def)
  have d: "is_mp4 (node_name (FFile ''00000.mp4''))"
    by (simp add: is_mp4_def ends_with_def)
  from find_output_no_fallback[OF a b c d] show ?thesis .
qed

theorem find_output_fallback_complete_witness:
  "lookup_path ex_other_layout_tree media_rel = None \<and>
   (\<exists>r. find_output ex_other_layout_tree = Inr (Some r))"
proof -
  have a: "lookup_path ex_other_layout_tree media_rel = None"
    by (simp add: ex_other_layout_tree_def media_rel_def entry_def)
  have b: "lookup_path ex_other_layout_tree [''out'', ''ExampleScene.mp4''] = Some (FFile ''ExampleScene.mp4'')"
    by (simp add: ex_other_layout_tree_def entry_def)
  have c: "is_mp4 (node_name (FFile ''ExampleScene.mp4''))"
    by (simp add: is_mp4_def ends_with_def)
  from a find_output_fallback_complete[OF a b c] show ?thesis
    by simp
qed

theorem render_script_no_output_iff_witness:
  "snd (render_script (PStr ''s'') ''l'' ''/tmp/w'' (MExit 1 ex_manim_tree)) = Inr None \<and>
   snd (render_script (PStr ''s'') ''l'' ''/tmp/w'' (MExit 0 ex_partial_tree)) = Inr None"
proof -
  have "find_output ex_partial_tree = Inr None"
    by (simp add: find_output_def ex_partial_tree_def media_rel_def entry_def is_mp4_def ends_with_def)
  then show ?thesis
    by (simp add: render_script_no_output_iff)
qed

theorem get_video_duration_ffprobe_witness:
  "(12::nat) < 2 ^ 33 \<and> list_all is_digit ''480000'' \<and> length ''480000'' \<le> 6 \<and>
   list_all py_isspace ''\<newline>'' \<and>
   get_video_duration ''/tmp/tmpa1/out.mp4'' (ProbeOut ''12.480000\<newline>'') =
     ([ERun (ffprobe_cmd ''/tmp/tmpa1/out.mp4'') None], Inr 12)"
proof -
  have h: "(12::nat) < 2 ^ 33" "list_all is_digit ''480000''" "length ''480000'' \<le> 6"
    "list_all py_isspace ''\<newline>''"
    by (simp_all add: is_digit_def py_isspace_def)
  have s: "nat_str 12 = ''12''"
    by (simp add: nat_str.simps digit_char_def char_of_def bit_0)
  from get_video_duration_ffprobe[OF h, of "''/tmp/tmpa1/out.mp4''" False] h show ?thesis
    by (simp add: s)
qed

theorem jobs_write_disjoint_objects_witness:
  "set (uploads (fst (process_video ex_cfg ex_srv_ok ''l'' ex_job_ok (ex_video ''v1'')))) \<inter>
   set (uploads (fst (process_video ex_cfg ex_srv_ok ''h'' ex_job_no_thumb (ex_video ''v2'')))) = {}"
proof -
  have a: "py_getitem (ex_video ''v1'') ''id'' = Inr (PStr ''v1'')"
    and b: "py_getitem (ex_video ''v2'') ''id'' = Inr (PStr ''v2'')"
    and c: "py_str (PStr ''v1'') \<noteq> py_str (PStr ''v2'')"
    by (simp_all add: ex_video_def)
  from Storage.jobs_write_disjoint_objects[OF a b c] show ?thesis .
qed

theorem ready_row_names_uploaded_video_witness:
  "snd (process_video ex_cfg ex_srv_ok ''l'' ex_job_ok (ex_video ''v1'')) = Inr Rendered \<and>
   (\<exists>vid out upd pre. py_getitem (ex_video ''v1'') ''id'' = Inr vid \<and>
      snd (supabase_upload ex_cfg ex_srv_ok ''videos'' (video_key vid) out ''video/mp4'') = Inr True \<and>
      storage_url ex_cfg ''videos'' (video_key vid) \<in> set (uploads pre) \<and>
      fst (process_video ex_cfg ex_srv_ok ''l'' ex_job_ok (ex_video ''v1'')) =
        pre @ fst (supabase_update_video ex_cfg ex_srv_ok vid upd) @ [ETempCleanup (tmpdir ex_job_ok)] \<and>
      map_of upd ''video_url'' = Some (PStr (public_url ex_cfg (video_key vid))) \<and>
      map_of upd ''status'' = Some (PStr ''ready''))"
proof -
  have r: "snd (process_video ex_cfg ex_srv_ok ''l'' ex_job_ok (ex_video ''v1'')) = Inr Rendered"
    by (simp add: model_defs py_defs scenario_defs py_bind_def Let_def)
  from r Storage.ready_row_names_uploaded_video[OF r] show ?thesis
    by blast
qed

theorem thumbnail_url_despite_failed_upload_witness:
  "fst (publish ex_cfg ex_srv_thumb_rejected ex_job_ok (PStr ''v1'') (''/tmp/tmpa1/out.mp4'', False) 12
          ''/tmp/tmpa1/thumb.jpg'' True) =
     fst (supabase_upload ex_cfg ex_srv_thumb_rejected ''videos'' (video_key (PStr ''v1'')) (''/tmp/tmpa1/out.mp4'', False) ''video/mp4'') @
     fst (supabase_upload ex_cfg ex_srv_thumb_rejected ''videos'' (thumb_key (PStr ''v1'')) (''/tmp/tmpa1/thumb.jpg'', False) ''image/jpeg'') @
     fst (supabase_update_video ex_cfg ex_srv_thumb_rejected (PStr ''v1'') (ready_updates ex_cfg (PStr ''v1'') True 12)) \<and>
   map_of (ready_updates ex_cfg (PStr ''v1'') True 12) ''thumbnail_url'' =
     Some (PStr (public_url ex_cfg (thumb_key (PStr ''v1'')))) \<and>
   map_of (ready_updates ex_cfg (PStr ''v1'') True 12) ''status'' = Some (PStr ''ready'')"
proof -
  have a: "thumb_state ex_job_ok True = (True, False)"
    by (simp add: thumb_state_def)
  have b: "snd (supabase_upload ex_cfg ex_srv_thumb_rejected ''videos'' (video_key (PStr ''v1''))
              (''/tmp/tmpa1/out.mp4'', False) ''video/mp4'') = Inr True"
    by (simp add: supabase_upload_def ex_srv_thumb_rejected_def video_key_def storage_url_def ex_cfg_def Let_def)
  have c: "snd (supabase_upload ex_cfg ex_srv_thumb_rejected ''videos'' (thumb_key (PStr ''v1''))
              (''/tmp/tmpa1/thumb.jpg'', False) ''image/jpeg'') = Inr False"
    by (simp add: supabase_upload_def ex_srv_thumb_rejected_def thumb_key_def storage_url_def ex_cfg_def Let_def)
  from Storage.thumbnail_url_despite_failed_upload[OF a b c] show ?thesis .
qed

theorem main_rejects_before_effects_witness:
  "main (ex_args\<lparr>arg_quality := ''x''\<rparr>) ex_world_empty = ([], Exited 2 None) \<and>
   main ex_args (ex_world_empty\<lparr>w_config := ex_cfg\<lparr>supabase_key := []\<rparr>\<rparr>) = ([], Exited 1 None)"
proof -
  have "arg_quality (ex_args\<lparr>arg_quality := ''x''\<rparr>) \<notin> {''l'', ''m'', ''h''}"
    by simp
  then have a: "main (ex_args\<lparr>arg_quality := ''x''\<rparr>) ex_world_empty = ([], Exited 2 None)"
    using Pipeline.main_rejects_before_effects[of "ex_args\<lparr>arg_quality := ''x''\<rparr>" ex_world_empty] by blast
  have "arg_quality ex_args \<in> {''l'', ''m'', ''h''} \<and>
        (supabase_url (w_config (ex_world_empty\<lparr>w_config := ex_cfg\<lparr>supabase_key := []\<rparr>\<rparr>)) = [] \<or>
         supabase_key (w_config (ex_world_empty\<lparr>w_config := ex_cfg\<lparr>supabase_key := []\<rparr>\<rparr>)) = [])"
    by (simp add: ex_args_def)
  then have b: "main ex_args (ex_world_empty\<lparr>w_config := ex_cfg\<lparr>supabase_key := []\<rparr>\<rparr>) = ([], Exited 1 None)"
    using Pipeline.main_rejects_before_effects[of ex_args "ex_world_empty\<lparr>w_config := ex_cfg\<lparr>supabase_key := []\<rparr>\<rparr>"]
    by blast
  from a b show ?thesis ..
qed

theorem main_fetch_http_error_witness:
  "main ex_args ex_world_unauthorized =
     ([EMkdir RENDER_LOGS_DIR] @ fst (supabase_request ex_cfg (w_fetch ex_world_unauthorized) GET (fetch_path 20) PNone),
      Exited 0 None)"
proof -
  have h: "arg_quality ex_args \<in> {''l'', ''m'', ''h''}"
    "supabase_url (w_config ex_world_unauthorized) \<noteq> []" "supabase_key (w_config ex_world_unauthorized) \<noteq> []"
    "w_fetch ex_world_unauthorized GET
       (supabase_url (w_config ex_world_unauthorized) @ ''/rest/v1/'' @ fetch_path (arg_limit ex_args)) = HTTPErr 401"
    by (simp_all add: ex_args_def ex_world_unauthorized_def ex_world_empty_def ex_cfg_def)
  have c: "w_config ex_world_unauthorized = ex_cfg" "arg_limit ex_args = 20"
    by (simp_all add: ex_args_def ex_world_unauthorized_def ex_world_empty_def)
  from Pipeline.main_fetch_http_error[OF h] show ?thesis
    by (simp only: c)
qed

theorem status_update_network_error_aborts_witness:
  "process_videos ex_cfg ex_srv_patch_down ''l'' (\<lambda>_. ex_job_render_error) 0 [ex_video ''v1'', ex_video ''v2''] (0, 0) =
     (ETempCreate (tmpdir ex_job_render_error) #
        fst (render_script (PStr ''from manim import *'') ''l'' (tmpdir ex_job_render_error) (manim ex_job_render_error)) @
        fst (supabase_update_video ex_cfg ex_srv_patch_down (PStr ''v1'') [(''status'', PStr ''failed'')]) @
        [ETempCleanup (tmpdir ex_job_render_error)],
      Inl URLError)"
proof -
  have h: "py_getitem (ex_video ''v1'') ''id'' = Inr (PStr ''v1'')"
    "py_getitem (ex_video ''v1'') ''manim_script'' = Inr (PStr ''from manim import *'')"
    "snd (render_script (PStr ''from manim import *'') ''l'' (tmpdir ((\<lambda>_. ex_job_render_error) 0))
       (manim ((\<lambda>_. ex_job_render_error) 0))) = Inr None"
    "ex_srv_patch_down PATCH (update_url ex_cfg (PStr ''v1'')) = NetErr"
    by (simp_all add: ex_video_def render_script_def ex_job_render_error_def ex_job_ok_def ex_srv_patch_down_def Let_def)
  from Pipeline.status_update_network_error_aborts[where jobs = "\<lambda>_. ex_job_render_error" and i = 0
      and vs = "[ex_video ''v2'']" and cnt = "(0, 0)" and srv = ex_srv_patch_down and cfg = ex_cfg, OF h]
  show ?thesis
    by simp
qed

theorem batch_refines_table_steps_witness:
  "table_step\<^sup>*\<^sup>* [''v1'' \<mapsto> ''generating'', ''v2'' \<mapsto> ''generating'', ''v0'' \<mapsto> ''ready'']
     (apply_writes ex_cfg ex_srv_ok [''v1'' \<mapsto> ''generating'', ''v2'' \<mapsto> ''generating'', ''v0'' \<mapsto> ''ready'']
        (status_writes (fst (process_videos ex_cfg ex_srv_ok ''l'' (\<lambda>_. ex_job_ok) 0 [ex_video ''v1'', ex_video ''v2''] (0, 0))))) \<and>
   (\<exists>s. apply_writes ex_cfg ex_srv_ok [''v1'' \<mapsto> ''generating'', ''v2'' \<mapsto> ''generating'', ''v0'' \<mapsto> ''ready'']
        (status_writes (fst (process_videos ex_cfg ex_srv_ok ''l'' (\<lambda>_. ex_job_ok) 0 [ex_video ''v1'', ex_video ''v2''] (0, 0)))) ''v1'' = Some s \<and> terminal s) \<and>
   (\<exists>s. apply_writes ex_cfg ex_srv_ok [''v1'' \<mapsto> ''generating'', ''v2'' \<mapsto> ''generating'', ''v0'' \<mapsto> ''ready'']
        (status_writes (fst (process_videos ex_cfg ex_srv_ok ''l'' (\<lambda>_. ex_job_ok) 0 [ex_video ''v1'', ex_video ''v2''] (0, 0)))) ''v2'' = Some s \<and> terminal s) \<and>
   apply_writes ex_cfg ex_srv_ok [''v1'' \<mapsto> ''generating'', ''v2'' \<mapsto> ''generating'', ''v0'' \<mapsto> ''ready'']
        (status_writes (fst (process_videos ex_cfg ex_srv_ok ''l'' (\<lambda>_. ex_job_ok) 0 [ex_video ''v1'', ex_video ''v2''] (0, 0)))) ''v0'' = Some ''ready''"
proof -
  let ?run = "process_videos ex_cfg ex_srv_ok ''l'' (\<lambda>_. ex_job_ok) 0 [ex_video ''v1'', ex_video ''v2''] (0, 0)"
  have r: "snd ?run = Inr (2, 0)"
    by (simp add: model_defs py_defs scenario_defs py_bind_def Let_def)
  then have a: "?run = (fst ?run, Inr (2, 0))"
    by (metis prod.collapse)
  have b: "map (\<lambda>v. py_getitem v ''id'') [ex_video ''v1'', ex_video ''v2''] = map Inr [PStr ''v1'', PStr ''v2'']"
    and c: "distinct (map py_str [PStr ''v1'', PStr ''v2''])"
    and d: "\<forall>vid\<in>set [PStr ''v1'', PStr ''v2'']. [''v1'' \<mapsto> ''generating'', ''v2'' \<mapsto> ''generating'', ''v0'' \<mapsto> ''ready''] (py_str vid) = Some ''generating''"
    and e: "\<forall>vid\<in>set [PStr ''v1'', PStr ''v2'']. patch_applied ex_srv_ok (update_url ex_cfg vid)"
    by (simp_all add: ex_video_def patch_applied_def ex_srv_ok_def)
  let ?db = "[''v1'' \<mapsto> ''generating'', ''v2'' \<mapsto> ''generating'', ''v0'' \<mapsto> ''ready'']"
  let ?aw = "apply_writes ex_cfg ex_srv_ok ?db (status_writes (fst ?run))"
  note T = Rows.batch_refines_table_steps[OF a b c d e]
  have t: "table_step\<^sup>*\<^sup>* ?db ?aw"
    using T by (rule conjunct1)
  have V: "\<forall>vid\<in>set [PStr ''v1'', PStr ''v2'']. \<exists>s. ?aw (py_str vid) = Some s \<and> terminal s"
    using T by (rule conjunct1[OF conjunct2])
  have K: "\<forall>k. k \<notin> py_str ` set [PStr ''v1'', PStr ''v2''] \<longrightarrow> ?aw k = ?db k"
    using T by (rule conjunct2[OF conjunct2])
  have v1: "\<exists>s. ?aw ''v1'' = Some s \<and> terminal s"
    using bspec[OF V, of "PStr ''v1''"] by (simp only: py_str.simps list.set_intros(1))
  have v2: "\<exists>s. ?aw ''v2'' = Some s \<and> terminal s"
    using bspec[OF V, of "PStr ''v2''"] by simp
  have "?aw ''v0'' = ?db ''v0''"
    using spec[OF K, of "''v0''"] by simp
  then have v0: "?aw ''v0'' = Some ''ready''"
    by simp
  from t v1 v2 v0 show ?thesis
    by (intro conjI)
qed

theorem get_video_duration_int_str_witness:
  "get_video_duration ''/tmp/tmpa1/out.mp4'' (ProbeOut ('' '' @ int_str 1234 @ ''\<newline>'')) =
     ([ERun (ffprobe_cmd ''/tmp/tmpa1/out.mp4'') None], Inr 1234)"
proof -
  have h: "\<bar>1234::int\<bar> < 2 ^ 53" "list_all py_isspace '' ''" "list_all py_isspace ''\<newline>''"
    by (simp_all add: py_isspace_def)
  from Probe.get_video_duration_int_str[OF h] show ?thesis .
qed

theorem runs_follow_life_cycle_witness:
  "map row_id (fst (run_on_table ex_cfg ex_args ex_srv_ok (\<lambda>_. ex_job_ok) ex_table)) = map row_id ex_table \<and>
   table_step\<^sup>*\<^sup>* (status_of ex_table) (status_of (fst (run_on_table ex_cfg ex_args ex_srv_ok (\<lambda>_. ex_job_ok) ex_table))) \<and>
   status_of (fst (run_on_table ex_cfg ex_args ex_srv_ok (\<lambda>_. ex_job_ok) ex_table)) ''v0'' = Some ''ready''"
proof -
  have r: "runs ex_cfg ex_table (fst (run_on_table ex_cfg ex_args ex_srv_ok (\<lambda>_. ex_job_ok) ex_table))"
    by (rule runs_step[OF runs_refl, where res = "snd (run_on_table ex_cfg ex_args ex_srv_ok (\<lambda>_. ex_job_ok) ex_table)"])
       simp
  have d: "distinct (map row_id ex_table)"
    by (simp add: ex_table_def)
  have v0: "status_of ex_table ''v0'' = Some ''ready''" "terminal ''ready''"
    by (simp_all add: status_of_def ex_table_def terminal_def)
  from Runs.runs_follow_life_cycle[OF r d] v0 show ?thesis
    by blast
qed

theorem drain_empties_backlog_witness:
  "pending (drain ex_cfg ex_args ex_srv_ok (\<lambda>_ _. ex_job_ok) 1 ex_table) = []"
proof -
  have h: "distinct (map row_id ex_table)"
    "\<forall>r\<in>set ex_table. row_script r = PNone \<or> (\<exists>t. row_script r = PStr t)"
    "arg_quality ex_args \<in> {''l'', ''m'', ''h''}" "supabase_url ex_cfg \<noteq> []" "supabase_key ex_cfg \<noteq> []"
    "1 \<le> arg_limit ex_args"
    "\<forall>m u. ex_srv_ok m u \<noteq> NetErr" "\<forall>u. patch_applied ex_srv_ok u"
    by (simp_all add: ex_table_def ex_args_def ex_cfg_def ex_srv_ok_def patch_applied_def)
  have t: "\<forall>k i. tools_ok ((\<lambda>_ _. ex_job_ok) k i)"
    by (simp add: tools_ok_def scenario_defs thumb_state_def model_defs py_defs entry_def Let_def)
  have n: "length (pending ex_table) \<le> 1"
    by (simp add: pending_def ex_table_def)
  from Runs.drain_empties_backlog[OF h t n] show ?thesis .
qed

theorem parse_cli_quality_witness:
  "parse_cli [''--q'', ''m''] = CliArgs \<lparr>arg_quality = ''m'', arg_limit = 20\<rparr> \<and>
   ''m'' \<in> {''l'', ''m'', ''h''} \<and> quality_flag ''m'' = the (map_of QUALITY_FLAGS ''m'')"
proof -
  have p: "parse_cli [''--q'', ''m''] = CliArgs \<lparr>arg_quality = ''m'', arg_limit = 20\<rparr>"
    by (simp add: parse_cli_def classify_def option_strings_def option_tuples_def)
  show ?thesis
    using p parse_cli_quality[OF p] by simp
qed

theorem parse_cli_bad_quality_witness:
  "parse_cli [''--quality'', ''x''] = CliExit 2 \<and> parse_cli [''--quality='' @ ''x''] = CliExit 2"
  using parse_cli_bad_quality[of "''x''"] by simp

theorem run_script_fetch_limit_witness:
  "\<exists>es r. run_script [''--limit'', int_str (-5)] ex_env ex_world_empty =
     Some (EMkdir RENDER_LOGS_DIR #
           ERequest GET (''https://db.example/rest/v1/videos?status=eq.generating&manim_script=not.is.null&limit='' @
                         int_str (-5) @ ''&select=id,content_element_id,manim_script'')
             (auth_headers \<lparr>supabase_url = ''https://db.example'', supabase_key = ''service-key''\<rparr> ''application/json'' @
              [(''Prefer'', ''return=representation'')]) None # es, r)"
proof -
  have l: "\<bar>-5::int\<bar> < 10 ^ int_max_str_digits"
    by (rule one_digit_within_limit) simp
  show ?thesis
    using run_script_fetch_limit[of ex_env "''https://db.example''" "''service-key''" "-5" ex_world_empty, OF _ _ _ _ l]
    by (simp add: ex_env_def)
qed

theorem run_script_missing_env_witness:
  "run_script [''--limit'', int_str 7] (\<lambda>_. None) ex_world_empty = Some ([], Exited 1 None)"
proof -
  have l: "\<bar>7::int\<bar> < 10 ^ int_max_str_digits"
    by (rule one_digit_within_limit) simp
  have p: "parse_cli [''--limit'', int_str 7] = CliArgs \<lparr>arg_quality = ''l'', arg_limit = 7\<rparr>"
    using l by (simp add: parse_cli_loop classify_limit classify_int_str py_int_int_str)
  show ?thesis
    using run_script_missing_env[OF p, of "\<lambda>_. None" ex_world_empty] by simp
qed

end
